(* ===== verification/Prelude.thy ===== *)
theory Prelude
  imports Main "HOL-Library.Word"
begin

text \<open>
  Shared vocabulary of the ESP8266 sketch model: the machine integer types of the
  Arduino/ESP8266 toolchain, the digital pin levels, the decimal printing of
  \<^verbatim>\<open>Print::print(unsigned, DEC)\<close> and \<^verbatim>\<open>String += int\<close> with its parser, the
  splitting of a string at a separator, and the two's-complement reading of a
  16-bit value that the display cursor needs. The collections \<open>lib_defs\<close> and
  \<open>sketch_defs\<close> gather the definitions of the library calls and of the sketch's
  own functions, so that a component proof unfolds them with one name.
\<close>

named_theorems lib_defs "definitions of the modelled library calls"
named_theorems sketch_defs "definitions of the functions of main.cpp"

type_synonym u8 = "8 word"
type_synonym i16 = "16 word"

text \<open>Arduino's \<^verbatim>\<open>LOW\<close> and \<^verbatim>\<open>HIGH\<close>.\<close>

datatype level = LOW | HIGH

text \<open>The line ending \<^verbatim>\<open>"\r\n"\<close> of \<^verbatim>\<open>println\<close>.\<close>

abbreviation crlf :: string where
  "crlf \<equiv> [CHR 0x0D, CHR ''\<newline>'']"

subsection \<open>Decimal numerals\<close>

definition digit_char :: "nat \<Rightarrow> char" where
  "digit_char d = char_of (48 + d)"

definition is_digit :: "char \<Rightarrow> bool" where
  "is_digit c \<longleftrightarrow> 48 \<le> (of_char c :: nat) \<and> (of_char c :: nat) \<le> 57"

definition digit_val :: "char \<Rightarrow> nat" where
  "digit_val c = of_char c - 48"

text \<open>\<^verbatim>\<open>Print::printNumber(n, 10)\<close>: the digits of \<open>n\<close>, most significant first.\<close>

fun dec_string :: "nat \<Rightarrow> string" where
  "dec_string n = (if n < 10 then [digit_char n] else dec_string (n div 10) @ [digit_char (n mod 10)])"

declare dec_string.simps [simp del]

text \<open>A run of decimal digits read back, as \<^verbatim>\<open>IPAddress::fromString\<close> accumulates it.\<close>

definition parse_dec :: "string \<Rightarrow> nat option" where
  "parse_dec s =
     (if s \<noteq> [] \<and> (\<forall>c\<in>set s. is_digit c)
      then Some (foldl (\<lambda>n c. 10 * n + digit_val c) 0 s) else None)"

fun split_on :: "char \<Rightarrow> string \<Rightarrow> string list" where
  "split_on c [] = [[]]"
| "split_on c (x # xs) =
     (if x = c then [] # split_on c xs
      else (let r = split_on c xs in (x # hd r) # tl r))"

text \<open>\<^verbatim>\<open>String::indexOf(c, from)\<close> and \<^verbatim>\<open>String::substring(left, right)\<close> (right clamped to the length).\<close>

definition indexOf :: "char \<Rightarrow> string \<Rightarrow> nat \<Rightarrow> nat option" where
  "indexOf c s from =
     (if c \<in> set (drop from s) then Some (from + length (takeWhile (\<lambda>x. x \<noteq> c) (drop from s))) else None)"

definition substring :: "string \<Rightarrow> nat \<Rightarrow> nat \<Rightarrow> string" where
  "substring s left right = take (min right (length s) - left) (drop left s)"

subsection \<open>Lemmas on digits\<close>

lemma digit_char_values [simp]:
  "digit_char 0 = CHR ''0''" "digit_char 1 = CHR ''1''" "digit_char 2 = CHR ''2''"
  "digit_char 3 = CHR ''3''" "digit_char 4 = CHR ''4''" "digit_char 5 = CHR ''5''"
  "digit_char 6 = CHR ''6''" "digit_char 7 = CHR ''7''" "digit_char 8 = CHR ''8''"
  "digit_char 9 = CHR ''9''" "digit_char (Suc 0) = CHR ''1''"
  by (simp_all add: digit_char_def char_of_def bit_simps)

lemma digit_char_is_digit [simp]: "d < 10 \<Longrightarrow> is_digit (digit_char d)"
  by (simp add: digit_char_def is_digit_def)

lemma digit_val_digit_char [simp]: "d < 10 \<Longrightarrow> digit_val (digit_char d) = d"
  by (simp add: digit_char_def digit_val_def)

lemma digit_char_not_dot [simp]: "d < 10 \<Longrightarrow> digit_char d \<noteq> CHR ''.''"
proof
  assume "d < 10" and "digit_char d = CHR ''.''"
  then have "of_char (digit_char d) = (of_char (CHR ''.'') :: nat)" by simp
  with \<open>d < 10\<close> show False by (simp add: digit_char_def)
qed

lemma is_digit_dot [simp]: "\<not> is_digit CHR ''.''"
  by (simp add: is_digit_def)

lemma dec_string_digits: "c \<in> set (dec_string n) \<Longrightarrow> is_digit c"
proof (induction n rule: dec_string.induct)
  case (1 n)
  then show ?case by (subst (asm) dec_string.simps) (auto split: if_splits)
qed

lemma dec_string_nonempty [simp]: "dec_string n \<noteq> []"
  by (subst dec_string.simps) simp

lemma dec_string_no_dot [simp]: "CHR ''.'' \<notin> set (dec_string n)"
proof
  assume "CHR ''.'' \<in> set (dec_string n)"
  then have "is_digit (CHR ''.'')" by (rule dec_string_digits)
  then show False by (simp add: is_digit_def)
qed

lemma foldl_dec_string:
  "foldl (\<lambda>n c. 10 * n + digit_val c) 0 (dec_string n) = n"
proof (induction n rule: dec_string.induct)
  case (1 n)
  show ?case
  proof (cases "n < 10")
    case True
    then show ?thesis by (subst dec_string.simps) simp
  next
    case False
    with "1.IH" show ?thesis by (subst dec_string.simps) simp
  qed
qed

lemma parse_dec_dec_string [simp]: "parse_dec (dec_string n) = Some n"
  by (simp add: parse_dec_def foldl_dec_string dec_string_digits)

lemma length_dec_string_le: "n < 10 ^ k \<Longrightarrow> 0 < k \<Longrightarrow> length (dec_string n) \<le> k"
proof (induction n arbitrary: k rule: dec_string.induct)
  case (1 n)
  show ?case
  proof (cases "n < 10")
    case True
    with "1.prems" show ?thesis by (subst dec_string.simps) simp
  next
    case False
    with "1.prems" obtain k' where k: "k = Suc k'" and "0 < k'"
      by (cases k; cases "k - 1") auto
    with "1.prems" have "n div 10 < 10 ^ k'" by (simp add: less_mult_imp_div_less)
    with False "1.IH" \<open>0 < k'\<close> k show ?thesis by (subst dec_string.simps) simp
  qed
qed

lemma length_dec_string_pos: "1 \<le> length (dec_string n)"
  by (simp add: Suc_le_eq)

subsection \<open>Splitting at a separator\<close>

lemma length_takeWhile_neq_less: "c \<in> set xs \<Longrightarrow> length (takeWhile (\<lambda>x. x \<noteq> c) xs) < length xs"
  by (induction xs) auto

lemma indexOf_Some_bound: "indexOf c s from = Some n \<Longrightarrow> from \<le> n \<and> n < length s"
  using length_takeWhile_neq_less [of c "drop from s"] by (auto simp: indexOf_def split: if_splits)

lemma split_on_nonempty [simp]: "split_on c s \<noteq> []"
  by (induction s) (auto simp: Let_def)

lemma length_split_on: "length (split_on c s) = Suc (count_list s c)"
  by (induction s) (auto simp: Let_def)

lemma split_on_no_sep: "c \<notin> set a \<Longrightarrow> split_on c a = [a]"
  by (induction a) (auto simp: Let_def)

lemma split_on_append_sep:
  "c \<notin> set a \<Longrightarrow> split_on c (a @ c # rest) = a # split_on c rest"
proof (induction a)
  case Nil
  then show ?case by simp
next
  case (Cons x a)
  then show ?case by (auto simp: Let_def)
qed

lemma unat_u8_le [simp]: "unat (a::u8) \<le> 255"
proof -
  have "unat a < 2 ^ LENGTH(8)" by (rule unsigned_less)
  then show ?thesis by simp
qed

subsection \<open>Two's complement of 16-bit values\<close>

text \<open>
  The cursor of the display library is an \<^verbatim>\<open>int16_t\<close>: what a sum stored there
  reads back as is the sum taken modulo \<open>2^16\<close> into \<open>[-2^15, 2^15)\<close>.
\<close>

lemma sint_i16_of_int: "sint (word_of_int k :: i16) = (k + 32768) mod 65536 - 32768"
proof -
  have "sint (word_of_int k :: i16) = signed_take_bit 15 k"
    by (simp add: sint_sbintrunc')
  also have "\<dots> = take_bit 16 (k + 2 ^ 15) - 2 ^ 15"
    by (simp add: signed_take_bit_eq_take_bit_shift)
  also have "\<dots> = (k + 32768) mod 65536 - 32768"
    by (simp add: take_bit_eq_mod)
  finally show ?thesis .
qed

lemma sint_i16_small: "-32768 \<le> k \<Longrightarrow> k < 32768 \<Longrightarrow> sint (word_of_int k :: i16) = k"
  by (simp add: sint_i16_of_int)

text \<open>
  A cursor that has moved down \<open>k\<close> times by 16 rows (plus \<open>j < 16\<close>) reads back as
  \<open>16 * (k mod 4096) + j\<close> taken into the signed range: the rows repeat every 4096 steps.
\<close>

lemma mod_shift_small: "0 \<le> (y::int) \<Longrightarrow> y < 32768 \<Longrightarrow> (y + 32768) mod 65536 - 32768 = y"
  by simp

lemma mod_shift_large: "32768 \<le> (y::int) \<Longrightarrow> y < 65536 \<Longrightarrow> (y + 32768) mod 65536 - 32768 = y - 65536"
proof -
  assume a: "32768 \<le> y" "y < 65536"
  have "(y + 32768) mod 65536 = y + 32768 - 65536"
    using a by (subst mod_pos_geq) simp_all
  then show ?thesis by simp
qed

lemma sint_row16:
  fixes k j :: nat
  assumes "j < 16"
  defines "y \<equiv> 16 * (k mod 4096) + j"
  shows "sint (word_of_nat (16 * k + j) :: i16) = (if y < 32768 then int y else int y - 65536)"
proof -
  have "(16 * k + j) mod 65536 = (16 * k mod 65536 + j) mod 65536" by (simp add: mod_add_left_eq)
  also have "16 * k mod 65536 = 16 * (k mod 4096)" using mult_mod_right [of 16 k 4096] by simp
  also have "(16 * (k mod 4096) + j) mod 65536 = y"
  proof -
    have "k mod 4096 < 4096" by simp
    with assms have "16 * (k mod 4096) + j < 65536" by linarith
    then show ?thesis by (simp add: y_def)
  qed
  finally have m: "int (16 * k + j) mod 65536 = int y" by (metis of_nat_numeral zmod_int)
  have y: "y < 65536" using assms(1) unfolding y_def by simp
  have "sint (word_of_nat (16 * k + j) :: i16) = (int (16 * k + j) + 32768) mod 65536 - 32768"
    using sint_i16_of_int [of "int (16 * k + j)"] by simp
  also have "\<dots> = (int (16 * k + j) mod 65536 + 32768) mod 65536 - 32768"
    by (simp add: mod_add_left_eq)
  also have "\<dots> = (int y + 32768) mod 65536 - 32768" by (simp only: m)
  also have "\<dots> = (if y < 32768 then int y else int y - 65536)"
    using y mod_shift_small [of "int y"] mod_shift_large [of "int y"] by simp
  finally show ?thesis .
qed

lemma row16_visible:
  assumes "j \<le> 8"
  shows "(-7 \<le> sint (word_of_nat (16 * k + j) :: i16) \<and> sint (word_of_nat (16 * k + j) :: i16) < 64)
           \<longleftrightarrow> k mod 4096 < 4"
proof -
  have q: "k mod 4096 < 4096" by simp
  show ?thesis
  proof (cases "16 * (k mod 4096) + j < 32768")
    case True
    then show ?thesis using sint_row16 [of j k] assms by (simp; linarith)
  next
    case False
    then show ?thesis using sint_row16 [of j k] assms q by simp
  qed
qed

lemma row16_value:
  assumes "j \<le> 8" "k mod 4096 < 4"
  shows "sint (word_of_nat (16 * k + j) :: i16) = 16 * int (k mod 4096) + int j"
  using sint_row16 [of j k] assms by simp

end
