(* ===== verification/Gfx.thy ===== *)
theory Gfx
  imports Prelude
begin

text \<open>
  The text-drawing part of the Adafruit GFX and SSD1306 libraries that
  \<^verbatim>\<open>displayIP\<close> and \<^verbatim>\<open>setupScreen\<close> call. The libraries are not part of the
  repository; the model follows their documented behaviour at the level of character
  cells: the frame buffer is the list of items drawn into it since the last
  \<^verbatim>\<open>clearDisplay\<close> (a glyph at a pixel position, or the splash logo that
  \<^verbatim>\<open>begin\<close> draws), and the panel is what the last \<^verbatim>\<open>display()\<close> sent. The cursor is
  kept at its width: \<^verbatim>\<open>cursor_x\<close> and \<^verbatim>\<open>cursor_y\<close> are \<^verbatim>\<open>int16_t\<close>, and each newline
  adds \<open>8 * textsize_y\<close> to \<^verbatim>\<open>cursor_y\<close> modulo \<open>2^16\<close>. \<^verbatim>\<open>clearDisplay\<close>
  empties the buffer and leaves the cursor where it is. A glyph whose 6x8 cell lies
  wholly outside the panel is clipped by \<^verbatim>\<open>drawChar\<close> and leaves no trace. The lemmas
  describe \<^verbatim>\<open>print\<close> and \<^verbatim>\<open>println\<close> of a line that fits the panel's width.
\<close>

datatype gfx_item = Splash | Glyph int int char "16 word"

record gfx =
  gfx_width :: int
  gfx_height :: int
  cursor_x :: i16
  cursor_y :: i16
  textsize_x :: u8
  textsize_y :: u8
  textcolor :: "16 word"
  textbgcolor :: "16 word"
  wrap :: bool
  cp437 :: bool
  vccstate :: u8
  i2caddr :: u8
  buffer :: "gfx_item list"
  panel :: "gfx_item list"

text \<open>The constructor \<^verbatim>\<open>Adafruit_SSD1306(w, h, &Wire, rst)\<close> with its GFX defaults.\<close>

definition ssd1306_new :: "int \<Rightarrow> int \<Rightarrow> gfx" where
  "ssd1306_new w h =
     \<lparr>gfx_width = w, gfx_height = h, cursor_x = 0, cursor_y = 0,
      textsize_x = 1, textsize_y = 1, textcolor = 0xFFFF, textbgcolor = 0xFFFF,
      wrap = True, cp437 = False, vccstate = 0, i2caddr = 0, buffer = [], panel = []\<rparr>"

text \<open>
  \<^verbatim>\<open>begin(vcs, addr)\<close>: when the buffer can be allocated (\<open>ok\<close>, decided by the
  hardware) it is cleared, the splash logo is drawn into it (the panel is taller
  than 32 rows) and the call returns true; the panel itself is not refreshed.
\<close>

definition ssd1306_begin :: "bool \<Rightarrow> u8 \<Rightarrow> u8 \<Rightarrow> gfx \<Rightarrow> bool \<times> gfx" where
  "ssd1306_begin ok vcs addr g =
     (if ok then (True, g\<lparr>vccstate := vcs, i2caddr := addr,
                         buffer := (if 32 < gfx_height g then [Splash] else [])\<rparr>)
      else (False, g))"

definition ssd1306_clearDisplay :: "gfx \<Rightarrow> gfx" where
  "ssd1306_clearDisplay g = g\<lparr>buffer := []\<rparr>"

definition ssd1306_display :: "gfx \<Rightarrow> gfx" where
  "ssd1306_display g = g\<lparr>panel := buffer g\<rparr>"

definition gfx_setTextSize :: "u8 \<Rightarrow> gfx \<Rightarrow> gfx" where
  "gfx_setTextSize s g =
     g\<lparr>textsize_x := (if 0 < s then s else 1), textsize_y := (if 0 < s then s else 1)\<rparr>"

definition gfx_setTextColor :: "16 word \<Rightarrow> gfx \<Rightarrow> gfx" where
  "gfx_setTextColor c g = g\<lparr>textcolor := c, textbgcolor := c\<rparr>"

text \<open>Outside CP437 mode the classic font skips code 176: \<^verbatim>\<open>if (!_cp437 && c >= 176) c++\<close>.\<close>

definition cp437_adjust :: "bool \<Rightarrow> char \<Rightarrow> char" where
  "cp437_adjust cp c = (if \<not> cp \<and> 176 \<le> (of_char c :: nat) then char_of (of_char c + (1::nat)) else c)"

definition gfx_drawChar :: "int \<Rightarrow> int \<Rightarrow> char \<Rightarrow> 16 word \<Rightarrow> int \<Rightarrow> int \<Rightarrow> gfx \<Rightarrow> gfx" where
  "gfx_drawChar x y c color sx sy g =
     (if gfx_width g \<le> x \<or> gfx_height g \<le> y \<or> x + 6 * sx - 1 < 0 \<or> y + 8 * sy - 1 < 0 then g
      else g\<lparr>buffer := buffer g @ [Glyph x y (cp437_adjust (cp437 g) c) color]\<rparr>)"

definition gfx_newline :: "gfx \<Rightarrow> gfx" where
  "gfx_newline g = g\<lparr>cursor_x := 0, cursor_y := cursor_y g + word_of_nat (unat (textsize_y g) * 8)\<rparr>"

text \<open>\<^verbatim>\<open>Adafruit_GFX::write(uint8_t)\<close> for the built-in font.\<close>

definition gfx_write :: "char \<Rightarrow> gfx \<Rightarrow> gfx" where
  "gfx_write c g =
     (if c = CHR ''\<newline>'' then gfx_newline g
      else if c = CHR 0x0D then g
      else
        let g1 = (if wrap g \<and> gfx_width g < sint (cursor_x g) + int (unat (textsize_x g)) * 6
                  then gfx_newline g else g);
            g2 = gfx_drawChar (sint (cursor_x g1)) (sint (cursor_y g1)) c (textcolor g1)
                   (int (unat (textsize_x g1))) (int (unat (textsize_y g1))) g1
        in g2\<lparr>cursor_x := cursor_x g2 + word_of_nat (unat (textsize_x g2) * 6)\<rparr>)"

text \<open>\<^verbatim>\<open>Print::print(String)\<close> writes the characters one by one; \<^verbatim>\<open>println\<close> adds \<^verbatim>\<open>"\r\n"\<close>.\<close>

definition gfx_print :: "string \<Rightarrow> gfx \<Rightarrow> gfx" where
  "gfx_print s g = fold gfx_write s g"

definition gfx_println :: "string \<Rightarrow> gfx \<Rightarrow> gfx" where
  "gfx_println s g = gfx_print (s @ crlf) g"

declare ssd1306_new_def [lib_defs] ssd1306_begin_def [lib_defs] ssd1306_clearDisplay_def [lib_defs]
  ssd1306_display_def [lib_defs] gfx_setTextSize_def [lib_defs] gfx_setTextColor_def [lib_defs]

subsection \<open>A line of text that fits\<close>

text \<open>The glyphs a line leaves in the buffer, left to right from column \<open>x\<close>.\<close>

fun glyph_row :: "int \<Rightarrow> int \<Rightarrow> 16 word \<Rightarrow> bool \<Rightarrow> string \<Rightarrow> gfx_item list" where
  "glyph_row x y col cp [] = []"
| "glyph_row x y col cp (c # cs) = Glyph x y (cp437_adjust cp c) col # glyph_row (x + 6) y col cp cs"

definition row_visible :: "gfx \<Rightarrow> int \<Rightarrow> bool" where
  "row_visible g y \<longleftrightarrow> -7 \<le> y \<and> y < gfx_height g"

definition plain_line :: "string \<Rightarrow> bool" where
  "plain_line s \<longleftrightarrow> CHR ''\<newline>'' \<notin> set s \<and> CHR 0x0D \<notin> set s"

text \<open>
  What an observer reads on one pixel row of a list of drawn items: the characters of
  the glyphs drawn at that row, left to right in drawing order.
\<close>

fun read_row :: "gfx_item list \<Rightarrow> int \<Rightarrow> string" where
  "read_row [] y = []"
| "read_row (Splash # items) y = read_row items y"
| "read_row (Glyph x y' c col # items) y = (if y' = y then c # read_row items y else read_row items y)"

lemma gfx_write_plain:
  assumes "textsize_x g = 1" "textsize_y g = 1"
    and "cursor_x g = word_of_int x" "0 \<le> x" "x + 6 \<le> gfx_width g" "gfx_width g < 32000"
    and "c \<noteq> CHR ''\<newline>''" "c \<noteq> CHR 0x0D"
  shows "gfx_write c g =
           g\<lparr>cursor_x := word_of_int (x + 6),
             buffer := buffer g @ (if row_visible g (sint (cursor_y g))
                                   then [Glyph x (sint (cursor_y g)) (cp437_adjust (cp437 g) c) (textcolor g)]
                                   else [])\<rparr>"
proof -
  have sx: "sint (cursor_x g) = x" using assms(3-6) by (simp add: sint_i16_small)
  show ?thesis
    using assms sx by (auto simp: gfx_write_def gfx_drawChar_def row_visible_def Let_def)
qed

lemma gfx_print_plain:
  assumes "textsize_x g = 1" "textsize_y g = 1"
    and "cursor_x g = word_of_int x" "0 \<le> x" "x + 6 * int (length s) \<le> gfx_width g"
    and "gfx_width g < 32000" "plain_line s"
  shows "gfx_print s g =
           g\<lparr>cursor_x := word_of_int (x + 6 * int (length s)),
             buffer := buffer g @ (if row_visible g (sint (cursor_y g))
                                   then glyph_row x (sint (cursor_y g)) (textcolor g) (cp437 g) s
                                   else [])\<rparr>"
  using assms
proof (induction s arbitrary: g x)
  case Nil
  then show ?case by (simp add: gfx_print_def)
next
  case (Cons c s)
  let ?g1 = "gfx_write c g"
  have step: "?g1 = g\<lparr>cursor_x := word_of_int (x + 6),
             buffer := buffer g @ (if row_visible g (sint (cursor_y g))
                                   then [Glyph x (sint (cursor_y g)) (cp437_adjust (cp437 g) c) (textcolor g)]
                                   else [])\<rparr>"
    using Cons.prems by (intro gfx_write_plain) (auto simp: plain_line_def)
  have rest: "gfx_print s ?g1 =
           ?g1\<lparr>cursor_x := word_of_int (x + 6 + 6 * int (length s)),
             buffer := buffer ?g1 @ (if row_visible ?g1 (sint (cursor_y ?g1))
                                   then glyph_row (x + 6) (sint (cursor_y ?g1)) (textcolor ?g1) (cp437 ?g1) s
                                   else [])\<rparr>"
    using Cons.prems step by (intro Cons.IH) (auto simp: plain_line_def row_visible_def)
  show ?case
    using step rest by (simp add: gfx_print_def row_visible_def algebra_simps)
qed

lemma gfx_println_plain:
  assumes "textsize_x g = 1" "textsize_y g = 1"
    and "cursor_x g = 0" "6 * int (length s) \<le> gfx_width g"
    and "gfx_width g < 32000" "plain_line s"
  shows "gfx_println s g =
           g\<lparr>cursor_x := 0, cursor_y := cursor_y g + 8,
             buffer := buffer g @ (if row_visible g (sint (cursor_y g))
                                   then glyph_row 0 (sint (cursor_y g)) (textcolor g) (cp437 g) s
                                   else [])\<rparr>"
proof -
  have "gfx_print s g =
           g\<lparr>cursor_x := word_of_int (6 * int (length s)),
             buffer := buffer g @ (if row_visible g (sint (cursor_y g))
                                   then glyph_row 0 (sint (cursor_y g)) (textcolor g) (cp437 g) s
                                   else [])\<rparr>"
    using gfx_print_plain [of g 0 s] assms by simp
  then show ?thesis
    using assms by (simp add: gfx_println_def gfx_print_def gfx_write_def gfx_newline_def)
qed

subsection \<open>Reading a row back\<close>

lemma read_row_append [simp]: "read_row (xs @ ys) y = read_row xs y @ read_row ys y"
  by (induction xs y rule: read_row.induct) simp_all

lemma read_row_glyph_row [simp]:
  "read_row (glyph_row x y' col cp s) y = (if y' = y then map (cp437_adjust cp) s else [])"
  by (induction s arbitrary: x) auto

lemma cp437_adjust_ascii: "(of_char c :: nat) < 176 \<Longrightarrow> cp437_adjust cp c = c"
  by (simp add: cp437_adjust_def)

lemma map_cp437_adjust_ascii:
  "\<forall>c\<in>set s. (of_char c :: nat) < 176 \<Longrightarrow> map (cp437_adjust cp) s = s"
  by (induction s) (simp_all add: cp437_adjust_ascii)

end
