(* ===== verification/WebServer.thy ===== *)
theory WebServer
  imports Prelude
begin

text \<open>
  The part of the ESP8266 core's \<^verbatim>\<open>ESP8266WebServer\<close> that the sketch uses, generic
  in the type \<open>'h\<close> of handler functions the application registers: the request
  as the server has parsed it (method, path without the query, the ordered argument
  list), the registration calls \<^verbatim>\<open>on\<close>, \<^verbatim>\<open>onNotFound\<close> and \<^verbatim>\<open>begin\<close>, the
  request accessors the handlers call, \<^verbatim>\<open>send\<close>, and the routing of
  \<^verbatim>\<open>_handleRequest\<close>: the first registered handler whose method and path match,
  else the not-found handler, else the built-in 404 reply. The library is not part of
  the repository and is modelled from its documented behaviour; connection handling
  and the parsing of the request text are not modelled (a request reaches the model
  already parsed, or not at all).
\<close>

datatype http_method =
  HTTP_ANY | HTTP_GET | HTTP_HEAD | HTTP_POST | HTTP_PUT | HTTP_PATCH | HTTP_DELETE | HTTP_OPTIONS

record request =
  req_method :: http_method
  req_uri :: string
  req_args :: "(string \<times> string) list"

record response =
  resp_code :: nat
  resp_type :: string
  resp_body :: string

record 'h server =
  srv_port :: nat
  srv_handlers :: "(string \<times> http_method \<times> 'h) list"
  srv_notFound :: "'h option"
  srv_began :: bool
  srv_current :: request
  srv_sent :: "response list"

definition no_request :: request where
  "no_request = \<lparr>req_method = HTTP_ANY, req_uri = [], req_args = []\<rparr>"

definition server_new :: "nat \<Rightarrow> 'h server" where
  "server_new port =
     \<lparr>srv_port = port, srv_handlers = [], srv_notFound = None, srv_began = False,
      srv_current = no_request, srv_sent = []\<rparr>"

text \<open>\<^verbatim>\<open>on(uri, fn)\<close> registers \<open>fn\<close> for every method, after the handlers already there.\<close>

definition server_on :: "string \<Rightarrow> 'h \<Rightarrow> 'h server \<Rightarrow> 'h server" where
  "server_on uri h s = s\<lparr>srv_handlers := srv_handlers s @ [(uri, HTTP_ANY, h)]\<rparr>"

definition server_onNotFound :: "'h \<Rightarrow> 'h server \<Rightarrow> 'h server" where
  "server_onNotFound h s = s\<lparr>srv_notFound := Some h\<rparr>"

definition server_begin :: "'h server \<Rightarrow> 'h server" where
  "server_begin s = s\<lparr>srv_began := True\<rparr>"

definition server_send :: "nat \<Rightarrow> string \<Rightarrow> string \<Rightarrow> 'h server \<Rightarrow> 'h server" where
  "server_send code ctype body s =
     s\<lparr>srv_sent := srv_sent s @ [\<lparr>resp_code = code, resp_type = ctype, resp_body = body\<rparr>]\<rparr>"

subsection \<open>Accessors of the current request\<close>

definition server_uri :: "'h server \<Rightarrow> string" where
  "server_uri s = req_uri (srv_current s)"

definition server_method :: "'h server \<Rightarrow> http_method" where
  "server_method s = req_method (srv_current s)"

definition server_args :: "'h server \<Rightarrow> nat" where
  "server_args s = length (req_args (srv_current s))"

text \<open>\<^verbatim>\<open>argName(i)\<close> and \<^verbatim>\<open>arg(i)\<close> return the empty string for an index out of range.\<close>

definition server_argName :: "nat \<Rightarrow> 'h server \<Rightarrow> string" where
  "server_argName i s =
     (if i < length (req_args (srv_current s)) then fst (req_args (srv_current s) ! i) else [])"

definition server_arg :: "nat \<Rightarrow> 'h server \<Rightarrow> string" where
  "server_arg i s =
     (if i < length (req_args (srv_current s)) then snd (req_args (srv_current s) ! i) else [])"

declare server_new_def [lib_defs] server_on_def [lib_defs] server_onNotFound_def [lib_defs]
  server_begin_def [lib_defs] server_send_def [lib_defs] server_uri_def [lib_defs]
  server_method_def [lib_defs] server_args_def [lib_defs] server_argName_def [lib_defs]
  server_arg_def [lib_defs]

subsection \<open>Routing\<close>

text \<open>\<^verbatim>\<open>FunctionRequestHandler::canHandle\<close>: the method matches (or the handler takes any) and the path is equal.\<close>

fun can_handle :: "string \<times> http_method \<times> 'h \<Rightarrow> http_method \<Rightarrow> string \<Rightarrow> bool" where
  "can_handle (uri, m, h) meth path \<longleftrightarrow> (m = HTTP_ANY \<or> m = meth) \<and> uri = path"

datatype 'h route = Route 'h | Default404

definition server_route :: "'h server \<Rightarrow> request \<Rightarrow> 'h route" where
  "server_route s r =
     (case find (\<lambda>e. can_handle e (req_method r) (req_uri r)) (srv_handlers s) of
        Some (_, _, h) \<Rightarrow> Route h
      | None \<Rightarrow> (case srv_notFound s of Some h \<Rightarrow> Route h | None \<Rightarrow> Default404))"

lemma server_route_match:
  "find (\<lambda>e. can_handle e (req_method r) (req_uri r)) (srv_handlers s) = Some (u, m, h) \<Longrightarrow>
   server_route s r = Route h"
  by (simp add: server_route_def)

lemma server_route_unmatched:
  "\<forall>e\<in>set (srv_handlers s). \<not> can_handle e (req_method r) (req_uri r) \<Longrightarrow>
   server_route s r = (case srv_notFound s of Some h \<Rightarrow> Route h | None \<Rightarrow> Default404)"
proof -
  assume "\<forall>e\<in>set (srv_handlers s). \<not> can_handle e (req_method r) (req_uri r)"
  then have "find (\<lambda>e. can_handle e (req_method r) (req_uri r)) (srv_handlers s) = None"
    by (simp only: find_None_iff) blast
  then show ?thesis by (simp add: server_route_def)
qed

end
