(* ===== verification/IPAddress.thy ===== *)
theory IPAddress
  imports Prelude
begin

text \<open>
  The ESP8266 core's \<^verbatim>\<open>IPAddress\<close> (IPv4 only, as the sketch uses it): the
  value \<^verbatim>\<open>WiFi.localIP()\<close> returns, its printing by \<^verbatim>\<open>printTo\<close>/\<^verbatim>\<open>toString\<close>
  (used by \<^verbatim>\<open>Serial.println(WiFi.localIP())\<close> in \<^verbatim>\<open>setupWiFi\<close> and by
  \<^verbatim>\<open>WiFi.localIP().toString()\<close> in \<^verbatim>\<open>loop\<close>), and \<^verbatim>\<open>fromString4\<close>, the parser
  that reads such a string back character by character. The library is not part of
  the repository; it is modelled from its documented behaviour: an address that is
  not set (\<open>0.0.0.0\<close> or \<open>255.255.255.255\<close>) prints as \<open>(IP unset)\<close>. The
  lemmas show the round trip from an address to its text and back, and the length
  bounds on the text that the display rendering relies on.
\<close>

datatype ipaddr = IPv4 u8 u8 u8 u8

definition ip_isSet :: "ipaddr \<Rightarrow> bool" where
  "ip_isSet ip \<longleftrightarrow> ip \<noteq> IPv4 0 0 0 0 \<and> ip \<noteq> IPv4 255 255 255 255"

fun ip_dotted :: "ipaddr \<Rightarrow> string" where
  "ip_dotted (IPv4 a b c d) =
     dec_string (unat a) @ ''.'' @ dec_string (unat b) @ ''.'' @
     dec_string (unat c) @ ''.'' @ dec_string (unat d)"

definition ip_toString :: "ipaddr \<Rightarrow> string" where
  "ip_toString ip = (if ip_isSet ip then ip_dotted ip else ''(IP unset)'')"

fun ip_of_octets :: "u8 list \<Rightarrow> u8 \<Rightarrow> ipaddr option" where
  "ip_of_octets [a, b, c] d = Some (IPv4 a b c d)"
| "ip_of_octets _ d = None"

text \<open>
  \<^verbatim>\<open>IPAddress::fromString4\<close>: a digit extends the accumulator (a \<^verbatim>\<open>uint16_t\<close>
  that never exceeds \<open>2559\<close>, so \<open>nat\<close> is exact) and fails past 255; a dot
  stores it as the next octet, failing at a fourth dot; any other character fails;
  at the end exactly three dots must have been seen.
\<close>

fun ip_fromString4 :: "string \<Rightarrow> nat \<Rightarrow> u8 list \<Rightarrow> ipaddr option" where
  "ip_fromString4 [] acc os =
     (if length os \<noteq> 3 then None else ip_of_octets os (of_nat acc))"
| "ip_fromString4 (c # cs) acc os =
     (if is_digit c then
        (let acc' = acc * 10 + digit_val c in
         if 255 < acc' then None else ip_fromString4 cs acc' os)
      else if c = CHR ''.'' then
        (if length os = 3 then None else ip_fromString4 cs 0 (os @ [of_nat acc]))
      else None)"

definition ip_fromString :: "string \<Rightarrow> ipaddr option" where
  "ip_fromString s = ip_fromString4 s 0 []"

declare ip_toString_def [lib_defs] ip_isSet_def [lib_defs] ip_fromString_def [lib_defs]

subsection \<open>Reading a run of digits\<close>

lemma foldl_digits_ge: "acc \<le> foldl (\<lambda>n c. 10 * n + digit_val c) acc ds"
proof (induction ds arbitrary: acc)
  case Nil
  then show ?case by simp
next
  case (Cons c ds)
  have "acc \<le> 10 * acc + digit_val c" by simp
  also have "\<dots> \<le> foldl (\<lambda>n c. 10 * n + digit_val c) (10 * acc + digit_val c) ds"
    by (rule Cons.IH)
  finally show ?case by simp
qed

lemma fromString4_digits:
  assumes "\<forall>c\<in>set ds. is_digit c"
    and "foldl (\<lambda>n c. 10 * n + digit_val c) acc ds \<le> 255"
  shows "ip_fromString4 (ds @ rest) acc os =
           ip_fromString4 rest (foldl (\<lambda>n c. 10 * n + digit_val c) acc ds) os"
  using assms
proof (induction ds arbitrary: acc)
  case Nil
  then show ?case by simp
next
  case (Cons c ds)
  let ?acc' = "acc * 10 + digit_val c"
  have "?acc' \<le> foldl (\<lambda>n c. 10 * n + digit_val c) ?acc' ds"
    by (rule foldl_digits_ge)
  with Cons.prems have "?acc' \<le> 255" by (simp add: mult.commute)
  with Cons.prems Cons.IH [of ?acc'] show ?case by (simp add: Let_def mult.commute)
qed

lemma fromString4_octet:
  "ip_fromString4 (dec_string (unat (a::u8)) @ rest) 0 os = ip_fromString4 rest (unat a) os"
proof -
  show ?thesis
    using fromString4_digits [of "dec_string (unat a)" 0 rest os]
    by (simp add: foldl_dec_string dec_string_digits)
qed

lemma ip_dotted_fromString: "ip_fromString (ip_dotted ip) = Some ip"
proof (cases ip)
  case (IPv4 a b c d)
  then show ?thesis
    using fromString4_octet [of d "[]"] by (simp add: ip_fromString_def fromString4_octet)
qed

subsection \<open>Length of the text\<close>

lemma length_dec_octet: "length (dec_string (unat (a::u8))) \<le> 3"
proof -
  have "unat a < 10 ^ 3" using unat_u8_le [of a] by (simp del: unat_u8_le)
  then show ?thesis by (rule length_dec_string_le) simp
qed

lemma length_ip_dotted: "7 \<le> length (ip_dotted ip) \<and> length (ip_dotted ip) \<le> 15"
proof (cases ip)
  case (IPv4 a b c d)
  then show ?thesis
    using length_dec_octet [of a] length_dec_octet [of b] length_dec_octet [of c]
      length_dec_octet [of d] length_dec_string_pos [of "unat a"]
      length_dec_string_pos [of "unat b"] length_dec_string_pos [of "unat c"]
      length_dec_string_pos [of "unat d"]
    by simp
qed

lemma ip_dotted_chars: "x \<in> set (ip_dotted ip) \<Longrightarrow> is_digit x \<or> x = CHR ''.''"
  by (cases ip) (auto dest: dec_string_digits)

lemma ip_toString_ascii: "\<forall>c\<in>set (ip_toString ip). (of_char c :: nat) < 176"
proof
  fix c assume c: "c \<in> set (ip_toString ip)"
  show "(of_char c :: nat) < 176"
  proof (cases "ip_isSet ip")
    case True
    then have "is_digit c \<or> c = CHR ''.''" using c ip_dotted_chars by (simp add: ip_toString_def)
    then show ?thesis by (auto simp: is_digit_def)
  next
    case False
    then show ?thesis using c by (auto simp: ip_toString_def)
  qed
qed

subsection \<open>Properties of the address text\<close>

text \<open>
  Printing a set address and parsing the text back with
  \<^verbatim>\<open>IPAddress::fromString\<close> gives the address again.
\<close>

theorem ip_toString_roundtrip:
  assumes "ip_isSet ip"
  shows "ip_fromString (ip_toString ip) = Some ip"
  using assms ip_dotted_fromString by (simp add: ip_toString_def)

theorem ip_toString_roundtrip_witness:
  "ip_fromString (ip_toString (IPv4 192 168 1 42)) = Some (IPv4 192 168 1 42)"
  using ip_toString_roundtrip [of "IPv4 192 168 1 42"] by (simp add: ip_isSet_def)

text \<open>
  The text of any address, set or not, is between 7 and 15 characters long, so
  it always fits one line of the 128-pixel panel (21 characters of the built-in font).
\<close>

theorem ip_toString_length: "7 \<le> length (ip_toString ip) \<and> length (ip_toString ip) \<le> 15"
  using length_ip_dotted [of ip] by (simp add: ip_toString_def)

end
