(* ===== verification/Station.thy ===== *)
theory Station
  imports IPAddress
begin

text \<open>
  The ESP8266 core's station interface (\<^verbatim>\<open>ESP8266WiFi\<close>) and mDNS responder
  (\<^verbatim>\<open>ESP8266mDNS\<close>) as the sketch calls them. What the radio reports is decided by
  the network, not by the program, so it is an oracle: \<open>radio_status r k\<close> and
  \<open>radio_ip r k\<close> are what the \<open>k\<close>-th query of the station interface
  (\<^verbatim>\<open>WiFi.status()\<close> or \<^verbatim>\<open>WiFi.localIP()\<close>) observes, and the station counts its
  queries. The libraries are not part of the repository; their status values are
  those of \<^verbatim>\<open>wl_definitions.h\<close>.
\<close>

datatype wl_status =
  WL_IDLE_STATUS | WL_NO_SSID_AVAIL | WL_SCAN_COMPLETED | WL_CONNECTED | WL_CONNECT_FAILED
  | WL_CONNECTION_LOST | WL_WRONG_PASSWORD | WL_DISCONNECTED | WL_NO_SHIELD

datatype wifi_mode = WIFI_OFF | WIFI_STA | WIFI_AP | WIFI_AP_STA

record radio =
  radio_status :: "nat \<Rightarrow> wl_status"
  radio_ip :: "nat \<Rightarrow> ipaddr"

record station =
  sta_mode :: wifi_mode
  sta_config :: "(string \<times> string) option"
  sta_queries :: nat

record mdns =
  mdns_host :: "string option"
  mdns_updates :: nat

definition station_new :: station where
  "station_new = \<lparr>sta_mode = WIFI_OFF, sta_config = None, sta_queries = 0\<rparr>"

definition mdns_new :: mdns where
  "mdns_new = \<lparr>mdns_host = None, mdns_updates = 0\<rparr>"

definition wifi_mode_set :: "wifi_mode \<Rightarrow> station \<Rightarrow> station" where
  "wifi_mode_set m st = st\<lparr>sta_mode := m\<rparr>"

definition wifi_begin :: "string \<Rightarrow> string \<Rightarrow> station \<Rightarrow> station" where
  "wifi_begin ssid psk st = st\<lparr>sta_config := Some (ssid, psk)\<rparr>"

definition wifi_status :: "radio \<Rightarrow> station \<Rightarrow> wl_status \<times> station" where
  "wifi_status r st = (radio_status r (sta_queries st), st\<lparr>sta_queries := Suc (sta_queries st)\<rparr>)"

definition wifi_localIP :: "radio \<Rightarrow> station \<Rightarrow> ipaddr \<times> station" where
  "wifi_localIP r st = (radio_ip r (sta_queries st), st\<lparr>sta_queries := Suc (sta_queries st)\<rparr>)"

text \<open>\<^verbatim>\<open>MDNS.begin(host)\<close> reports whether the responder could start (\<open>ok\<close>, decided by the stack).\<close>

definition mdns_begin :: "bool \<Rightarrow> string \<Rightarrow> mdns \<Rightarrow> bool \<times> mdns" where
  "mdns_begin ok host m = (if ok then (True, m\<lparr>mdns_host := Some host\<rparr>) else (False, m))"

definition mdns_update :: "mdns \<Rightarrow> mdns" where
  "mdns_update m = m\<lparr>mdns_updates := Suc (mdns_updates m)\<rparr>"

declare station_new_def [lib_defs] mdns_new_def [lib_defs] wifi_mode_set_def [lib_defs]
  wifi_begin_def [lib_defs] wifi_status_def [lib_defs] wifi_localIP_def [lib_defs]
  mdns_begin_def [lib_defs] mdns_update_def [lib_defs]

end
