(* ===== verification/Globals.thy ===== *)
theory Globals
  imports Gfx WebServer Station
begin

text \<open>
  The global objects of \<^verbatim>\<open>main.cpp\<close> (lines 13--24: the credentials, the web server
  on port 80, the SSD1306 display object; and the core's \<^verbatim>\<open>Serial\<close>, \<^verbatim>\<open>WiFi\<close>,
  \<^verbatim>\<open>MDNS\<close> and the built-in LED) as one record \<open>globals\<close>, which every function of
  the sketch takes and returns. What the program does not decide (the build-time
  credentials of \<^verbatim>\<open>config.h\<close>, whether the display and the mDNS responder start, and
  what the radio reports) is the record \<open>env\<close>. Each library call of the sketch is a
  function on \<open>globals\<close> named after the C++ expression (\<open>Serial_print\<close>,
  \<open>WiFi_status\<close>, \<open>Server_send\<close>, \<dots>); the calls with an effect outside the
  processor also append an \<open>event\<close> to \<open>g_trace\<close>, the observable history in
  order. The handlers the sketch registers are the values of \<open>handler\<close>; a function
  that stops in an endless empty loop (\<^verbatim>\<open>for (;;);\<close>) ends in \<open>Halted\<close> with the
  state it froze.
\<close>

datatype handler = HandleRoot | HandleNotFound

datatype 's run = Running 's | Halted 's

datatype event =
  SerialBegin nat | PinModeOutput | PinWrite level | DisplayBegin bool | DisplayFlush
  | WiFiMode wifi_mode | WiFiBegin | MDNSBegin bool | MDNSUpdate
  | ServerOn string | ServerOnNotFound | ServerBegin | HttpSend nat

record env =
  cfg_ssid :: string
  cfg_psk :: string
  hw_display_ok :: bool
  hw_mdns_ok :: bool
  hw_radio :: radio

record globals =
  g_serial :: string
  g_baud :: "nat option"
  g_led :: level
  g_millis :: nat
  g_display :: gfx
  g_server :: "handler server"
  g_wifi :: station
  g_mdns :: mdns
  g_trace :: "event list"

subsection \<open>Constants of main.cpp and of the libraries\<close>

definition SCREEN_WIDTH :: int where "SCREEN_WIDTH = 128"
definition SCREEN_HEIGHT :: int where "SCREEN_HEIGHT = 64"
definition SCREEN_ADDRESS :: u8 where "SCREEN_ADDRESS = 0x3C"
definition SSD1306_SWITCHCAPVCC :: u8 where "SSD1306_SWITCHCAPVCC = 2"
definition SSD1306_WHITE :: "16 word" where "SSD1306_WHITE = 1"

text \<open>The state at power-on, after the static constructors of lines 13--24.\<close>

definition globals_init :: globals where
  "globals_init =
     \<lparr>g_serial = [], g_baud = None, g_led = LOW, g_millis = 0,
      g_display = ssd1306_new SCREEN_WIDTH SCREEN_HEIGHT, g_server = server_new 80,
      g_wifi = station_new, g_mdns = mdns_new, g_trace = []\<rparr>"

subsection \<open>Library calls on the globals\<close>

definition emit :: "event \<Rightarrow> globals \<Rightarrow> globals" where
  "emit e g = g\<lparr>g_trace := g_trace g @ [e]\<rparr>"

definition Serial_begin :: "nat \<Rightarrow> globals \<Rightarrow> globals" where
  "Serial_begin baud g = emit (SerialBegin baud) (g\<lparr>g_baud := Some baud\<rparr>)"

definition Serial_print :: "string \<Rightarrow> globals \<Rightarrow> globals" where
  "Serial_print s g = g\<lparr>g_serial := g_serial g @ s\<rparr>"

definition Serial_println :: "string \<Rightarrow> globals \<Rightarrow> globals" where
  "Serial_println s g = Serial_print (s @ crlf) g"

definition pinMode_LED :: "globals \<Rightarrow> globals" where
  "pinMode_LED g = emit PinModeOutput g"

definition digitalWrite_LED :: "level \<Rightarrow> globals \<Rightarrow> globals" where
  "digitalWrite_LED l g = emit (PinWrite l) (g\<lparr>g_led := l\<rparr>)"

definition delay :: "nat \<Rightarrow> globals \<Rightarrow> globals" where
  "delay ms g = g\<lparr>g_millis := g_millis g + ms\<rparr>"

definition Display_begin :: "env \<Rightarrow> u8 \<Rightarrow> u8 \<Rightarrow> globals \<Rightarrow> bool \<times> globals" where
  "Display_begin e vcs addr g =
     (let (ok, d) = ssd1306_begin (hw_display_ok e) vcs addr (g_display g)
      in (ok, emit (DisplayBegin ok) (g\<lparr>g_display := d\<rparr>)))"

definition Display_clearDisplay :: "globals \<Rightarrow> globals" where
  "Display_clearDisplay g = g\<lparr>g_display := ssd1306_clearDisplay (g_display g)\<rparr>"

definition Display_setTextSize :: "u8 \<Rightarrow> globals \<Rightarrow> globals" where
  "Display_setTextSize s g = g\<lparr>g_display := gfx_setTextSize s (g_display g)\<rparr>"

definition Display_setTextColor :: "16 word \<Rightarrow> globals \<Rightarrow> globals" where
  "Display_setTextColor c g = g\<lparr>g_display := gfx_setTextColor c (g_display g)\<rparr>"

definition Display_println :: "string \<Rightarrow> globals \<Rightarrow> globals" where
  "Display_println s g = g\<lparr>g_display := gfx_println s (g_display g)\<rparr>"

definition Display_display :: "globals \<Rightarrow> globals" where
  "Display_display g = emit DisplayFlush (g\<lparr>g_display := ssd1306_display (g_display g)\<rparr>)"

definition WiFi_mode :: "wifi_mode \<Rightarrow> globals \<Rightarrow> globals" where
  "WiFi_mode m g = emit (WiFiMode m) (g\<lparr>g_wifi := wifi_mode_set m (g_wifi g)\<rparr>)"

definition WiFi_begin :: "string \<Rightarrow> string \<Rightarrow> globals \<Rightarrow> globals" where
  "WiFi_begin ssid psk g = emit WiFiBegin (g\<lparr>g_wifi := wifi_begin ssid psk (g_wifi g)\<rparr>)"

definition WiFi_status :: "env \<Rightarrow> globals \<Rightarrow> wl_status \<times> globals" where
  "WiFi_status e g = (let (st, w) = wifi_status (hw_radio e) (g_wifi g) in (st, g\<lparr>g_wifi := w\<rparr>))"

definition WiFi_localIP :: "env \<Rightarrow> globals \<Rightarrow> ipaddr \<times> globals" where
  "WiFi_localIP e g = (let (ip, w) = wifi_localIP (hw_radio e) (g_wifi g) in (ip, g\<lparr>g_wifi := w\<rparr>))"

definition MDNS_begin :: "env \<Rightarrow> string \<Rightarrow> globals \<Rightarrow> bool \<times> globals" where
  "MDNS_begin e host g =
     (let (ok, m) = mdns_begin (hw_mdns_ok e) host (g_mdns g)
      in (ok, emit (MDNSBegin ok) (g\<lparr>g_mdns := m\<rparr>)))"

definition MDNS_update :: "globals \<Rightarrow> globals" where
  "MDNS_update g = emit MDNSUpdate (g\<lparr>g_mdns := mdns_update (g_mdns g)\<rparr>)"

definition Server_on :: "string \<Rightarrow> handler \<Rightarrow> globals \<Rightarrow> globals" where
  "Server_on uri h g = emit (ServerOn uri) (g\<lparr>g_server := server_on uri h (g_server g)\<rparr>)"

definition Server_onNotFound :: "handler \<Rightarrow> globals \<Rightarrow> globals" where
  "Server_onNotFound h g = emit ServerOnNotFound (g\<lparr>g_server := server_onNotFound h (g_server g)\<rparr>)"

definition Server_begin :: "globals \<Rightarrow> globals" where
  "Server_begin g = emit ServerBegin (g\<lparr>g_server := server_begin (g_server g)\<rparr>)"

definition Server_send :: "nat \<Rightarrow> string \<Rightarrow> string \<Rightarrow> globals \<Rightarrow> globals" where
  "Server_send code ctype body g =
     emit (HttpSend code) (g\<lparr>g_server := server_send code ctype body (g_server g)\<rparr>)"

lemmas globals_calls [lib_defs] =
  emit_def Serial_begin_def Serial_print_def Serial_println_def pinMode_LED_def
  digitalWrite_LED_def delay_def Display_begin_def Display_clearDisplay_def
  Display_setTextSize_def Display_setTextColor_def Display_println_def Display_display_def
  WiFi_mode_def WiFi_begin_def WiFi_status_def WiFi_localIP_def MDNS_begin_def
  MDNS_update_def Server_on_def Server_onNotFound_def Server_begin_def Server_send_def

lemmas sketch_constants [simp] =
  SCREEN_WIDTH_def SCREEN_HEIGHT_def SCREEN_ADDRESS_def SSD1306_SWITCHCAPVCC_def SSD1306_WHITE_def

end
