(* ===== verification/Display.thy ===== *)
theory Display
  imports Globals
begin

text \<open>
  The display part of \<^verbatim>\<open>main.cpp\<close>: \<^verbatim>\<open>displayIP\<close> (lines 26--37), which clears
  the frame buffer, sets the text size and colour, prints the title line and the
  address and sends the buffer to the panel, and \<^verbatim>\<open>setupScreen\<close> (lines 65--73),
  which starts the display and halts for ever when it cannot. \<open>ip_frame\<close> is what
  \<^verbatim>\<open>displayIP\<close> promises: the title row at the cursor's row and the address row 8
  pixels below, each where the panel can show it. The lemma \<open>displayIP_effect\<close> shows
  that the code draws exactly that frame and moves the cursor down 16 rows, which
  \<^verbatim>\<open>clearDisplay\<close> never resets.
\<close>

definition displayIP :: "string \<Rightarrow> globals \<Rightarrow> globals" where
  "displayIP ip g0 =
     (let g1 = Display_clearDisplay g0;
          g2 = Display_setTextSize 1 g1;
          g3 = Display_setTextColor SSD1306_WHITE g2;
          g4 = Display_println ''IP Address'' g3;
          g5 = Display_println ip g4
      in Display_display g5)"

definition setupScreen :: "env \<Rightarrow> globals \<Rightarrow> globals run" where
  "setupScreen e g0 =
     (let (ok, g1) = Display_begin e SSD1306_SWITCHCAPVCC SCREEN_ADDRESS g0
      in if \<not> ok then Halted (Serial_println ''SSD1306 allocation failed'' g1) else Running g1)"

declare displayIP_def [sketch_defs] setupScreen_def [sketch_defs]

definition ip_frame :: "gfx \<Rightarrow> string \<Rightarrow> gfx_item list" where
  "ip_frame d ip =
     (let y = cursor_y d in
      (if row_visible d (sint y) then glyph_row 0 (sint y) 1 (cp437 d) ''IP Address'' else []) @
      (if row_visible d (sint (y + 8)) then glyph_row 0 (sint (y + 8)) 1 (cp437 d) ip else []))"

text \<open>The display is in the shape \<^verbatim>\<open>displayIP\<close> leaves it (and the constructor made it).\<close>

definition text_ready :: "gfx \<Rightarrow> bool" where
  "text_ready d \<longleftrightarrow> gfx_width d = SCREEN_WIDTH \<and> gfx_height d = SCREEN_HEIGHT \<and> cursor_x d = 0"

definition ip_text :: "string \<Rightarrow> bool" where
  "ip_text ip \<longleftrightarrow> plain_line ip \<and> length ip \<le> 21"

lemma title_plain [simp]: "plain_line ''IP Address''"
  by (simp add: plain_line_def)

lemma displayIP_effect:
  assumes "text_ready (g_display g)" "ip_text ip"
  shows "displayIP ip g =
           g\<lparr>g_display := (g_display g)\<lparr>cursor_x := 0, cursor_y := cursor_y (g_display g) + 16,
               textsize_x := 1, textsize_y := 1, textcolor := 1, textbgcolor := 1,
               buffer := ip_frame (g_display g) ip, panel := ip_frame (g_display g) ip\<rparr>,
             g_trace := g_trace g @ [DisplayFlush]\<rparr>"
proof -
  let ?d0 = "g_display g"
  let ?d3 = "?d0\<lparr>buffer := [], textsize_x := 1, textsize_y := 1, textcolor := 1, textbgcolor := 1\<rparr>"
  have d3: "gfx_setTextColor 1 (gfx_setTextSize 1 (ssd1306_clearDisplay ?d0)) = ?d3"
    by (simp add: lib_defs)
  let ?y = "cursor_y ?d0"
  let ?r1 = "if row_visible ?d0 (sint ?y) then glyph_row 0 (sint ?y) 1 (cp437 ?d0) ''IP Address'' else []"
  have d4: "gfx_println ''IP Address'' ?d3 = ?d3\<lparr>cursor_x := 0, cursor_y := ?y + 8, buffer := ?r1\<rparr>"
    using assms(1) by (subst gfx_println_plain) (simp_all add: text_ready_def row_visible_def)
  let ?r2 = "if row_visible ?d0 (sint (?y + 8)) then glyph_row 0 (sint (?y + 8)) 1 (cp437 ?d0) ip else []"
  have d5: "gfx_println ip (?d3\<lparr>cursor_x := 0, cursor_y := ?y + 8, buffer := ?r1\<rparr>) =
              ?d3\<lparr>cursor_x := 0, cursor_y := ?y + 8 + 8, buffer := ?r1 @ ?r2\<rparr>"
    using assms by (subst gfx_println_plain) (simp_all add: text_ready_def ip_text_def row_visible_def)
  show ?thesis
    using d3 d4 d5
    by (simp add: displayIP_def lib_defs ip_frame_def Let_def)
qed

text \<open>The frame at the cursor row reached after \<open>k\<close> redraws (16 rows each), with the 16-bit wrap.\<close>

lemma ip_frame_row:
  assumes "gfx_height d = 64" "cursor_y d = word_of_nat (16 * k)"
  shows "ip_frame d ip =
           (if k mod 4096 < 4
            then glyph_row 0 (16 * int (k mod 4096)) 1 (cp437 d) ''IP Address'' @
                 glyph_row 0 (16 * int (k mod 4096) + 8) 1 (cp437 d) ip
            else [])"
proof -
  have v0: "row_visible d (sint (word_of_nat (16 * k) :: i16)) \<longleftrightarrow> k mod 4096 < 4"
    using row16_visible [of 0 k] assms(1) by (simp add: row_visible_def)
  have v1: "row_visible d (sint (word_of_nat (16 * k) + 8 :: i16)) \<longleftrightarrow> k mod 4096 < 4"
    using row16_visible [of 8 k] assms(1) by (simp add: row_visible_def)
  have y0: "k mod 4096 < 4 \<Longrightarrow> sint (word_of_nat (16 * k) :: i16) = 16 * int (k mod 4096)"
    using row16_value [of 0 k] by simp
  have y1: "k mod 4096 < 4 \<Longrightarrow> sint (word_of_nat (16 * k) + 8 :: i16) = 16 * int (k mod 4096) + 8"
    using row16_value [of 8 k] by simp
  show ?thesis
    using assms(2) v0 v1 y0 y1 by (simp add: ip_frame_def Let_def)
qed

lemma displayIP_text_ready:
  "text_ready (g_display g) \<Longrightarrow> ip_text ip \<Longrightarrow> text_ready (g_display (displayIP ip g))"
  by (simp add: displayIP_effect text_ready_def)

lemma displayIP_cursor:
  "text_ready (g_display g) \<Longrightarrow> ip_text ip \<Longrightarrow>
   cursor_y (g_display (displayIP ip g)) = cursor_y (g_display g) + 16"
  by (simp add: displayIP_effect)

lemma globals_init_display: "text_ready (g_display globals_init)" "cursor_y (g_display globals_init) = 0"
    "cp437 (g_display globals_init) = False"
  by (simp_all add: globals_init_def text_ready_def lib_defs)

lemma ip_text_dotted: "ip_text (ip_toString ip)"
proof -
  have "length (ip_dotted ip) \<le> 15" using length_ip_dotted [of ip] by simp
  moreover have "plain_line (ip_dotted ip)"
    using ip_dotted_chars [of _ ip] unfolding plain_line_def is_digit_def by fastforce
  ultimately show ?thesis by (simp add: ip_toString_def ip_text_def plain_line_def)
qed

lemma ip_frame_read:
  assumes "gfx_height d = 64" "cursor_y d = word_of_nat (16 * k)" "k mod 4096 < 4"
    and "\<forall>c\<in>set s. (of_char c :: nat) < 176"
  shows "read_row (ip_frame d s) (16 * int (k mod 4096)) = ''IP Address'' \<and>
         read_row (ip_frame d s) (16 * int (k mod 4096) + 8) = s"
  using ip_frame_row [OF assms(1,2), of s] assms(3) map_cp437_adjust_ascii [OF assms(4)]
  by (simp add: cp437_adjust_def)

subsection \<open>Properties of displayIP\<close>

text \<open>
  C21. \<^verbatim>\<open>displayIP\<close> draws the title and the address on the two text rows at the
  cursor's row, which after \<open>k\<close> earlier redraws is row \<open>16 k\<close> modulo \<open>2^16\<close>: the
  panel shows the two lines at \<open>16 (k mod 4096)\<close> for the first four redraws of every
  4096 and is blank for all others.
\<close>

theorem displayIP_row:
  assumes "text_ready (g_display g)" "ip_text ip" "cursor_y (g_display g) = word_of_nat (16 * k)"
  shows "panel (g_display (displayIP ip g)) =
           (if k mod 4096 < 4
            then glyph_row 0 (16 * int (k mod 4096)) 1 (cp437 (g_display g)) ''IP Address'' @
                 glyph_row 0 (16 * int (k mod 4096) + 8) 1 (cp437 (g_display g)) ip
            else [])"
proof -
  have "gfx_height (g_display g) = 64" using assms(1) by (simp add: text_ready_def)
  then show ?thesis
    using assms displayIP_effect ip_frame_row by simp
qed

theorem displayIP_row_witness:
  "panel (g_display (displayIP ''192.168.1.42'' globals_init)) =
     glyph_row 0 0 1 False ''IP Address'' @ glyph_row 0 8 1 False ''192.168.1.42''"
  using displayIP_row [of globals_init "''192.168.1.42''" 0] globals_init_display
  by (simp add: ip_text_def plain_line_def)

text \<open>
  C22. Redrawing the same address twice does not give the same panel (the spec's
  idempotence property fails): the cursor is not reset, so the second frame starts
  16 rows lower than the first.
\<close>

theorem displayIP_not_idempotent:
  assumes "text_ready (g_display g)" "ip_text ip" "cursor_y (g_display g) = 0"
  shows "panel (g_display (displayIP ip (displayIP ip g))) \<noteq> panel (g_display (displayIP ip g))"
proof -
  let ?g1 = "displayIP ip g"
  have "gfx_height (g_display g) = 64" using assms(1) by (simp add: text_ready_def)
  then have f1: "panel (g_display ?g1) =
      glyph_row 0 0 1 (cp437 (g_display g)) ''IP Address'' @ glyph_row 0 8 1 (cp437 (g_display g)) ip"
    using assms displayIP_effect ip_frame_row [of "g_display g" 0] by simp
  have r1: "text_ready (g_display ?g1)" "cursor_y (g_display ?g1) = word_of_nat (16 * 1)"
    "cp437 (g_display ?g1) = cp437 (g_display g)" "gfx_height (g_display ?g1) = 64"
    using assms \<open>gfx_height (g_display g) = 64\<close> by (simp_all add: displayIP_effect text_ready_def)
  then have f2: "panel (g_display (displayIP ip ?g1)) =
      glyph_row 0 16 1 (cp437 (g_display g)) ''IP Address'' @ glyph_row 0 24 1 (cp437 (g_display g)) ip"
    using assms displayIP_effect ip_frame_row [of "g_display ?g1" 1] by simp
  show ?thesis using f1 f2 by simp
qed

theorem displayIP_not_idempotent_witness:
  "panel (g_display (displayIP ''192.168.1.42'' (displayIP ''192.168.1.42'' globals_init)))
     \<noteq> panel (g_display (displayIP ''192.168.1.42'' globals_init))"
  using displayIP_not_idempotent [of globals_init "''192.168.1.42''"] globals_init_display
  by (simp add: ip_text_def plain_line_def)

text \<open>
  C23. What the frame buffer held before \<^verbatim>\<open>displayIP\<close> (the splash logo, an earlier
  frame) never reaches the panel: the panel it leaves depends only on the cursor, the
  panel's geometry and the address.
\<close>

theorem displayIP_discards_prior:
  assumes "text_ready (g_display g)" "ip_text ip"
  shows "panel (g_display (displayIP ip (g\<lparr>g_display := (g_display g)\<lparr>buffer := b, panel := p\<rparr>\<rparr>))) =
           panel (g_display (displayIP ip g))"
proof -
  let ?d = "(g_display g)\<lparr>buffer := b, panel := p\<rparr>"
  have r: "text_ready ?d" using assms(1) by (simp add: text_ready_def)
  have f: "ip_frame ?d ip = ip_frame (g_display g) ip" by (simp add: ip_frame_def row_visible_def Let_def)
  have "panel (g_display (displayIP ip (g\<lparr>g_display := ?d\<rparr>))) = ip_frame ?d ip"
    using r assms(2) by (simp add: displayIP_effect)
  also have "\<dots> = panel (g_display (displayIP ip g))"
    using f assms by (simp add: displayIP_effect)
  finally show ?thesis .
qed

theorem displayIP_discards_prior_witness:
  "panel (g_display (displayIP ''10.0.0.7''
      (globals_init\<lparr>g_display := (g_display globals_init)\<lparr>buffer := [Splash], panel := [Splash]\<rparr>\<rparr>))) =
   panel (g_display (displayIP ''10.0.0.7'' globals_init))"
  using displayIP_discards_prior [of globals_init "''10.0.0.7''" "[Splash]" "[Splash]"] globals_init_display
  by (simp add: ip_text_def plain_line_def)

end
