(* ===== verification/Handlers.thy ===== *)
theory Handlers
  imports Globals
begin

text \<open>
  The two request handlers of \<^verbatim>\<open>main.cpp\<close>: \<^verbatim>\<open>handleRoot\<close> (lines 39--44) and
  \<^verbatim>\<open>handleNotFound\<close> (lines 46--63), each driving the built-in LED high, sending one
  response and driving the LED low. The not-found body lists the arguments in a loop
  whose counter is a \<^verbatim>\<open>uint8_t\<close> compared with the \<^verbatim>\<open>int\<close> count
  \<^verbatim>\<open>server.args()\<close>; the counter wraps from 255 to 0, so the loop is
  \<open>notFound_args\<close>, a \<^theory_text>\<open>partial_function (option)\<close> whose \<open>None\<close> is
  the loop that never ends. \<open>notFound_body\<close> is the body the handler promises; the
  lemmas show the loop builds it when there are fewer than 256 arguments and never
  ends otherwise.
\<close>

definition handleRoot :: "globals \<Rightarrow> globals" where
  "handleRoot g0 =
     (let g1 = digitalWrite_LED HIGH g0;
          g2 = Server_send 200 ''text/plain'' (''hello from esp8266!'' @ crlf) g1
      in digitalWrite_LED LOW g2)"

text \<open>\<^verbatim>\<open>(server.method() == HTTP_GET) ? "GET" : "POST"\<close>\<close>

definition method_name :: "http_method \<Rightarrow> string" where
  "method_name m = (if m = HTTP_GET then ''GET'' else ''POST'')"

definition arg_line :: "string \<Rightarrow> string \<Rightarrow> string" where
  "arg_line n v = '' '' @ n @ '': '' @ v @ ''\<newline>''"

text \<open>Lines 57--60: \<^verbatim>\<open>for (uint8_t i = 0; i < server.args(); i++) message += ...\<close>\<close>

partial_function (option) notFound_args :: "globals \<Rightarrow> u8 \<Rightarrow> string \<Rightarrow> string option" where
  "notFound_args g i message =
     (if unat i < server_args (g_server g)
      then notFound_args g (i + 1)
             (message @ arg_line (server_argName (unat i) (g_server g)) (server_arg (unat i) (g_server g)))
      else Some message)"

definition handleNotFound :: "globals \<Rightarrow> globals option" where
  "handleNotFound g0 =
     (let g1 = digitalWrite_LED HIGH g0;
          s = g_server g1;
          message = ''File Not Found\<newline>\<newline>'';
          message = message @ ''URI: '';
          message = message @ server_uri s;
          message = message @ ''\<newline>Method: '';
          message = message @ method_name (server_method s);
          message = message @ ''\<newline>Arguments: '';
          message = message @ dec_string (server_args s);
          message = message @ ''\<newline>''
      in case notFound_args g1 0 message of
           None \<Rightarrow> None
         | Some message \<Rightarrow>
             (let g2 = Server_send 404 ''text/plain'' message g1
              in Some (digitalWrite_LED LOW g2)))"

declare handleRoot_def [sketch_defs] method_name_def [sketch_defs] arg_line_def [sketch_defs]
  handleNotFound_def [sketch_defs]

text \<open>The body the not-found handler promises for a request.\<close>

definition notFound_body :: "request \<Rightarrow> string" where
  "notFound_body r =
     ''File Not Found\<newline>\<newline>URI: '' @ req_uri r @ ''\<newline>Method: '' @ method_name (req_method r) @
     ''\<newline>Arguments: '' @ dec_string (length (req_args r)) @ ''\<newline>'' @
     concat (map (\<lambda>(n, v). arg_line n v) (req_args r))"

definition current_args :: "globals \<Rightarrow> (string \<times> string) list" where
  "current_args g = req_args (srv_current (g_server g))"

definition foo_request :: request where
  "foo_request = \<lparr>req_method = HTTP_GET, req_uri = ''/foo'', req_args = [(''a'', ''1''), (''b'', ''2'')]\<rparr>"

definition many_args_request :: request where
  "many_args_request = \<lparr>req_method = HTTP_GET, req_uri = ''/x'', req_args = replicate 256 (''a'', ''1'')\<rparr>"

subsection \<open>The argument loop\<close>

lemma notFound_args_step:
  assumes "unat i < length (current_args g)" "length (current_args g) < 256"
  shows "notFound_args g i m =
           notFound_args g (i + 1) (m @ (\<lambda>(n, v). arg_line n v) (current_args g ! unat i))"
  using assms
  by (subst notFound_args.simps) (simp add: server_args_def server_argName_def server_arg_def
      current_args_def case_prod_beta)

lemma unat_Suc_u8:
  assumes "unat (i::u8) < n" "n < 256"
  shows "unat (i + 1) = Suc (unat i)"
proof -
  have "Suc (unat i) < 256" using assms by linarith
  then show ?thesis by (simp add: unat_word_ariths)
qed

lemma notFound_args_from:
  assumes "length (current_args g) < 256" "unat i \<le> length (current_args g)"
  shows "notFound_args g i m =
           Some (m @ concat (map (\<lambda>(n, v). arg_line n v) (drop (unat i) (current_args g))))"
  using assms
proof (induction "length (current_args g) - unat i" arbitrary: i m)
  case 0
  then have "unat i = length (current_args g)" by simp
  then show ?case
    by (subst notFound_args.simps) (simp add: server_args_def current_args_def)
next
  case (Suc d)
  then have lt: "unat i < length (current_args g)" by simp
  then have i1: "unat (i + 1) = Suc (unat i)"
    using Suc.prems(1) by (intro unat_Suc_u8) simp_all
  have "notFound_args g (i + 1) (m @ (\<lambda>(n, v). arg_line n v) (current_args g ! unat i)) =
          Some ((m @ (\<lambda>(n, v). arg_line n v) (current_args g ! unat i)) @
                concat (map (\<lambda>(n, v). arg_line n v) (drop (unat (i + 1)) (current_args g))))"
    using Suc i1 lt by (intro Suc.hyps) simp_all
  moreover have "drop (unat i) (current_args g) =
                   current_args g ! unat i # drop (unat (i + 1)) (current_args g)"
    using i1 lt by (simp add: Cons_nth_drop_Suc)
  ultimately show ?case
    using notFound_args_step [OF lt Suc.prems(1)] by simp
qed

lemma notFound_args_returns:
  assumes ret: "notFound_args g i m = Some r"
  shows "length (current_args g) < 256"
proof (rule notFound_args.raw_induct [where P = "\<lambda>g i m r. length (current_args g) < 256", OF _ ret])
  fix f g and i :: u8 and m r
  assume IH: "\<And>g i m r. f g i m = Some r \<Longrightarrow> length (current_args g) < 256"
    and eq: "(if unat i < server_args (g_server g)
              then f g (i + 1) (m @ arg_line (server_argName (unat i) (g_server g))
                                   (server_arg (unat i) (g_server g)))
              else Some m) = Some r"
  show "length (current_args g) < 256"
  proof (cases "unat i < server_args (g_server g)")
    case True
    with eq IH show ?thesis by auto
  next
    case False
    have "unat i < 256" using unat_u8_le [of i] by linarith
    with False show ?thesis by (simp add: server_args_def current_args_def)
  qed
qed

lemma notFound_header_eq:
  "''File Not Found\<newline>\<newline>'' @ ''URI: '' @ server_uri s @ ''\<newline>Method: '' @
     method_name (server_method s) @ ''\<newline>Arguments: '' @ dec_string (server_args s) @ ''\<newline>'' @ rest =
   ''File Not Found\<newline>\<newline>URI: '' @ req_uri (srv_current s) @ ''\<newline>Method: '' @
     method_name (req_method (srv_current s)) @ ''\<newline>Arguments: '' @
     dec_string (length (req_args (srv_current s))) @ ''\<newline>'' @ rest"
  by (simp add: server_uri_def server_method_def server_args_def)

lemma handleNotFound_sends:
  assumes "length (current_args g) < 256"
  shows "handleNotFound g =
           Some (g\<lparr>g_led := LOW,
                   g_server := server_send 404 ''text/plain'' (notFound_body (srv_current (g_server g))) (g_server g),
                   g_trace := g_trace g @ [PinWrite HIGH, HttpSend 404, PinWrite LOW]\<rparr>)"
proof -
  let ?g1 = "digitalWrite_LED HIGH g"
  have "current_args ?g1 = current_args g" by (simp add: current_args_def lib_defs)
  then have "notFound_args ?g1 0 m =
               Some (m @ concat (map (\<lambda>(n, v). arg_line n v) (current_args g)))" for m
    using assms notFound_args_from [of ?g1 0 m] by simp
  then show ?thesis
    by (simp add: handleNotFound_def notFound_body_def notFound_header_eq current_args_def lib_defs Let_def)
qed

lemma handleNotFound_none:
  assumes "256 \<le> length (current_args g)"
  shows "handleNotFound g = None"
proof -
  let ?g1 = "digitalWrite_LED HIGH g"
  have "current_args ?g1 = current_args g" by (simp add: current_args_def lib_defs)
  then have "notFound_args ?g1 0 m = None" for m
    using assms notFound_args_returns [of ?g1 0 m] by (cases "notFound_args ?g1 0 m") auto
  then show ?thesis by (simp add: handleNotFound_def Let_def)
qed

subsection \<open>Properties of the handlers\<close>

text \<open>
  C18. The root handler answers 200, \<open>text/plain\<close>, with the body
  \<^verbatim>\<open>"hello from esp8266!\r\n"\<close>, whatever the request; it drives the LED high before
  sending and low after, and has no other effect.
\<close>

theorem handleRoot_response:
  "handleRoot g =
     g\<lparr>g_led := LOW,
       g_server := server_send 200 ''text/plain'' (''hello from esp8266!'' @ crlf) (g_server g),
       g_trace := g_trace g @ [PinWrite HIGH, HttpSend 200, PinWrite LOW]\<rparr>"
  by (simp add: handleRoot_def lib_defs)

text \<open>
  C19. For a request with fewer than 256 arguments the not-found handler sends one
  404 \<open>text/plain\<close> response whose body names the URI, the method, the argument count
  and every argument as \<open>" name: value"\<close> in request order: the \<^verbatim>\<open>uint8_t\<close>-indexed
  loop computes the same text as the list of argument lines.
\<close>

theorem handleNotFound_response:
  assumes "length (req_args (srv_current (g_server g))) < 256"
  shows "handleNotFound g =
           Some (g\<lparr>g_led := LOW,
                   g_server := server_send 404 ''text/plain'' (notFound_body (srv_current (g_server g))) (g_server g),
                   g_trace := g_trace g @ [PinWrite HIGH, HttpSend 404, PinWrite LOW]\<rparr>)"
  using assms handleNotFound_sends by (simp add: current_args_def)

theorem handleNotFound_response_witness:
  "handleNotFound (globals_init\<lparr>g_server := (g_server globals_init)\<lparr>srv_current := foo_request\<rparr>\<rparr>) =
     Some ((globals_init\<lparr>g_server := (g_server globals_init)\<lparr>srv_current := foo_request\<rparr>\<rparr>)\<lparr>g_led := LOW,
             g_server := server_send 404 ''text/plain''
               ''File Not Found\<newline>\<newline>URI: /foo\<newline>Method: GET\<newline>Arguments: 2\<newline> a: 1\<newline> b: 2\<newline>''
               ((g_server globals_init)\<lparr>srv_current := foo_request\<rparr>),
             g_trace := g_trace globals_init @ [PinWrite HIGH, HttpSend 404, PinWrite LOW]\<rparr>)"
proof -
  let ?g = "globals_init\<lparr>g_server := (g_server globals_init)\<lparr>srv_current := foo_request\<rparr>\<rparr>"
  have len: "length (req_args (srv_current (g_server ?g))) < 256" by (simp add: foo_request_def)
  have b: "notFound_body (srv_current (g_server ?g)) =
             ''File Not Found\<newline>\<newline>URI: /foo\<newline>Method: GET\<newline>Arguments: 2\<newline> a: 1\<newline> b: 2\<newline>''"
    by (simp add: foo_request_def notFound_body_def arg_line_def method_name_def
        dec_string.simps numeral_2_eq_2 [symmetric])
  show ?thesis using handleNotFound_response [OF len] by (simp only: b) simp
qed

text \<open>
  C20. A request with 256 arguments or more makes the not-found handler loop for ever:
  the \<^verbatim>\<open>uint8_t\<close> counter wraps from 255 to 0 and never reaches \<^verbatim>\<open>server.args()\<close>, so
  no response is sent and the main loop stops being serviced.
\<close>

theorem handleNotFound_diverges:
  assumes "256 \<le> length (req_args (srv_current (g_server g)))"
  shows "handleNotFound g = None"
  using assms handleNotFound_none by (simp add: current_args_def)

theorem handleNotFound_diverges_witness:
  "handleNotFound (globals_init\<lparr>g_server := (g_server globals_init)\<lparr>srv_current := many_args_request\<rparr>\<rparr>) = None"
  using handleNotFound_diverges [of "globals_init\<lparr>g_server := (g_server globals_init)\<lparr>srv_current := many_args_request\<rparr>\<rparr>"]
  by (simp add: many_args_request_def)

text \<open>
  C24. The not-found body does not report the method verbatim: every method other than
  GET is reported as \<open>POST\<close>, so a PUT and a POST request for the same path and
  arguments get the same response.
\<close>

theorem handleNotFound_method_conflated:
  assumes "m \<noteq> HTTP_GET" "m' \<noteq> HTTP_GET" "length (req_args r) < 256"
  shows "handleNotFound (g\<lparr>g_server := (g_server g)\<lparr>srv_current := r\<lparr>req_method := m\<rparr>\<rparr>\<rparr>) =
         map_option (\<lambda>g'. g'\<lparr>g_server := (g_server g')\<lparr>srv_current := r\<lparr>req_method := m\<rparr>\<rparr>\<rparr>)
           (handleNotFound (g\<lparr>g_server := (g_server g)\<lparr>srv_current := r\<lparr>req_method := m'\<rparr>\<rparr>\<rparr>))"
  using assms handleNotFound_sends
  by (simp add: current_args_def notFound_body_def method_name_def lib_defs)

theorem handleNotFound_method_conflated_witness:
  "handleNotFound (globals_init\<lparr>g_server := (g_server globals_init)\<lparr>srv_current := foo_request\<lparr>req_method := HTTP_PUT\<rparr>\<rparr>\<rparr>) =
   map_option (\<lambda>g'. g'\<lparr>g_server := (g_server g')\<lparr>srv_current := foo_request\<lparr>req_method := HTTP_PUT\<rparr>\<rparr>\<rparr>)
     (handleNotFound (globals_init\<lparr>g_server := (g_server globals_init)\<lparr>srv_current := foo_request\<lparr>req_method := HTTP_POST\<rparr>\<rparr>\<rparr>))"
  using handleNotFound_method_conflated [of HTTP_PUT HTTP_POST foo_request globals_init]
  by (simp add: foo_request_def)

end
