(* ===== verification/WiFiSetup.thy ===== *)
theory WiFiSetup
  imports Globals
begin

text \<open>
  \<^verbatim>\<open>setupWiFi\<close> (lines 75--100 of \<^verbatim>\<open>main.cpp\<close>): station mode, \<^verbatim>\<open>WiFi.begin\<close> with
  the configured credentials, then the wait loop of lines 82--93, which polls
  \<^verbatim>\<open>WiFi.status()\<close> twice per round (in the loop condition and after the
  \<^verbatim>\<open>delay(500)\<close>) and returns early when the second poll reports a wrong password.
  Nothing bounds the number of rounds, so the loop is \<open>wifi_wait\<close>, a
  \<^theory_text>\<open>partial_function (option)\<close> that is \<open>None\<close> when it never returns; its
  \<open>bool\<close> says whether it left by connecting (\<open>True\<close>) or by the early return.
  With the radio's answers \<open>s\<close> and the poll count \<open>p\<close> at entry, round \<open>j\<close>
  reads \<open>s (p + 2 j)\<close> and \<open>s (p + 2 j + 1)\<close>; \<open>wifi_exit s p j\<close> says round
  \<open>j\<close> ends the loop. The lemmas show that the loop returns exactly when some round
  ends it, what it leaves behind (one dot and 500 ms per round), and that it never
  returns when the network is merely unreachable.
\<close>

partial_function (option) wifi_wait :: "env \<Rightarrow> globals \<Rightarrow> (bool \<times> globals) option" where
  "wifi_wait e g0 =
     (let (st, g1) = WiFi_status e g0
      in if st \<noteq> WL_CONNECTED then
           (let g2 = delay 500 g1;
                g3 = Serial_print ''.'' g2;
                (st', g4) = WiFi_status e g3
            in if st' = WL_WRONG_PASSWORD
               then Some (False, Serial_print ''INCORRECT WIFI PASSWORD'' g4)
               else wifi_wait e g4)
         else Some (True, g1))"

definition setupWiFi :: "env \<Rightarrow> globals \<Rightarrow> globals option" where
  "setupWiFi e g0 =
     (let g1 = WiFi_mode WIFI_STA g0;
          g2 = WiFi_begin (cfg_ssid e) (cfg_psk e) g1;
          g3 = Serial_println '''' g2;
          g4 = Serial_print ''Connecting to WIFI'' g3
      in case wifi_wait e g4 of
           None \<Rightarrow> None
         | Some (False, g5) \<Rightarrow> Some g5
         | Some (True, g5) \<Rightarrow>
             (let g6 = Serial_println '''' g5;
                  g7 = Serial_print ''Connected to '' g6;
                  g8 = Serial_println (cfg_ssid e) g7;
                  g9 = Serial_print ''IP address: '' g8;
                  (ip, g10) = WiFi_localIP e g9
              in Some (Serial_println (ip_toString ip) g10)))"

declare setupWiFi_def [sketch_defs]

subsection \<open>Rounds of the wait loop\<close>

definition wifi_exit :: "(nat \<Rightarrow> wl_status) \<Rightarrow> nat \<Rightarrow> nat \<Rightarrow> bool" where
  "wifi_exit s p j \<longleftrightarrow> s (p + 2 * j) = WL_CONNECTED \<or> s (p + 2 * j + 1) = WL_WRONG_PASSWORD"

abbreviation polls :: "globals \<Rightarrow> nat" where
  "polls g \<equiv> sta_queries (g_wifi g)"

abbreviation answers :: "env \<Rightarrow> nat \<Rightarrow> wl_status" where
  "answers e \<equiv> radio_status (hw_radio e)"

text \<open>The globals after \<open>dots\<close> rounds and \<open>n\<close> status polls.\<close>

definition waited :: "globals \<Rightarrow> nat \<Rightarrow> nat \<Rightarrow> globals" where
  "waited g dots n =
     g\<lparr>g_millis := g_millis g + 500 * dots, g_serial := g_serial g @ replicate dots (CHR ''.''),
       g_wifi := (g_wifi g)\<lparr>sta_queries := sta_queries (g_wifi g) + n\<rparr>\<rparr>"

text \<open>The globals when the wait loop starts (lines 77--81).\<close>

definition wifi_started :: "env \<Rightarrow> globals \<Rightarrow> globals" where
  "wifi_started e g =
     Serial_print ''Connecting to WIFI''
       (Serial_println '''' (WiFi_begin (cfg_ssid e) (cfg_psk e) (WiFi_mode WIFI_STA g)))"

definition wrong_psk_env :: env where
  "wrong_psk_env =
     \<lparr>cfg_ssid = ''home'', cfg_psk = ''guess'', hw_display_ok = True, hw_mdns_ok = True,
      hw_radio = \<lparr>radio_status = (\<lambda>k. if k < 3 then WL_DISCONNECTED else WL_WRONG_PASSWORD),
                  radio_ip = (\<lambda>k. IPv4 0 0 0 0)\<rparr>\<rparr>"

definition no_ap_env :: env where
  "no_ap_env =
     \<lparr>cfg_ssid = ''home'', cfg_psk = ''secret'', hw_display_ok = True, hw_mdns_ok = True,
      hw_radio = \<lparr>radio_status = (\<lambda>k. WL_NO_SSID_AVAIL), radio_ip = (\<lambda>k. IPv4 0 0 0 0)\<rparr>\<rparr>"

definition home_env :: env where
  "home_env =
     \<lparr>cfg_ssid = ''home'', cfg_psk = ''secret'', hw_display_ok = True, hw_mdns_ok = True,
      hw_radio = \<lparr>radio_status = (\<lambda>k. if k < 4 then WL_DISCONNECTED else WL_CONNECTED),
                  radio_ip = (\<lambda>k. IPv4 192 168 1 42)\<rparr>\<rparr>"

lemma waited_waited: "waited (waited g a n) b m = waited g (a + b) (n + m)"
  by (simp add: waited_def replicate_add algebra_simps)

lemma waited_zero [simp]: "waited g 0 0 = g"
  by (simp add: waited_def)

lemma polls_waited [simp]: "polls (waited g a n) = polls g + n"
  by (simp add: waited_def)

lemma wifi_exit_shift: "wifi_exit s (Suc (Suc p)) j = wifi_exit s p (Suc j)"
  by (simp add: wifi_exit_def algebra_simps)

text \<open>One round that does not end the loop.\<close>

lemma wifi_wait_round:
  assumes "\<not> wifi_exit (answers e) (polls g) 0"
  shows "wifi_wait e g = wifi_wait e (waited g 1 2)"
  using assms
  by (subst wifi_wait.simps) (simp add: wifi_exit_def lib_defs waited_def Let_def)

lemma wifi_wait_connected:
  "answers e (polls g) = WL_CONNECTED \<Longrightarrow> wifi_wait e g = Some (True, waited g 0 1)"
  by (subst wifi_wait.simps) (simp add: lib_defs waited_def)

lemma wifi_wait_wrong:
  "answers e (polls g) \<noteq> WL_CONNECTED \<Longrightarrow> answers e (Suc (polls g)) = WL_WRONG_PASSWORD \<Longrightarrow>
   wifi_wait e g = Some (False, Serial_print ''INCORRECT WIFI PASSWORD'' (waited g 1 2))"
  by (subst wifi_wait.simps) (simp add: lib_defs waited_def Let_def)

lemma wifi_wait_rounds:
  assumes "\<forall>i<j. \<not> wifi_exit (answers e) (polls g) i"
  shows "wifi_wait e g = wifi_wait e (waited g j (2 * j))"
  using assms
proof (induction j arbitrary: g)
  case 0
  then show ?case by simp
next
  case (Suc j)
  then have "wifi_wait e g = wifi_wait e (waited g 1 2)"
    by (intro wifi_wait_round) simp
  also have "\<dots> = wifi_wait e (waited (waited g 1 2) j (2 * j))"
    using Suc.prems by (intro Suc.IH) (auto simp: wifi_exit_shift)
  finally show ?case by (simp add: waited_waited)
qed

lemma wifi_wait_returns:
  assumes ret: "wifi_wait e g = Some r"
  shows "\<exists>j. wifi_exit (answers e) (polls g) j"
proof (rule wifi_wait.raw_induct [where P = "\<lambda>e g r. \<exists>j. wifi_exit (answers e) (polls g) j", OF _ ret])
  fix f e g r
  assume IH: "\<And>e g r. f e g = Some r \<Longrightarrow> \<exists>j. wifi_exit (answers e) (polls g) j"
    and eq: "(let (st, g1) = WiFi_status e g
              in if st \<noteq> WL_CONNECTED then
                   (let g2 = delay 500 g1; g3 = Serial_print ''.'' g2; (st', g4) = WiFi_status e g3
                    in if st' = WL_WRONG_PASSWORD
                       then Some (False, Serial_print ''INCORRECT WIFI PASSWORD'' g4)
                       else f e g4)
                 else Some (True, g1)) = Some r"
  show "\<exists>j. wifi_exit (answers e) (polls g) j"
  proof (cases "wifi_exit (answers e) (polls g) 0")
    case True
    then show ?thesis by blast
  next
    case False
    with eq have "f e (waited g 1 2) = Some r"
      by (simp add: wifi_exit_def lib_defs waited_def Let_def)
    then obtain j where "wifi_exit (answers e) (polls g + 2) j" using IH by fastforce
    then show ?thesis by (auto simp: wifi_exit_shift)
  qed
qed

lemma wifi_wait_exit:
  assumes "\<forall>i<j. \<not> wifi_exit (answers e) (polls g) i" "wifi_exit (answers e) (polls g) j"
  shows "wifi_wait e g =
           (if answers e (polls g + 2 * j) = WL_CONNECTED then Some (True, waited g j (2 * j + 1))
            else Some (False, Serial_print ''INCORRECT WIFI PASSWORD'' (waited g (Suc j) (2 * j + 2))))"
proof -
  let ?g = "waited g j (2 * j)"
  have w: "wifi_wait e g = wifi_wait e ?g" using assms(1) by (rule wifi_wait_rounds)
  show ?thesis
  proof (cases "answers e (polls g + 2 * j) = WL_CONNECTED")
    case True
    then have "wifi_wait e ?g = Some (True, waited ?g 0 1)" by (intro wifi_wait_connected) simp
    with w True show ?thesis by (simp add: waited_waited)
  next
    case False
    with assms(2) have "answers e (Suc (polls ?g)) = WL_WRONG_PASSWORD"
      by (simp add: wifi_exit_def)
    with False have "wifi_wait e ?g = Some (False, Serial_print ''INCORRECT WIFI PASSWORD'' (waited ?g 1 2))"
      by (intro wifi_wait_wrong) simp_all
    with w False show ?thesis by (simp add: waited_waited)
  qed
qed

lemma polls_wifi_started [simp]: "polls (wifi_started e g) = polls g"
  by (simp add: wifi_started_def lib_defs)

lemma setupWiFi_wait: "setupWiFi e g =
     (case wifi_wait e (wifi_started e g) of
        None \<Rightarrow> None
      | Some (False, g5) \<Rightarrow> Some g5
      | Some (True, g5) \<Rightarrow>
          (let g6 = Serial_println [] g5;
               g7 = Serial_print ''Connected to '' g6;
               g8 = Serial_println (cfg_ssid e) g7;
               g9 = Serial_print ''IP address: '' g8;
               (ip, g10) = WiFi_localIP e g9
           in Some (Serial_println (ip_toString ip) g10)))"
  by (simp add: setupWiFi_def wifi_started_def)

lemma setupWiFi_some:
  assumes "\<forall>i<j. \<not> wifi_exit (answers e) (polls g) i" "wifi_exit (answers e) (polls g) j"
  shows "\<exists>g'. setupWiFi e g = Some g'"
  using assms wifi_wait_exit [of j e "wifi_started e g"]
  by (simp add: setupWiFi_wait Let_def case_prod_beta split: if_splits)

lemma setupWiFi_wrong_serial:
  assumes "\<forall>i<j. \<not> wifi_exit (answers e) (polls g) i"
    and "answers e (polls g + 2 * j) \<noteq> WL_CONNECTED"
    and "answers e (polls g + 2 * j + 1) = WL_WRONG_PASSWORD"
  shows "\<exists>g'. setupWiFi e g = Some g' \<and>
           g_serial g' = g_serial g @ crlf @ ''Connecting to WIFI'' @ replicate (Suc j) (CHR ''.'') @
             ''INCORRECT WIFI PASSWORD''"
proof -
  have "wifi_exit (answers e) (polls g) j" using assms(3) by (simp add: wifi_exit_def)
  then show ?thesis
    using assms wifi_wait_exit [of j e "wifi_started e g"]
    by (simp add: setupWiFi_wait wifi_started_def waited_def lib_defs)
qed

subsection \<open>Properties of the network join\<close>

text \<open>
  C8. The wait loop of \<^verbatim>\<open>setupWiFi\<close> returns if and only if some round ends it:
  the status poll of the loop condition reports \<open>WL_CONNECTED\<close>, or the poll after
  the delay reports \<open>WL_WRONG_PASSWORD\<close>. There is no timeout and no retry limit.
\<close>

theorem wifi_wait_returns_iff:
  "(\<exists>r. wifi_wait e g = Some r) \<longleftrightarrow> (\<exists>j. wifi_exit (answers e) (polls g) j)"
proof
  assume "\<exists>r. wifi_wait e g = Some r"
  then show "\<exists>j. wifi_exit (answers e) (polls g) j" using wifi_wait_returns by blast
next
  assume "\<exists>j. wifi_exit (answers e) (polls g) j"
  then obtain j where "wifi_exit (answers e) (polls g) j" "\<forall>i<j. \<not> wifi_exit (answers e) (polls g) i"
    using exists_least_iff [of "wifi_exit (answers e) (polls g)"] by blast
  then show "\<exists>r. wifi_wait e g = Some r" by (auto simp: wifi_wait_exit)
qed

theorem wifi_wait_returns_iff_witness:
  "\<exists>r. wifi_wait home_env (wifi_started home_env globals_init) = Some r"
proof -
  have "wifi_exit (answers home_env) (polls (wifi_started home_env globals_init)) 2"
    by (simp add: wifi_exit_def home_env_def wifi_started_def globals_init_def lib_defs)
  then show ?thesis using wifi_wait_returns_iff by blast
qed

text \<open>
  C25. When the first round that ends the loop sees a wrong password, \<^verbatim>\<open>setupWiFi\<close>
  returns early: it has printed one dot per round and the error text, waited 500 ms
  per round, and never prints the connection report.
\<close>

theorem setupWiFi_wrong_password:
  assumes "\<forall>i<j. \<not> wifi_exit (answers e) (polls g) i"
    and "answers e (polls g + 2 * j) \<noteq> WL_CONNECTED"
    and "answers e (polls g + 2 * j + 1) = WL_WRONG_PASSWORD"
  shows "setupWiFi e g =
           Some (Serial_print ''INCORRECT WIFI PASSWORD'' (waited (wifi_started e g) (Suc j) (2 * j + 2)))"
proof -
  have "wifi_exit (answers e) (polls g) j" using assms(3) by (simp add: wifi_exit_def)
  then show ?thesis
    using assms wifi_wait_exit [of j e "wifi_started e g"] by (simp add: setupWiFi_wait)
qed

theorem setupWiFi_wrong_password_witness:
  "setupWiFi wrong_psk_env globals_init =
     Some (Serial_print ''INCORRECT WIFI PASSWORD'' (waited (wifi_started wrong_psk_env globals_init) 2 4))"
proof -
  have h: "\<forall>i<1. \<not> wifi_exit (answers wrong_psk_env) (polls globals_init) i"
    "answers wrong_psk_env (polls globals_init + 2 * 1) \<noteq> WL_CONNECTED"
    "answers wrong_psk_env (polls globals_init + 2 * 1 + 1) = WL_WRONG_PASSWORD"
    by (simp_all add: wrong_psk_env_def wifi_exit_def globals_init_def lib_defs)
  show ?thesis using setupWiFi_wrong_password [OF h] by (simp add: eval_nat_numeral)
qed

text \<open>
  C9. When the network is merely unreachable (the radio never reports
  \<open>WL_CONNECTED\<close> at a loop-condition poll nor \<open>WL_WRONG_PASSWORD\<close> after the delay),
  \<^verbatim>\<open>setupWiFi\<close> never returns.
\<close>

theorem setupWiFi_never_returns:
  assumes "\<forall>j. \<not> wifi_exit (answers e) (polls g) j"
  shows "setupWiFi e g = None"
proof -
  have "wifi_wait e (wifi_started e g) = None"
    using assms wifi_wait_returns [of e "wifi_started e g"] by (cases "wifi_wait e (wifi_started e g)") auto
  then show ?thesis by (simp add: setupWiFi_wait)
qed

theorem setupWiFi_never_returns_witness: "setupWiFi no_ap_env globals_init = None"
proof -
  have "\<forall>j. \<not> wifi_exit (answers no_ap_env) (polls globals_init) j"
    by (simp add: no_ap_env_def wifi_exit_def)
  then show ?thesis by (rule setupWiFi_never_returns)
qed

text \<open>
  When the first round that ends the loop sees the connection, \<^verbatim>\<open>setupWiFi\<close>
  reports it on the serial line: the SSID and the address the next query of the
  station returns, printed as \<^verbatim>\<open>IPAddress::printTo\<close> does.
\<close>

theorem setupWiFi_connected:
  assumes "\<forall>i<j. \<not> wifi_exit (answers e) (polls g) i"
    and "answers e (polls g + 2 * j) = WL_CONNECTED"
  shows "\<exists>g'. setupWiFi e g = Some g' \<and>
           g_serial g' = g_serial g @ crlf @ ''Connecting to WIFI'' @ replicate j (CHR ''.'') @ crlf @
             ''Connected to '' @ cfg_ssid e @ crlf @ ''IP address: '' @
             ip_toString (radio_ip (hw_radio e) (polls g + 2 * j + 1)) @ crlf"
proof -
  have "wifi_exit (answers e) (polls g) j" using assms(2) by (simp add: wifi_exit_def)
  then show ?thesis
    using assms wifi_wait_exit [of j e "wifi_started e g"]
    by (simp add: setupWiFi_wait wifi_started_def waited_def lib_defs Let_def)
qed

theorem setupWiFi_connected_witness:
  "\<exists>g'. setupWiFi home_env globals_init = Some g' \<and>
     g_serial g' = crlf @ ''Connecting to WIFI..'' @ crlf @ ''Connected to home'' @ crlf @
       ''IP address: 192.168.1.42'' @ crlf"
proof -
  have h: "\<forall>i<2. \<not> wifi_exit (answers home_env) (polls globals_init) i"
    "answers home_env (polls globals_init + 2 * 2) = WL_CONNECTED"
    by (auto simp: home_env_def wifi_exit_def globals_init_def lib_defs less_2_cases_iff)
  have ip: "ip_toString (IPv4 192 168 1 42) = ''192.168.1.42''"
    by (simp add: ip_toString_def ip_isSet_def dec_string.simps)
  from setupWiFi_connected [OF h] obtain g' where run: "setupWiFi home_env globals_init = Some g'"
    and out: "g_serial g' = g_serial globals_init @ crlf @ ''Connecting to WIFI'' @ replicate 2 (CHR ''.'') @
             crlf @ ''Connected to '' @ cfg_ssid home_env @ crlf @ ''IP address: '' @
             ip_toString (radio_ip (hw_radio home_env) (polls globals_init + 2 * 2 + 1)) @ crlf"
    by blast
  have r: "radio_ip (hw_radio home_env) (polls globals_init + 2 * 2 + 1) = IPv4 192 168 1 42"
    "cfg_ssid home_env = ''home''" "g_serial globals_init = []"
    by (simp_all add: home_env_def globals_init_def)
  from out have "g_serial g' = crlf @ ''Connecting to WIFI..'' @ crlf @ ''Connected to home'' @ crlf @
       ''IP address: 192.168.1.42'' @ crlf"
    by (simp only: r ip) (simp add: numeral_2_eq_2)
  with run show ?thesis by blast
qed

text \<open>
  C27. The wait costs exactly 500 ms per round: when round \<open>j\<close> is the first to end
  the loop, \<^verbatim>\<open>setupWiFi\<close> returns after \<open>500 * j\<close> ms on a connection, and after
  \<open>500 * (j + 1)\<close> ms on a wrong password (that round's delay has already run).
\<close>

theorem setupWiFi_time:
  assumes "\<forall>i<j. \<not> wifi_exit (answers e) (polls g) i" "wifi_exit (answers e) (polls g) j"
  shows "\<exists>g'. setupWiFi e g = Some g' \<and>
           g_millis g' = g_millis g + 500 * (if answers e (polls g + 2 * j) = WL_CONNECTED then j else Suc j)"
  using assms wifi_wait_exit [of j e "wifi_started e g"]
  by (simp add: setupWiFi_wait waited_def wifi_started_def lib_defs Let_def case_prod_beta split: if_splits)

theorem setupWiFi_time_witness:
  "\<exists>g'. setupWiFi wrong_psk_env globals_init = Some g' \<and> g_millis g' = 1000"
proof -
  have h: "\<forall>i<1. \<not> wifi_exit (answers wrong_psk_env) (polls globals_init) i"
    "wifi_exit (answers wrong_psk_env) (polls globals_init) 1"
    by (auto simp: wrong_psk_env_def wifi_exit_def globals_init_def lib_defs)
  have "answers wrong_psk_env (polls globals_init + 2 * 1) \<noteq> WL_CONNECTED" "g_millis globals_init = 0"
    by (simp_all add: wrong_psk_env_def globals_init_def lib_defs)
  then show ?thesis using setupWiFi_time [OF h] by simp
qed

end
