(* ===== verification/Sketch.thy ===== *)
theory Sketch
  imports Display Handlers WiFiSetup
begin

text \<open>
  The top level of \<^verbatim>\<open>main.cpp\<close>: \<^verbatim>\<open>setupServer\<close> (lines 102--115), \<^verbatim>\<open>setup\<close>
  (lines 117--125) and \<^verbatim>\<open>loop\<close> (lines 127--134), with the web server's
  \<^verbatim>\<open>handleClient\<close> dispatching one parsed request to the handler the sketch
  registered. \<open>setup_fn\<close> is \<open>None\<close> when it never returns (the Wi-Fi wait), and
  \<open>Halted\<close> when the display could not start. The device's runs are the inductive
  relation \<open>reachable\<close>: the state \<open>setup_fn\<close> returns, then any number of calls of
  \<open>loop_fn\<close>, each with the request pending at that moment (or none). The invariant
  \<open>sketch_inv\<close> holds in every reachable state: the routes registered once, the LED
  low, and the display cursor 16 rows further down for every redraw so far.
\<close>

definition run_handler :: "handler \<Rightarrow> globals \<Rightarrow> globals option" where
  "run_handler h g = (case h of HandleRoot \<Rightarrow> Some (handleRoot g) | HandleNotFound \<Rightarrow> handleNotFound g)"

text \<open>
  \<^verbatim>\<open>ESP8266WebServer::handleClient\<close> for one request that the server has parsed:
  the request becomes the current one and is routed; without a match and without a
  not-found handler the library answers 404 itself.
\<close>

definition Server_handleClient :: "request option \<Rightarrow> globals \<Rightarrow> globals option" where
  "Server_handleClient req g =
     (case req of
        None \<Rightarrow> Some g
      | Some r \<Rightarrow>
          if \<not> srv_began (g_server g) then Some g
          else
            (let g1 = g\<lparr>g_server := (g_server g)\<lparr>srv_current := r\<rparr>\<rparr>
             in case server_route (g_server g1) r of
                  Route h \<Rightarrow> run_handler h g1
                | Default404 \<Rightarrow> Some (Server_send 404 ''text/html'' (''Not found: '' @ req_uri r) g1)))"

definition setupServer :: "env \<Rightarrow> globals \<Rightarrow> globals" where
  "setupServer e g0 =
     (let (ok, g1) = MDNS_begin e ''esp8266'' g0;
          g2 = (if ok then Serial_println ''MDNS responder started'' g1 else g1);
          g3 = Server_on ''/'' HandleRoot g2;
          g4 = Server_onNotFound HandleNotFound g3;
          g5 = Server_begin g4
      in Serial_println ''HTTP server started'' g5)"

definition setup_fn :: "env \<Rightarrow> globals \<Rightarrow> globals run option" where
  "setup_fn e g0 =
     (let g1 = Serial_begin 9600 g0;
          g2 = pinMode_LED g1
      in case setupScreen e g2 of
           Halted g3 \<Rightarrow> Some (Halted g3)
         | Running g3 \<Rightarrow>
             (case setupWiFi e g3 of
                None \<Rightarrow> None
              | Some g4 \<Rightarrow> Some (Running (setupServer e g4))))"

definition loop_fn :: "env \<Rightarrow> request option \<Rightarrow> globals \<Rightarrow> globals option" where
  "loop_fn e req g0 =
     (case Server_handleClient req g0 of
        None \<Rightarrow> None
      | Some g1 \<Rightarrow>
          (let g2 = MDNS_update g1;
               (ip, g3) = WiFi_localIP e g2;
               ip_str = ip_toString ip
           in Some (displayIP ip_str g3)))"

declare run_handler_def [sketch_defs] Server_handleClient_def [lib_defs] setupServer_def [sketch_defs]
  setup_fn_def [sketch_defs] loop_fn_def [sketch_defs]

fun run_loops :: "env \<Rightarrow> request option list \<Rightarrow> globals \<Rightarrow> globals option" where
  "run_loops e [] g = Some g"
| "run_loops e (r # rs) g = (case loop_fn e r g of None \<Rightarrow> None | Some g' \<Rightarrow> run_loops e rs g')"

inductive reachable :: "env \<Rightarrow> globals \<Rightarrow> bool" for e :: env where
  boot: "setup_fn e globals_init = Some (Running g) \<Longrightarrow> reachable e g"
| step: "reachable e g \<Longrightarrow> loop_fn e r g = Some g' \<Longrightarrow> reachable e g'"

subsection \<open>The invariant\<close>

definition redraws :: "globals \<Rightarrow> nat" where
  "redraws g = count_list (g_trace g) DisplayFlush"

definition routes_ok :: "handler server \<Rightarrow> bool" where
  "routes_ok s \<longleftrightarrow> srv_handlers s = [(''/'', HTTP_ANY, HandleRoot)] \<and>
     srv_notFound s = Some HandleNotFound \<and> srv_began s"

text \<open>
  After \<open>n > 0\<close> redraws the panel holds the frame \<^verbatim>\<open>displayIP\<close> drew at the row of
  redraw \<open>n - 1\<close>, for the address read in that loop.
\<close>

definition sketch_inv :: "globals \<Rightarrow> bool" where
  "sketch_inv g \<longleftrightarrow> routes_ok (g_server g) \<and> g_led g = LOW \<and> text_ready (g_display g) \<and>
     cursor_y (g_display g) = word_of_nat (16 * redraws g) \<and>
     (redraws g = 0 \<longrightarrow> panel (g_display g) = []) \<and>
     (0 < redraws g \<longrightarrow>
        (\<exists>ip. ip_text ip \<and>
              panel (g_display g) = ip_frame ((g_display g)\<lparr>cursor_y := word_of_nat (16 * (redraws g - 1))\<rparr>) ip))"

text \<open>The state after a successful \<^verbatim>\<open>display.begin\<close> in \<^verbatim>\<open>setupScreen\<close>.\<close>

definition display_started :: "globals \<Rightarrow> globals" where
  "display_started g =
     g\<lparr>g_display := (g_display g)\<lparr>vccstate := 2, i2caddr := 0x3C,
                       buffer := (if 32 < gfx_height (g_display g) then [Splash] else [])\<rparr>,
       g_trace := g_trace g @ [DisplayBegin True]\<rparr>"

definition boot_state :: "env \<Rightarrow> globals" where
  "boot_state e = (case setup_fn e globals_init of Some (Running g) \<Rightarrow> g | _ \<Rightarrow> globals_init)"

definition first_loop_state :: globals where
  "first_loop_state = the (loop_fn home_env None (boot_state home_env))"

definition dead_display_env :: env where
  "dead_display_env = home_env\<lparr>hw_display_ok := False\<rparr>"

definition delete_root :: request where
  "delete_root = \<lparr>req_method = HTTP_DELETE, req_uri = ''/'', req_args = [(''x'', ''1'')]\<rparr>"

definition same_io :: "globals \<Rightarrow> globals \<Rightarrow> bool" where
  "same_io g g' \<longleftrightarrow> g_server g' = g_server g \<and> g_display g' = g_display g \<and> g_led g' = g_led g \<and>
     g_trace g' = g_trace g \<and> g_mdns g' = g_mdns g"

text \<open>The response the two registered routes give to a request that they answer.\<close>

definition served :: "request \<Rightarrow> response" where
  "served r =
     (if req_uri r = ''/''
      then \<lparr>resp_code = 200, resp_type = ''text/plain'', resp_body = ''hello from esp8266!'' @ crlf\<rparr>
      else \<lparr>resp_code = 404, resp_type = ''text/plain'', resp_body = notFound_body r\<rparr>)"

inductive_cases reachable_cases: "reachable e g"

subsection \<open>Frame lemmas of the components\<close>

lemma wifi_wait_same_io:
  assumes ret: "wifi_wait e g = Some r"
  shows "same_io g (snd r)"
proof (rule wifi_wait.raw_induct [where P = "\<lambda>e g r. same_io g (snd r)", OF _ ret])
  fix f e g r
  assume IH: "\<And>e g r. f e g = Some r \<Longrightarrow> same_io g (snd r)"
    and eq: "(let (st, g1) = WiFi_status e g
              in if st \<noteq> WL_CONNECTED then
                   (let g2 = delay 500 g1; g3 = Serial_print ''.'' g2; (st', g4) = WiFi_status e g3
                    in if st' = WL_WRONG_PASSWORD
                       then Some (False, Serial_print ''INCORRECT WIFI PASSWORD'' g4)
                       else f e g4)
                 else Some (True, g1)) = Some r"
  show "same_io g (snd r)"
  proof (cases "wifi_exit (answers e) (polls g) 0")
    case True
    with eq show ?thesis
      by (auto simp: wifi_exit_def lib_defs same_io_def Let_def split: if_splits)
  next
    case False
    with eq have "f e (waited g 1 2) = Some r"
      by (simp add: wifi_exit_def lib_defs waited_def Let_def)
    then have "same_io (waited g 1 2) (snd r)" by (rule IH)
    then show ?thesis by (simp add: same_io_def waited_def)
  qed
qed

lemma setupWiFi_io:
  assumes "setupWiFi e g = Some g'"
  shows "g_server g' = g_server g \<and> g_display g' = g_display g \<and> g_led g' = g_led g \<and>
         g_trace g' = g_trace g @ [WiFiMode WIFI_STA, WiFiBegin] \<and> g_mdns g' = g_mdns g"
proof -
  obtain b g5 where w: "wifi_wait e (wifi_started e g) = Some (b, g5)"
    using assms by (cases "wifi_wait e (wifi_started e g)") (auto simp: setupWiFi_wait)
  then have "same_io (wifi_started e g) g5" using wifi_wait_same_io by fastforce
  with w assms show ?thesis
    by (cases b) (auto simp: setupWiFi_wait same_io_def wifi_started_def lib_defs Let_def)
qed

lemma setupServer_io:
  "g_server (setupServer e g) = server_begin (server_onNotFound HandleNotFound (server_on ''/'' HandleRoot (g_server g)))"
  "g_display (setupServer e g) = g_display g" "g_led (setupServer e g) = g_led g"
  "g_trace (setupServer e g) = g_trace g @ [MDNSBegin (hw_mdns_ok e), ServerOn ''/'', ServerOnNotFound, ServerBegin]"
  by (simp_all add: setupServer_def lib_defs Let_def)

lemma setupServer_serial:
  "g_serial (setupServer e g) =
     g_serial g @ (if hw_mdns_ok e then ''MDNS responder started'' @ crlf else []) @ ''HTTP server started'' @ crlf"
  by (simp add: setupServer_def lib_defs Let_def)

lemma setupScreen_cases:
  "setupScreen e g =
     (if hw_display_ok e
      then Running (g\<lparr>g_display := (g_display g)\<lparr>vccstate := 2, i2caddr := 0x3C,
                        buffer := (if 32 < gfx_height (g_display g) then [Splash] else [])\<rparr>,
                      g_trace := g_trace g @ [DisplayBegin True]\<rparr>)
      else Halted (Serial_println ''SSD1306 allocation failed'' (g\<lparr>g_trace := g_trace g @ [DisplayBegin False]\<rparr>)))"
  by (simp add: setupScreen_def lib_defs)

lemma run_handler_io:
  assumes "run_handler h g = Some g'"
  shows "srv_handlers (g_server g') = srv_handlers (g_server g) \<and>
         srv_notFound (g_server g') = srv_notFound (g_server g) \<and> srv_began (g_server g') = srv_began (g_server g) \<and>
         srv_current (g_server g') = srv_current (g_server g) \<and> g_display g' = g_display g \<and> g_led g' = LOW \<and>
         (\<exists>code. g_trace g' = g_trace g @ [PinWrite HIGH, HttpSend code, PinWrite LOW])"
  using assms
  by (cases h) (auto simp: run_handler_def handleRoot_def handleNotFound_def lib_defs Let_def
      split: option.splits)

lemma handleClient_io:
  assumes "Server_handleClient req g = Some g'" "routes_ok (g_server g)"
  shows "routes_ok (g_server g') \<and> g_display g' = g_display g \<and> (g_led g = LOW \<longrightarrow> g_led g' = LOW) \<and>
         DisplayFlush \<notin> set (drop (length (g_trace g)) (g_trace g')) \<and> take (length (g_trace g)) (g_trace g') = g_trace g"
proof (cases req)
  case None
  with assms show ?thesis by (simp add: Server_handleClient_def)
next
  case (Some r)
  let ?g1 = "g\<lparr>g_server := (g_server g)\<lparr>srv_current := r\<rparr>\<rparr>"
  obtain h where route: "server_route (g_server ?g1) r = Route h"
    using assms(2) by (cases "req_uri r = ''/''") (auto simp: server_route_def routes_ok_def)
  with assms Some have "run_handler h ?g1 = Some g'" by (simp add: Server_handleClient_def routes_ok_def)
  then show ?thesis
    using run_handler_io [of h ?g1 g'] assms(2) by (auto simp: routes_ok_def)
qed

subsection \<open>Boot and one loop keep the invariant\<close>

lemma ip_frame_cong:
  "cursor_y d = cursor_y d' \<Longrightarrow> gfx_height d = gfx_height d' \<Longrightarrow> cp437 d = cp437 d' \<Longrightarrow>
   ip_frame d ip = ip_frame d' ip"
  by (simp add: ip_frame_def row_visible_def Let_def)

lemma setup_fn_Running:
  "setup_fn e g0 = Some (Running g) \<longleftrightarrow>
     hw_display_ok e \<and>
     (\<exists>g4. setupWiFi e (display_started (pinMode_LED (Serial_begin 9600 g0))) = Some g4 \<and>
           g = setupServer e g4)"
  by (auto simp: setup_fn_def setupScreen_cases display_started_def Let_def split: option.splits)

lemma setup_fn_Halted:
  "setup_fn e g0 = Some (Halted g) \<longleftrightarrow>
     \<not> hw_display_ok e \<and>
     g = Serial_println ''SSD1306 allocation failed''
           ((pinMode_LED (Serial_begin 9600 g0))\<lparr>g_trace := g_trace (pinMode_LED (Serial_begin 9600 g0)) @ [DisplayBegin False]\<rparr>)"
  by (auto simp: setup_fn_def setupScreen_cases Let_def split: option.splits)

lemma redraws_trace: "g_trace g' = g_trace g @ es \<Longrightarrow> redraws g' = redraws g + count_list es DisplayFlush"
  by (simp add: redraws_def)

lemma boot_inv:
  assumes "setup_fn e globals_init = Some (Running g)"
  shows "sketch_inv g"
proof -
  let ?g2 = "display_started (pinMode_LED (Serial_begin 9600 globals_init))"
  obtain g4 where ok: "hw_display_ok e" and w: "setupWiFi e ?g2 = Some g4" and g: "g = setupServer e g4"
    using assms setup_fn_Running by blast
  from setupWiFi_io [OF w] have io: "g_server g4 = g_server ?g2" "g_display g4 = g_display ?g2"
    "g_led g4 = g_led ?g2" "g_trace g4 = g_trace ?g2 @ [WiFiMode WIFI_STA, WiFiBegin]"
    by simp_all
  have "redraws g = 0"
    using io(4) by (simp add: g setupServer_io redraws_def display_started_def globals_init_def lib_defs)
  moreover have "routes_ok (g_server g)"
    using io(1) by (simp add: g setupServer_io routes_ok_def display_started_def globals_init_def lib_defs)
  moreover have "g_led g = LOW" "text_ready (g_display g)" "cursor_y (g_display g) = 0"
    "panel (g_display g) = []"
    using io(2,3)
    by (simp_all add: g setupServer_io text_ready_def display_started_def globals_init_def lib_defs)
  ultimately show ?thesis by (simp add: sketch_inv_def)
qed

lemma loop_fn_inv:
  assumes inv: "sketch_inv g" and run: "loop_fn e r g = Some g'"
  shows "sketch_inv g'"
proof -
  obtain g1 where hc: "Server_handleClient r g = Some g1"
    using run by (cases "Server_handleClient r g") (auto simp: loop_fn_def)
  have routes: "routes_ok (g_server g)" and led: "g_led g = LOW" and tr: "text_ready (g_display g)"
    and cur: "cursor_y (g_display g) = word_of_nat (16 * redraws g)"
    using inv by (simp_all add: sketch_inv_def)
  from handleClient_io [OF hc routes] led
  have r1: "routes_ok (g_server g1)" and d1: "g_display g1 = g_display g" and l1: "g_led g1 = LOW"
    and t1: "g_trace g1 = g_trace g @ drop (length (g_trace g)) (g_trace g1)"
    and n1: "DisplayFlush \<notin> set (drop (length (g_trace g)) (g_trace g1))"
    by (simp_all, metis append_take_drop_id)
  have rd1: "redraws g1 = redraws g"
    using redraws_trace [OF t1] n1 by (simp add: count_list_0_iff)
  let ?g3 = "snd (WiFi_localIP e (MDNS_update g1))"
  let ?ip = "ip_toString (fst (WiFi_localIP e (MDNS_update g1)))"
  have g': "g' = displayIP ?ip ?g3"
    using run hc by (simp add: loop_fn_def case_prod_beta Let_def)
  have d3: "g_display ?g3 = g_display g" and s3: "g_server ?g3 = g_server g1" and l3: "g_led ?g3 = LOW"
    and t3: "g_trace ?g3 = g_trace g1 @ [MDNSUpdate]"
    using d1 l1 by (simp_all add: lib_defs case_prod_beta)
  have iptext: "ip_text ?ip" by (rule ip_text_dotted)
  have eff: "displayIP ?ip ?g3 =
           ?g3\<lparr>g_display := (g_display ?g3)\<lparr>cursor_x := 0, cursor_y := cursor_y (g_display ?g3) + 16,
               textsize_x := 1, textsize_y := 1, textcolor := 1, textbgcolor := 1,
               buffer := ip_frame (g_display ?g3) ?ip, panel := ip_frame (g_display ?g3) ?ip\<rparr>,
             g_trace := g_trace ?g3 @ [DisplayFlush]\<rparr>"
    using tr iptext d3 by (intro displayIP_effect) simp_all
  have rd': "redraws g' = Suc (redraws g)"
    using rd1 t3 by (simp add: g' eff redraws_def)
  have "word_of_nat (16 * redraws g) + 16 = (word_of_nat (16 * Suc (redraws g)) :: i16)" by simp
  then have cur': "cursor_y (g_display g') = word_of_nat (16 * redraws g')"
    using cur d3 rd' by (simp add: g' eff)
  have frame': "panel (g_display g') =
      ip_frame ((g_display g')\<lparr>cursor_y := word_of_nat (16 * (redraws g' - 1))\<rparr>) ?ip"
    using cur d3 rd' by (simp add: g' eff ip_frame_cong)
  have "routes_ok (g_server g')" "g_led g' = LOW" "text_ready (g_display g')"
    using r1 s3 l3 tr d3 by (simp_all add: g' eff text_ready_def)
  moreover have "redraws g' \<noteq> 0" using rd' by simp
  ultimately show ?thesis
    using cur' frame' iptext unfolding sketch_inv_def by blast
qed

lemma reachable_inv: "reachable e g \<Longrightarrow> sketch_inv g"
proof (induction rule: reachable.induct)
  case (boot g)
  then show ?case by (rule boot_inv)
next
  case (step g r g')
  then show ?case using loop_fn_inv by blast
qed

lemma boot_trace:
  assumes "setup_fn e g0 = Some (Running g)"
  shows "g_trace g = g_trace g0 @ [SerialBegin 9600, PinModeOutput, DisplayBegin True, WiFiMode WIFI_STA,
           WiFiBegin, MDNSBegin (hw_mdns_ok e), ServerOn ''/'', ServerOnNotFound, ServerBegin]"
proof -
  let ?g2 = "display_started (pinMode_LED (Serial_begin 9600 g0))"
  obtain g4 where w: "setupWiFi e ?g2 = Some g4" and g: "g = setupServer e g4"
    using assms setup_fn_Running by blast
  then show ?thesis
    using setupWiFi_io [OF w] by (simp add: setupServer_io display_started_def lib_defs)
qed

end
