(* ===== verification/Loop.thy ===== *)
theory Loop
  imports Sketch
begin

text \<open>
  One iteration of \<^verbatim>\<open>loop\<close> (\<^verbatim>\<open>main.cpp\<close> lines 127--134) in a running
  device, that is, in a state satisfying \<open>sketch_inv\<close>. \<^verbatim>\<open>handleClient\<close> dispatches
  to the root or not-found handler (\<open>handleClient_root\<close>, \<open>handleClient_other\<close>).
  The iteration then serves the request or hangs (\<open>loop_fn_serves\<close>,
  \<open>loop_fn_hangs\<close>), leaves the station and the mDNS responder to the rest of the
  loop (\<open>handleClient_radio\<close>), and appends a known list of events
  (\<open>loop_fn_trace\<close>). It also redraws the frame of the address the station reports
  (\<open>loop_fn_display\<close>, \<open>loop_panel_rows\<close>). The last section boots the sample
  environments of \<open>WiFiSetup\<close>.
\<close>

subsection \<open>Dispatch of one request\<close>

lemma route_root:
  "routes_ok s \<Longrightarrow> req_uri r = ''/'' \<Longrightarrow> server_route s r = Route HandleRoot"
  by (simp add: server_route_def routes_ok_def)

lemma route_other:
  "routes_ok s \<Longrightarrow> req_uri r \<noteq> ''/'' \<Longrightarrow> server_route s r = Route HandleNotFound"
  by (auto simp: server_route_def routes_ok_def)

text \<open>The rest of one loop after the request has been served.\<close>

lemma loop_fn_after:
  "Server_handleClient req g = Some g1 \<Longrightarrow>
   loop_fn e req g = Some (displayIP (ip_toString (fst (WiFi_localIP e (MDNS_update g1))))
                             (snd (WiFi_localIP e (MDNS_update g1))))"
  by (simp add: loop_fn_def Let_def case_prod_beta)

lemma loop_fn_server:
  "Server_handleClient req g = Some g1 \<Longrightarrow> text_ready (g_display g1) \<Longrightarrow>
   \<exists>g'. loop_fn e req g = Some g' \<and> g_server g' = g_server g1 \<and>
        g_trace g' = g_trace g1 @ [MDNSUpdate, DisplayFlush]"
proof -
  assume hc: "Server_handleClient req g = Some g1" and tr: "text_ready (g_display g1)"
  let ?g3 = "snd (WiFi_localIP e (MDNS_update g1))"
  let ?ip = "ip_toString (fst (WiFi_localIP e (MDNS_update g1)))"
  have g3: "g_display ?g3 = g_display g1" "g_server ?g3 = g_server g1" "g_trace ?g3 = g_trace g1 @ [MDNSUpdate]"
    by (simp_all add: WiFi_localIP_def MDNS_update_def emit_def case_prod_beta)
  have "g_server (displayIP ?ip ?g3) = g_server g1 \<and>
        g_trace (displayIP ?ip ?g3) = g_trace g1 @ [MDNSUpdate, DisplayFlush]"
    using tr g3 ip_text_dotted by (simp add: displayIP_effect)
  with hc show ?thesis by (simp add: loop_fn_after)
qed

lemma handleClient_root:
  assumes "routes_ok (g_server g)" "req_uri r = ''/''"
  shows "Server_handleClient (Some r) g =
           Some (handleRoot (g\<lparr>g_server := (g_server g)\<lparr>srv_current := r\<rparr>\<rparr>))"
  using assms route_root [of "(g_server g)\<lparr>srv_current := r\<rparr>" r]
  by (simp add: Server_handleClient_def routes_ok_def run_handler_def)

lemma handleClient_other:
  assumes "routes_ok (g_server g)" "req_uri r \<noteq> ''/''"
  shows "Server_handleClient (Some r) g = handleNotFound (g\<lparr>g_server := (g_server g)\<lparr>srv_current := r\<rparr>\<rparr>)"
  using assms route_other [of "(g_server g)\<lparr>srv_current := r\<rparr>" r]
  by (simp add: Server_handleClient_def routes_ok_def run_handler_def)

subsection \<open>One loop iteration in a running device\<close>

lemma loop_fn_serves:
  assumes inv: "sketch_inv g" and ans: "req_uri r = ''/'' \<or> length (req_args r) < 256"
  shows "\<exists>g'. loop_fn e (Some r) g = Some g' \<and>
           srv_sent (g_server g') = srv_sent (g_server g) @ [served r] \<and>
           g_trace g' = g_trace g @ [PinWrite HIGH, HttpSend (resp_code (served r)), PinWrite LOW,
                                     MDNSUpdate, DisplayFlush]"
proof -
  have routes: "routes_ok (g_server g)" and tr: "text_ready (g_display g)"
    using inv by (simp_all add: sketch_inv_def)
  let ?g0 = "g\<lparr>g_server := (g_server g)\<lparr>srv_current := r\<rparr>\<rparr>"
  obtain g1 where hc: "Server_handleClient (Some r) g = Some g1"
    and sent: "srv_sent (g_server g1) = srv_sent (g_server g) @ [served r]"
    and t1: "g_trace g1 = g_trace g @ [PinWrite HIGH, HttpSend (resp_code (served r)), PinWrite LOW]"
    and d1: "g_display g1 = g_display g"
  proof (cases "req_uri r = ''/''")
    case True
    then show ?thesis
      using that handleClient_root [OF routes True] by (simp add: served_def handleRoot_def lib_defs)
  next
    case False
    let ?g1 = "?g0\<lparr>g_led := LOW,
                   g_server := server_send 404 ''text/plain'' (notFound_body (srv_current (g_server ?g0))) (g_server ?g0),
                   g_trace := g_trace ?g0 @ [PinWrite HIGH, HttpSend 404, PinWrite LOW]\<rparr>"
    have "handleNotFound ?g0 = Some ?g1"
      using ans False by (intro handleNotFound_sends) (simp add: current_args_def)
    then show ?thesis
      using that handleClient_other [OF routes False] False by (simp add: served_def lib_defs)
  qed
  from loop_fn_server [OF hc, where e = e] tr d1 obtain g' where "loop_fn e (Some r) g = Some g'"
    "g_server g' = g_server g1" "g_trace g' = g_trace g1 @ [MDNSUpdate, DisplayFlush]" by auto
  then show ?thesis using sent t1 by simp
qed

lemma loop_fn_idle:
  assumes "sketch_inv g"
  shows "\<exists>g'. loop_fn e None g = Some g' \<and> g_server g' = g_server g"
  using assms loop_fn_server [of None g g e] by (auto simp: sketch_inv_def Server_handleClient_def)

lemma loop_fn_hangs:
  assumes "sketch_inv g" "req_uri r \<noteq> ''/''" "256 \<le> length (req_args r)"
  shows "loop_fn e (Some r) g = None"
proof -
  have inv: "routes_ok (g_server g)" using assms(1) by (simp add: sketch_inv_def)
  have "handleNotFound (g\<lparr>g_server := (g_server g)\<lparr>srv_current := r\<rparr>\<rparr>) = None"
    using assms(3) by (intro handleNotFound_none) (simp add: current_args_def)
  then show ?thesis using handleClient_other [OF inv assms(2)] by (simp add: loop_fn_def)
qed

lemma handleClient_radio:
  "Server_handleClient req g = Some g' \<Longrightarrow> g_wifi g' = g_wifi g \<and> g_mdns g' = g_mdns g"
  by (auto simp: run_handler_def handleRoot_def handleNotFound_def lib_defs Let_def
      split: option.splits if_splits route.splits handler.splits)

lemma handleClient_trace:
  assumes "Server_handleClient req g = Some g'" "routes_ok (g_server g)"
  shows "g_trace g' = g_trace g \<or> (\<exists>code. g_trace g' = g_trace g @ [PinWrite HIGH, HttpSend code, PinWrite LOW])"
proof (cases req)
  case None
  with assms show ?thesis by (simp add: Server_handleClient_def)
next
  case (Some r)
  let ?g1 = "g\<lparr>g_server := (g_server g)\<lparr>srv_current := r\<rparr>\<rparr>"
  obtain h where route: "server_route (g_server ?g1) r = Route h"
    using assms(2) by (cases "req_uri r = ''/''") (auto simp: server_route_def routes_ok_def)
  with assms Some have "run_handler h ?g1 = Some g'" by (simp add: Server_handleClient_def routes_ok_def)
  then show ?thesis using run_handler_io [of h ?g1 g'] by auto
qed

text \<open>The events and the mDNS polls of one loop iteration.\<close>

lemma loop_fn_trace:
  assumes inv: "sketch_inv g" and run: "loop_fn e req g = Some g'"
  shows "(g_trace g' = g_trace g @ [MDNSUpdate, DisplayFlush] \<or>
          (\<exists>code. g_trace g' = g_trace g @ [PinWrite HIGH, HttpSend code, PinWrite LOW, MDNSUpdate, DisplayFlush])) \<and>
         mdns_updates (g_mdns g') = Suc (mdns_updates (g_mdns g))"
proof -
  obtain g1 where hc: "Server_handleClient req g = Some g1"
    using run by (cases "Server_handleClient req g") (auto simp: loop_fn_def)
  have routes: "routes_ok (g_server g)" and tr: "text_ready (g_display g)"
    using inv by (simp_all add: sketch_inv_def)
  have d1: "g_display g1 = g_display g" using handleClient_io [OF hc routes] by simp
  have m1: "g_mdns g1 = g_mdns g" using handleClient_radio [OF hc] by simp
  let ?g3 = "snd (WiFi_localIP e (MDNS_update g1))"
  let ?ip = "ip_toString (fst (WiFi_localIP e (MDNS_update g1)))"
  have g': "g' = displayIP ?ip ?g3" using run hc loop_fn_after by simp
  have d3: "g_display ?g3 = g_display g" and t3: "g_trace ?g3 = g_trace g1 @ [MDNSUpdate]"
    and m3: "mdns_updates (g_mdns ?g3) = Suc (mdns_updates (g_mdns g))"
    using d1 m1 by (simp_all add: lib_defs case_prod_beta)
  have "g_trace g' = g_trace g1 @ [MDNSUpdate, DisplayFlush] \<and> mdns_updates (g_mdns g') = Suc (mdns_updates (g_mdns g))"
    using displayIP_effect [of ?g3 ?ip] tr d3 t3 m3 ip_text_dotted by (simp add: g')
  then show ?thesis using handleClient_trace [OF hc routes] by auto
qed

lemma boot_mdns:
  assumes "setup_fn e g0 = Some (Running g)"
  shows "mdns_updates (g_mdns g) = mdns_updates (g_mdns g0)"
proof -
  let ?g2 = "display_started (pinMode_LED (Serial_begin 9600 g0))"
  obtain g4 where w: "setupWiFi e ?g2 = Some g4" and g: "g = setupServer e g4"
    using assms setup_fn_Running by blast
  then show ?thesis
    using setupWiFi_io [OF w] by (simp add: setupServer_def display_started_def lib_defs Let_def case_prod_beta)
qed

text \<open>The panel after a loop iteration: the frame of the address the station reports.\<close>

lemma loop_fn_display:
  assumes inv: "sketch_inv g" and run: "loop_fn e req g = Some g'"
  shows "g_display g' = (g_display g)\<lparr>cursor_x := 0, cursor_y := cursor_y (g_display g) + 16,
               textsize_x := 1, textsize_y := 1, textcolor := 1, textbgcolor := 1,
               buffer := ip_frame (g_display g) (ip_toString (radio_ip (hw_radio e) (polls g))),
               panel := ip_frame (g_display g) (ip_toString (radio_ip (hw_radio e) (polls g)))\<rparr>"
proof -
  obtain g1 where hc: "Server_handleClient req g = Some g1"
    using run by (cases "Server_handleClient req g") (auto simp: loop_fn_def)
  have routes: "routes_ok (g_server g)" and tr: "text_ready (g_display g)"
    using inv by (simp_all add: sketch_inv_def)
  have d1: "g_display g1 = g_display g" using handleClient_io [OF hc routes] by simp
  have w1: "g_wifi g1 = g_wifi g" using handleClient_radio [OF hc] by simp
  let ?g3 = "snd (WiFi_localIP e (MDNS_update g1))"
  let ?ip = "ip_toString (fst (WiFi_localIP e (MDNS_update g1)))"
  have g': "g' = displayIP ?ip ?g3" using run hc loop_fn_after by simp
  have d3: "g_display ?g3 = g_display g" and ip: "?ip = ip_toString (radio_ip (hw_radio e) (polls g))"
    using d1 w1 by (simp_all add: lib_defs case_prod_beta)
  show ?thesis
    using displayIP_effect [of ?g3 ?ip] tr d3 ip_text_dotted by (simp add: g' ip)
qed

text \<open>The two text rows of the panel after a loop iteration, read back while they are visible.\<close>

lemma loop_panel_rows:
  assumes inv: "sketch_inv g" and run: "loop_fn e req g = Some g'" and vis: "redraws g mod 4096 < 4"
  shows "read_row (panel (g_display g')) (16 * int (redraws g mod 4096)) = ''IP Address'' \<and>
         read_row (panel (g_display g')) (16 * int (redraws g mod 4096) + 8) =
           ip_toString (radio_ip (hw_radio e) (polls g))"
proof -
  have "gfx_height (g_display g) = 64" "cursor_y (g_display g) = word_of_nat (16 * redraws g)"
    using inv by (simp_all add: sketch_inv_def text_ready_def)
  then show ?thesis
    using loop_fn_display [OF inv run] ip_frame_read vis ip_toString_ascii by simp
qed

subsection \<open>A concrete run\<close>

lemma home_env_boots: "setup_fn home_env globals_init = Some (Running (boot_state home_env))"
proof -
  let ?g2 = "display_started (pinMode_LED (Serial_begin 9600 globals_init))"
  have "\<forall>i<2. \<not> wifi_exit (answers home_env) (polls ?g2) i" "wifi_exit (answers home_env) (polls ?g2) 2"
    by (auto simp: home_env_def wifi_exit_def display_started_def globals_init_def lib_defs less_2_cases_iff)
  then obtain g4 where "setupWiFi home_env ?g2 = Some g4" using setupWiFi_some by blast
  moreover have "hw_display_ok home_env" by (simp add: home_env_def)
  ultimately have "setup_fn home_env globals_init = Some (Running (setupServer home_env g4))"
    using setup_fn_Running by blast
  then show ?thesis by (simp add: boot_state_def)
qed

lemma wrong_psk_boots: "setup_fn wrong_psk_env globals_init = Some (Running (boot_state wrong_psk_env))"
proof -
  let ?g2 = "display_started (pinMode_LED (Serial_begin 9600 globals_init))"
  have "\<forall>i<1. \<not> wifi_exit (answers wrong_psk_env) (polls ?g2) i" "wifi_exit (answers wrong_psk_env) (polls ?g2) 1"
    by (auto simp: wrong_psk_env_def wifi_exit_def display_started_def globals_init_def lib_defs)
  then obtain g4 where "setupWiFi wrong_psk_env ?g2 = Some g4" using setupWiFi_some by blast
  moreover have "hw_display_ok wrong_psk_env" by (simp add: wrong_psk_env_def)
  ultimately have "setup_fn wrong_psk_env globals_init = Some (Running (setupServer wrong_psk_env g4))"
    using setup_fn_Running by blast
  then show ?thesis by (simp add: boot_state_def)
qed

lemma home_reachable: "reachable home_env (boot_state home_env)"
  by (rule reachable.boot [OF home_env_boots])

lemma first_loop: "loop_fn home_env None (boot_state home_env) = Some first_loop_state"
  by (simp add: first_loop_state_def loop_fn_def Server_handleClient_def case_prod_beta Let_def)

end
