(* ===== verification/Contract.thy ===== *)
theory Contract
  imports Loop
begin

text \<open>
  The HTTP contract of the sketch (spec, section 6) as an abstract specification, and
  the decoder that reads a response the way a client reads it. \<open>http_spec\<close> is
  the abstract reply to a request: the greeting at \<^verbatim>\<open>/\<close>, otherwise a not-found
  reply carrying the URI, the argument count and the arguments in order.
  \<open>decode_reply\<close> parses a sent response back into a reply; \<open>abs_log\<close> is the
  abstraction of the device state to the replies it has sent, and \<open>spec_step\<close> is
  the abstract device. A request is \<open>req_ok\<close> when the not-found body can carry it
  line by line: fewer than 256 arguments, no line break in the URI, the names or
  the values, no colon in a name. The lemmas show that the not-found body decodes to
  the request (a round trip through the body text) and that one loop iteration, and
  any run of them, refines \<open>spec_step\<close>. The method is not part of the abstract
  reply: the code reports it as \<^verbatim>\<open>GET\<close> or \<^verbatim>\<open>POST\<close> only (see \<open>Handlers\<close>).
\<close>

datatype reply = Greeting | NotFound string nat "(string \<times> string) list"

definition http_spec :: "request \<Rightarrow> reply" where
  "http_spec r =
     (if req_uri r = ''/'' then Greeting else NotFound (req_uri r) (length (req_args r)) (req_args r))"

definition cut_prefix :: "string \<Rightarrow> string \<Rightarrow> string option" where
  "cut_prefix p s = (if take (length p) s = p then Some (drop (length p) s) else None)"

definition decode_arg :: "string \<Rightarrow> (string \<times> string) option" where
  "decode_arg l =
     (case cut_prefix '' '' l of
        None \<Rightarrow> None
      | Some t \<Rightarrow> map_option (\<lambda>v. (takeWhile (\<lambda>c. c \<noteq> CHR '':'') t, v))
                    (cut_prefix '': '' (dropWhile (\<lambda>c. c \<noteq> CHR '':'') t)))"

fun decode_404 :: "string list \<Rightarrow> reply option" where
  "decode_404 (l0 # l1 # l2 # l3 # l4 # rest) =
     (if l0 = ''File Not Found'' \<and> l1 = [] \<and> rest \<noteq> [] \<and> last rest = [] \<and> cut_prefix ''Method: '' l3 \<noteq> None
      then (case (cut_prefix ''URI: '' l2, Option.bind (cut_prefix ''Arguments: '' l4) parse_dec,
                  those (map decode_arg (butlast rest))) of
              (Some uri, Some n, Some args) \<Rightarrow> Some (NotFound uri n args)
            | _ \<Rightarrow> None)
      else None)"
| "decode_404 _ = None"

definition decode_reply :: "response \<Rightarrow> reply option" where
  "decode_reply resp =
     (if resp_type resp \<noteq> ''text/plain'' then None
      else if resp_code resp = 200 \<and> resp_body resp = ''hello from esp8266!'' @ crlf then Some Greeting
      else if resp_code resp = 404 then decode_404 (split_on CHR ''\<newline>'' (resp_body resp))
      else None)"

definition field_ok :: "string \<Rightarrow> bool" where
  "field_ok s \<longleftrightarrow> CHR ''\<newline>'' \<notin> set s"

definition req_ok :: "request \<Rightarrow> bool" where
  "req_ok r \<longleftrightarrow> req_uri r = ''/'' \<or>
     (length (req_args r) < 256 \<and> field_ok (req_uri r) \<and>
      list_all (\<lambda>(n, v). field_ok n \<and> CHR '':'' \<notin> set n \<and> field_ok v) (req_args r))"

text \<open>The abstract state: the replies the server has sent so far, as a client reads them.\<close>

definition abs_log :: "globals \<Rightarrow> reply option list" where
  "abs_log g = map decode_reply (srv_sent (g_server g))"

text \<open>The abstract device: one loop iteration answers the pending request, if any.\<close>

fun spec_step :: "request option \<Rightarrow> reply option list \<Rightarrow> reply option list" where
  "spec_step None log = log"
| "spec_step (Some r) log = log @ [Some (http_spec r)]"

definition with_request :: "request \<Rightarrow> globals \<Rightarrow> globals" where
  "with_request r g = g\<lparr>g_server := (g_server g)\<lparr>srv_current := r\<rparr>\<rparr>"

text \<open>Two requests for \<^verbatim>\<open>/x\<close> with two arguments each; a value holds a line break.\<close>

definition split_arg_a :: request where
  "split_arg_a = \<lparr>req_method = HTTP_GET, req_uri = ''/x'',
                  req_args = [(''a'', ''1\<newline> b: 2''), (''c'', ''3'')]\<rparr>"

definition split_arg_b :: request where
  "split_arg_b = \<lparr>req_method = HTTP_GET, req_uri = ''/x'',
                  req_args = [(''a'', ''1''), (''b'', ''2\<newline> c: 3'')]\<rparr>"

abbreviation arg_text :: "string \<times> string \<Rightarrow> string" where
  "arg_text a \<equiv> '' '' @ fst a @ '': '' @ snd a"

lemma cut_prefix_append [simp]: "cut_prefix p (p @ s) = Some s"
  by (simp add: cut_prefix_def)

lemma decode_arg_text [simp]:
  "CHR '':'' \<notin> set n \<Longrightarrow> decode_arg (CHR '' '' # n @ CHR '':'' # CHR '' '' # v) = Some (n, v)"
proof -
  assume "CHR '':'' \<notin> set n"
  then have "takeWhile (\<lambda>c. c \<noteq> CHR '':'') (n @ CHR '':'' # CHR '' '' # v) = n"
    and "dropWhile (\<lambda>c. c \<noteq> CHR '':'') (n @ CHR '':'' # CHR '' '' # v) = CHR '':'' # CHR '' '' # v"
    by (induction n) auto
  then show ?thesis by (simp add: decode_arg_def cut_prefix_def)
qed

lemma split_on_arg_lines:
  "list_all (\<lambda>(n, v). field_ok n \<and> field_ok v) args \<Longrightarrow>
   split_on CHR ''\<newline>'' (concat (map (\<lambda>(n, v). arg_line n v) args)) = map arg_text args @ [[]]"
proof (induction args)
  case Nil
  then show ?case by simp
next
  case (Cons a args)
  obtain n v where a: "a = (n, v)" by fastforce
  have eq: "concat (map (\<lambda>(n, v). arg_line n v) (a # args)) =
            arg_text a @ CHR ''\<newline>'' # concat (map (\<lambda>(n, v). arg_line n v) args)"
    by (simp add: a arg_line_def)
  have nl: "CHR ''\<newline>'' \<notin> set (arg_text a)"
    using Cons.prems by (simp add: a field_ok_def)
  have "split_on CHR ''\<newline>'' (concat (map (\<lambda>(n, v). arg_line n v) (a # args))) =
        arg_text a # split_on CHR ''\<newline>'' (concat (map (\<lambda>(n, v). arg_line n v) args))"
    by (simp only: eq split_on_append_sep [OF nl])
  then show ?case
    using Cons.IH Cons.prems by (simp add: a del: split_on.simps)
qed

lemma those_decode_args:
  "list_all (\<lambda>(n, v). CHR '':'' \<notin> set n) args \<Longrightarrow> those (map decode_arg (map arg_text args)) = Some args"
  by (induction args) auto

lemma dec_string_no_newline [simp]: "CHR ''\<newline>'' \<notin> set (dec_string n)"
  using dec_string_digits [of "CHR ''\<newline>''" n] by (auto simp: is_digit_def)

lemma method_name_no_newline [simp]: "CHR ''\<newline>'' \<notin> set (method_name m)"
  by (simp add: method_name_def)

lemma split_on_notFound_body:
  assumes "field_ok (req_uri r)" "list_all (\<lambda>(n, v). field_ok n \<and> field_ok v) (req_args r)"
  shows "split_on CHR ''\<newline>'' (notFound_body r) =
           [''File Not Found'', [], ''URI: '' @ req_uri r, ''Method: '' @ method_name (req_method r),
            ''Arguments: '' @ dec_string (length (req_args r))] @ map arg_text (req_args r) @ [[]]"
proof -
  let ?args = "concat (map (\<lambda>(n, v). arg_line n v) (req_args r))"
  have eq: "notFound_body r =
     ''File Not Found'' @ CHR ''\<newline>'' # [] @ CHR ''\<newline>'' # (''URI: '' @ req_uri r) @ CHR ''\<newline>'' #
     (''Method: '' @ method_name (req_method r)) @ CHR ''\<newline>'' #
     (''Arguments: '' @ dec_string (length (req_args r))) @ CHR ''\<newline>'' # ?args"
    by (simp add: notFound_body_def)
  have n: "CHR ''\<newline>'' \<notin> set ''File Not Found''" "CHR ''\<newline>'' \<notin> set []"
    "CHR ''\<newline>'' \<notin> set (''URI: '' @ req_uri r)"
    "CHR ''\<newline>'' \<notin> set (''Method: '' @ method_name (req_method r))"
    "CHR ''\<newline>'' \<notin> set (''Arguments: '' @ dec_string (length (req_args r)))"
    using assms(1) by (simp_all add: field_ok_def)
  show ?thesis
    unfolding eq split_on_append_sep [OF n(1)] split_on_append_sep [OF n(2)] split_on_append_sep [OF n(3)]
      split_on_append_sep [OF n(4)] split_on_append_sep [OF n(5)] split_on_arg_lines [OF assms(2)]
    by simp
qed

lemma req_ok_fields:
  assumes "req_ok r" "req_uri r \<noteq> ''/''"
  shows "length (req_args r) < 256" "field_ok (req_uri r)"
    "list_all (\<lambda>(n, v). field_ok n \<and> field_ok v) (req_args r)"
    "list_all (\<lambda>(n, v). CHR '':'' \<notin> set n) (req_args r)"
  using assms by (auto simp: req_ok_def list_all_iff)

lemma decode_notFound_body:
  assumes "req_ok r" "req_uri r \<noteq> ''/''"
  shows "decode_reply \<lparr>resp_code = 404, resp_type = ''text/plain'', resp_body = notFound_body r\<rparr> =
           Some (http_spec r)"
proof -
  note f = req_ok_fields [OF assms]
  have "those (map decode_arg (map arg_text (req_args r))) = Some (req_args r)"
    using f(4) by (rule those_decode_args)
  then show ?thesis
    using assms(2) by (simp add: decode_reply_def split_on_notFound_body [OF f(2,3)] http_spec_def
        cut_prefix_def butlast_append)
qed

lemma decode_greeting:
  "decode_reply \<lparr>resp_code = 200, resp_type = ''text/plain'', resp_body = ''hello from esp8266!'' @ crlf\<rparr> =
     Some Greeting"
  by (simp add: decode_reply_def)

lemma req_ok_answered: "req_ok r \<Longrightarrow> req_uri r = ''/'' \<or> length (req_args r) < 256"
  by (auto simp: req_ok_def)

lemma decode_served: "req_ok r \<Longrightarrow> decode_reply (served r) = Some (http_spec r)"
  using decode_greeting decode_notFound_body [of r] by (simp add: served_def http_spec_def)

lemma loop_fn_refines:
  assumes "reachable e g" "pred_option req_ok req"
  shows "\<exists>g'. loop_fn e req g = Some g' \<and> reachable e g' \<and> abs_log g' = spec_step req (abs_log g)"
proof (cases req)
  case None
  then obtain g' where "loop_fn e req g = Some g'" "g_server g' = g_server g"
    using loop_fn_idle [OF reachable_inv [OF assms(1)]] by blast
  then show ?thesis using assms(1) reachable.step by (auto simp: None abs_log_def)
next
  case (Some r)
  then have ok: "req_ok r" using assms(2) by simp
  obtain g' where "loop_fn e req g = Some g'"
    and "srv_sent (g_server g') = srv_sent (g_server g) @ [served r]"
    using loop_fn_serves [OF reachable_inv [OF assms(1)] req_ok_answered [OF ok]] Some by blast
  then show ?thesis
    using assms(1) reachable.step decode_served [OF ok] by (auto simp: Some abs_log_def)
qed

lemma run_loops_refines:
  "reachable e g \<Longrightarrow> list_all (pred_option req_ok) reqs \<Longrightarrow>
   \<exists>g'. run_loops e reqs g = Some g' \<and> reachable e g' \<and> abs_log g' = fold spec_step reqs (abs_log g)"
proof (induction reqs arbitrary: g)
  case Nil
  then show ?case by simp
next
  case (Cons req reqs)
  obtain g1 where "loop_fn e req g = Some g1" "reachable e g1" "abs_log g1 = spec_step req (abs_log g)"
    using loop_fn_refines Cons.prems by fastforce
  then show ?case using Cons.IH [of g1] Cons.prems by simp
qed

lemma run_loops_append:
  "run_loops e (xs @ ys) g = (case run_loops e xs g of None \<Rightarrow> None | Some g' \<Rightarrow> run_loops e ys g')"
  by (induction xs arbitrary: g) (simp_all split: option.split)

lemma notFound_body_split_args: "notFound_body split_arg_a = notFound_body split_arg_b"
  by (simp add: notFound_body_def split_arg_a_def split_arg_b_def arg_line_def dec_string.simps)

subsection \<open>Properties of the not-found body\<close>

text \<open>
  C13. The not-found handler's body is a faithful encoding of a well-formed request:
  parsing the response it sends gives back the URI, the argument count and every
  argument name and value, in order.
\<close>

theorem handleNotFound_roundtrip:
  assumes "req_ok (srv_current (g_server g))" "req_uri (srv_current (g_server g)) \<noteq> ''/''"
  shows "\<exists>g' resp. handleNotFound g = Some g' \<and> srv_sent (g_server g') = srv_sent (g_server g) @ [resp] \<and>
           decode_reply resp = Some (NotFound (req_uri (srv_current (g_server g)))
                                       (length (req_args (srv_current (g_server g))))
                                       (req_args (srv_current (g_server g))))"
proof -
  let ?r = "srv_current (g_server g)"
  have "length (current_args g) < 256" using req_ok_fields [OF assms] by (simp add: current_args_def)
  then have "handleNotFound g = Some (g\<lparr>g_led := LOW,
                   g_server := server_send 404 ''text/plain'' (notFound_body ?r) (g_server g),
                   g_trace := g_trace g @ [PinWrite HIGH, HttpSend 404, PinWrite LOW]\<rparr>)"
    by (rule handleNotFound_sends)
  then show ?thesis
    using decode_notFound_body [OF assms] assms(2) by (simp add: server_send_def http_spec_def)
qed

theorem handleNotFound_roundtrip_witness:
  "\<exists>g' resp. handleNotFound (with_request foo_request globals_init) = Some g' \<and>
     srv_sent (g_server g') = [resp] \<and>
     decode_reply resp = Some (NotFound ''/foo'' 2 [(''a'', ''1''), (''b'', ''2'')])"
proof -
  have h: "req_ok (srv_current (g_server (with_request foo_request globals_init)))"
    "req_uri (srv_current (g_server (with_request foo_request globals_init))) \<noteq> ''/''"
    by (simp_all add: with_request_def foo_request_def req_ok_def field_ok_def)
  from handleNotFound_roundtrip [OF h] obtain g' resp
    where run: "handleNotFound (with_request foo_request globals_init) = Some g'"
      and sent: "srv_sent (g_server g') = srv_sent (g_server (with_request foo_request globals_init)) @ [resp]"
      and dec: "decode_reply resp = Some (NotFound (req_uri (srv_current (g_server (with_request foo_request globals_init))))
                  (length (req_args (srv_current (g_server (with_request foo_request globals_init)))))
                  (req_args (srv_current (g_server (with_request foo_request globals_init)))))"
    by blast
  have "srv_sent (g_server (with_request foo_request globals_init)) = []"
    "srv_current (g_server (with_request foo_request globals_init)) = foo_request"
    by (simp_all add: with_request_def globals_init_def lib_defs)
  then show ?thesis using run sent dec by (simp add: foo_request_def)
qed

text \<open>
  C17. For requests outside \<open>req_ok\<close> the body is ambiguous: two requests with
  different arguments, one of whose values holds a line break, get the very same
  404 response from the not-found handler.
\<close>

theorem notFound_body_ambiguous:
  "req_args split_arg_a \<noteq> req_args split_arg_b \<and>
   map_option (srv_sent \<circ> g_server) (handleNotFound (with_request split_arg_a g)) =
   map_option (srv_sent \<circ> g_server) (handleNotFound (with_request split_arg_b g))"
proof -
  have a: "length (current_args (with_request split_arg_a g)) < 256"
    and b: "length (current_args (with_request split_arg_b g)) < 256"
    by (simp_all add: current_args_def with_request_def split_arg_a_def split_arg_b_def)
  from notFound_body_split_args have "map_option (srv_sent \<circ> g_server) (handleNotFound (with_request split_arg_a g)) =
             map_option (srv_sent \<circ> g_server) (handleNotFound (with_request split_arg_b g))"
    unfolding handleNotFound_sends [OF a] handleNotFound_sends [OF b]
    by (simp add: with_request_def server_send_def)
  moreover have "req_args split_arg_a \<noteq> req_args split_arg_b"
    by (simp add: split_arg_a_def split_arg_b_def)
  ultimately show ?thesis by blast
qed

end
