(* ===== verification/Request.thy ===== *)
theory Request
  imports WebServer
begin

text \<open>
  How \<^verbatim>\<open>ESP8266WebServer\<close> turns the request target into the \<open>request\<close> the
  handlers see (\<^verbatim>\<open>_parseRequest\<close>, \<^verbatim>\<open>_parseArguments\<close>, \<^verbatim>\<open>urlDecode\<close> of the
  ESP8266 Arduino core). The library is not part of the repository; the model follows
  its source for a GET request:
  \<^item> the path is the target up to the first \<^verbatim>\<open>?\<close>, and it is not decoded;
  \<^item> the query after the \<^verbatim>\<open>?\<close> is read by the loop of \<^verbatim>\<open>_parseArguments\<close>
    (\<open>parse_args_from\<close>, a \<^theory_text>\<open>function\<close> terminating on the distance to the end
    of the query), with \<^verbatim>\<open>indexOf\<close> and \<^verbatim>\<open>substring\<close> as in the source;
  \<^item> \<open>parse_args_from_segments\<close> proves the loop equal to the reference reading
    \<open>parse_segments\<close>, which splits the query at every \<^verbatim>\<open>&\<close>, skips a segment
    without \<^verbatim>\<open>=\<close>, and turns any other segment into the argument whose name and
    value are the URL-decoded text before and after its first \<^verbatim>\<open>=\<close>. In
    particular the bound of the argument array (one slot per segment) never cuts the
    loop short;
  \<^item> \<^verbatim>\<open>urlDecode\<close> turns \<^verbatim>\<open>+\<close> into a space, and turns \<^verbatim>\<open>%\<close> followed by two
    characters into the byte \<^verbatim>\<open>strtol("0x..", 16)\<close> reads. That is the longest
    hexadecimal prefix of the two, or 0, and a NUL is appended as a character.
  A \<^verbatim>\<open>%\<close> with fewer than two characters after it is kept.

  The client side is \<open>query_of\<close>: it percent-encodes every byte of every name and
  value and joins the pairs with \<^verbatim>\<open>&\<close>. The lemmas prove that parsing it gives the
  arguments back (\<open>parseArguments_query_of\<close>), and that a target
  \<open>path ? query\<close> yields the path and those arguments (\<open>request_of_query_of\<close>).
  Form bodies of POST requests and the \<^verbatim>\<open>plain\<close> argument are not modelled.

  The loop modelled is the \<^verbatim>\<open>_parseArguments\<close> of the older ESP8266 core releases.
  Later releases (\<^verbatim>\<open>_parseArgumentsPrivate\<close>) differ in three ways:
  \<^item> they also split at \<^verbatim>\<open>;\<close>;
  \<^item> they keep a segment without \<^verbatim>\<open>=\<close> as an argument with an empty value;
  \<^item> they skip a segment with an empty name.
  The repository does not pin a core version. The properties that go through this
  theory (\<open>Wire\<close>) use only queries without \<^verbatim>\<open>;\<close> or valueless segments. On a
  later core they hold unchanged, except for arguments with an empty name.
\<close>

definition hex_val :: "char \<Rightarrow> nat option" where
  "hex_val c =
     (let n = (of_char c :: nat) in
      if 48 \<le> n \<and> n \<le> 57 then Some (n - 48)
      else if 65 \<le> n \<and> n \<le> 70 then Some (n - 55)
      else if 97 \<le> n \<and> n \<le> 102 then Some (n - 87) else None)"

definition strtol_hex2 :: "char \<Rightarrow> char \<Rightarrow> nat" where
  "strtol_hex2 a b =
     (case hex_val a of None \<Rightarrow> 0 | Some x \<Rightarrow> (case hex_val b of None \<Rightarrow> x | Some y \<Rightarrow> 16 * x + y))"

fun urlDecode :: "string \<Rightarrow> string" where
  "urlDecode (c # a # b # cs) =
     (if c = CHR ''%'' then char_of (strtol_hex2 a b) # urlDecode cs
      else (if c = CHR ''+'' then CHR '' '' else c) # urlDecode (a # b # cs))"
| "urlDecode (c # cs) = (if c = CHR ''+'' then CHR '' '' else c) # urlDecode cs"
| "urlDecode [] = []"

definition arg_of_segment :: "string \<Rightarrow> (string \<times> string) list" where
  "arg_of_segment s =
     (if CHR ''='' \<in> set s
      then [(urlDecode (takeWhile (\<lambda>c. c \<noteq> CHR ''='') s),
             urlDecode (drop 1 (dropWhile (\<lambda>c. c \<noteq> CHR ''='') s)))]
      else [])"

text \<open>The reference reading of a query: every \<^verbatim>\<open>&\<close>-separated segment that has an \<^verbatim>\<open>=\<close>.\<close>

definition parse_segments :: "string \<Rightarrow> (string \<times> string) list" where
  "parse_segments data = concat (map arg_of_segment (split_on CHR ''&'' data))"

text \<open>
  The loop of \<^verbatim>\<open>_parseArguments\<close> from position \<open>pos\<close>, with \<open>k\<close> the slots
  left in the argument array (\<^verbatim>\<open>_currentArgCount - iarg\<close>): a segment whose
  \<^verbatim>\<open>=\<close> is missing or lies beyond the next \<^verbatim>\<open>&\<close> is skipped, any other yields one
  argument; the loop stops at the last segment or when the array is full.
\<close>

function parse_args_from :: "string \<Rightarrow> nat \<Rightarrow> nat \<Rightarrow> (string \<times> string) list" where
  "parse_args_from data pos k =
     (if k = 0 then []
      else case (indexOf CHR ''='' data pos, indexOf CHR ''&'' data pos) of
        (None, None) \<Rightarrow> []
      | (None, Some n) \<Rightarrow> parse_args_from data (Suc n) k
      | (Some q, None) \<Rightarrow> [(urlDecode (substring data pos q), urlDecode (substring data (Suc q) (length data)))]
      | (Some q, Some n) \<Rightarrow>
          if n < q then parse_args_from data (Suc n) k
          else (urlDecode (substring data pos q), urlDecode (substring data (Suc q) n)) #
               parse_args_from data (Suc n) (k - 1))"
  by pat_completeness auto
termination
  by (relation "measure (\<lambda>(data, pos, k). length data - pos)") (auto dest: indexOf_Some_bound [OF sym])

text \<open>\<^verbatim>\<open>_parseArguments(data)\<close>: no argument for an empty query, else one slot per segment.\<close>

definition parseArguments :: "string \<Rightarrow> (string \<times> string) list" where
  "parseArguments data =
     (if data = [] then [] else parse_args_from data 0 (Suc (count_list data CHR ''&'')))"

declare parse_args_from.simps [simp del]

definition request_of :: "http_method \<Rightarrow> string \<Rightarrow> request" where
  "request_of m url =
     \<lparr>req_method = m, req_uri = takeWhile (\<lambda>c. c \<noteq> CHR ''?'') url,
      req_args = parseArguments (drop 1 (dropWhile (\<lambda>c. c \<noteq> CHR ''?'') url))\<rparr>"

definition hex_digit :: "nat \<Rightarrow> char" where
  "hex_digit d = char_of (if d < 10 then 48 + d else 55 + d)"

definition pct_encode :: "string \<Rightarrow> string" where
  "pct_encode s =
     concat (map (\<lambda>c. [CHR ''%'', hex_digit (of_char c div 16), hex_digit (of_char c mod 16)]) s)"

definition pct_arg :: "string \<times> string \<Rightarrow> string" where
  "pct_arg a = pct_encode (fst a) @ CHR ''='' # pct_encode (snd a)"

fun query_of :: "(string \<times> string) list \<Rightarrow> string" where
  "query_of [] = []"
| "query_of [a] = pct_arg a"
| "query_of (a # b # rest) = pct_arg a @ CHR ''&'' # query_of (b # rest)"

subsection \<open>The loop of \<^verbatim>\<open>_parseArguments\<close> reads the segments\<close>

lemma takeWhile_neq_at: "c \<notin> set a \<Longrightarrow> takeWhile (\<lambda>x. x \<noteq> c) (a @ c # b) = a"
  by (induction a) auto

lemma dropWhile_neq_at: "c \<notin> set a \<Longrightarrow> dropWhile (\<lambda>x. x \<noteq> c) (a @ c # b) = c # b"
  by (induction a) auto

lemma indexOf_at: "c \<notin> set a \<Longrightarrow> drop pos data = a @ c # b \<Longrightarrow> indexOf c data pos = Some (pos + length a)"
  by (simp add: indexOf_def takeWhile_neq_at)

lemma drop_after: "drop pos data = a @ c # b \<Longrightarrow> drop (Suc (pos + length a)) data = b"
proof -
  assume "drop pos data = a @ c # b"
  then have "drop (Suc (length a)) (drop pos data) = b" by simp
  then show ?thesis by (simp add: add.commute)
qed

lemma substring_at: "drop pos data = a @ b \<Longrightarrow> substring data pos (pos + length a) = a"
proof -
  assume d: "drop pos data = a @ b"
  show ?thesis
  proof (cases "pos \<le> length data")
    case True
    then have "length data = pos + length a + length b" using arg_cong [OF d, of length] by simp
    then show ?thesis using d by (simp add: substring_def)
  next
    case False
    then show ?thesis using d by (simp add: substring_def)
  qed
qed

lemma substring_end: "substring data pos (length data) = drop pos data"
  by (simp add: substring_def)

lemma arg_of_segment_at:
  "CHR ''='' \<notin> set t \<Longrightarrow> arg_of_segment (t @ CHR ''='' # v) = [(urlDecode t, urlDecode v)]"
  by (simp add: arg_of_segment_def takeWhile_neq_at dropWhile_neq_at)

lemma parse_args_from_segments:
  "length (split_on CHR ''&'' (drop pos data)) \<le> k \<Longrightarrow> parse_args_from data pos k = parse_segments (drop pos data)"
proof (induction "length data - pos" arbitrary: pos k rule: less_induct)
  case less
  let ?s = "drop pos data"
  have k: "k \<noteq> 0" using less.prems by (simp add: length_split_on)
  show ?case
  proof (cases "CHR ''&'' \<in> set ?s")
    case True
    then obtain seg rest where s: "?s = seg @ CHR ''&'' # rest" and seg: "CHR ''&'' \<notin> set seg"
      by (meson split_list_first)
    have n: "indexOf CHR ''&'' data pos = Some (pos + length seg)" using indexOf_at [OF seg s] .
    have d: "drop (Suc (pos + length seg)) data = rest" using drop_after [OF s] .
    have sp: "split_on CHR ''&'' ?s = seg # split_on CHR ''&'' rest"
      using split_on_append_sep [OF seg] s by simp
    have "pos < length data" using s by (metis append_is_Nil_conv drop_all leI list.distinct(1))
    then have lt: "length data - Suc (pos + length seg) < length data - pos"
      using arg_cong [OF s, of length] by simp
    have len: "Suc (length (split_on CHR ''&'' rest)) \<le> k" using less.prems sp by simp
    show ?thesis
    proof (cases "CHR ''='' \<in> set seg")
      case True
      then obtain t v where seg': "seg = t @ CHR ''='' # v" and t: "CHR ''='' \<notin> set t"
        by (meson split_list_first)
      have s': "?s = t @ CHR ''='' # (v @ CHR ''&'' # rest)" using s seg' by simp
      have q: "indexOf CHR ''='' data pos = Some (pos + length t)" using indexOf_at [OF t s'] .
      have key: "substring data pos (pos + length t) = t" using substring_at [OF s'] .
      have dv: "drop (Suc (pos + length t)) data = v @ CHR ''&'' # rest" using drop_after [OF s'] .
      have "substring data (Suc (pos + length t)) (Suc (pos + length t) + length v) = v"
        using substring_at [OF dv] .
      then have val: "substring data (Suc (pos + length t)) (pos + length seg) = v" by (simp add: seg' add.assoc)
      have IH: "parse_args_from data (Suc (pos + length seg)) (k - 1) = parse_segments rest"
        using less.hyps [OF lt, of "k - 1"] len d by simp
      have "arg_of_segment seg = [(urlDecode t, urlDecode v)]" using arg_of_segment_at [OF t] seg' by simp
      then show ?thesis
        using k n q key val IH sp
        by (subst parse_args_from.simps) (simp add: parse_segments_def seg')
    next
      case False
      have q: "indexOf CHR ''='' data pos = None \<or>
               (\<exists>q. indexOf CHR ''='' data pos = Some q \<and> pos + length seg < q)"
      proof (cases "CHR ''='' \<in> set ?s")
        case True
        have "takeWhile (\<lambda>x. x \<noteq> CHR ''='') ?s = seg @ CHR ''&'' # takeWhile (\<lambda>x. x \<noteq> CHR ''='') rest"
          using False unfolding s by (induction seg) auto
        then show ?thesis using True by (simp add: indexOf_def)
      qed (simp add: indexOf_def)
      have IH: "parse_args_from data (Suc (pos + length seg)) k = parse_segments rest"
        using less.hyps [OF lt, of k] len d by simp
      have "arg_of_segment seg = []" using False by (simp add: arg_of_segment_def)
      then show ?thesis
        using k n q IH sp by (subst parse_args_from.simps) (auto simp: parse_segments_def)
    qed
  next
    case False
    have n: "indexOf CHR ''&'' data pos = None" using False by (simp add: indexOf_def)
    have sp: "split_on CHR ''&'' ?s = [?s]" using False by (rule split_on_no_sep)
    show ?thesis
    proof (cases "CHR ''='' \<in> set ?s")
      case True
      then obtain t v where s': "?s = t @ CHR ''='' # v" and t: "CHR ''='' \<notin> set t"
        by (meson split_list_first)
      have q: "indexOf CHR ''='' data pos = Some (pos + length t)" using indexOf_at [OF t s'] .
      have key: "substring data pos (pos + length t) = t" using substring_at [OF s'] .
      have val: "substring data (Suc (pos + length t)) (length data) = v"
        using drop_after [OF s'] by (simp add: substring_end)
      show ?thesis
        using k n q key val sp by (subst parse_args_from.simps) (simp add: parse_segments_def s' arg_of_segment_at [OF t])
    next
      case False
      then have "indexOf CHR ''='' data pos = None" "arg_of_segment ?s = []"
        by (simp_all add: indexOf_def arg_of_segment_def)
      then show ?thesis
        using k n sp by (subst parse_args_from.simps) (simp add: parse_segments_def)
    qed
  qed
qed

lemma parseArguments_segments: "parseArguments data = (if data = [] then [] else parse_segments data)"
  using parse_args_from_segments [of 0 data "Suc (count_list data CHR ''&'')"]
  by (simp add: parseArguments_def length_split_on)

lemma char_of_newline [simp]: "char_of (10::nat) = CHR ''\<newline>''"
  by (simp add: char_of_def bit_simps)

lemma of_char_hex_digit:
  "d < 16 \<Longrightarrow> (of_char (hex_digit d) :: nat) = (if d < 10 then 48 + d else 55 + d)"
  by (simp add: hex_digit_def)

lemma hex_val_hex_digit [simp]: "d < 16 \<Longrightarrow> hex_val (hex_digit d) = Some d"
  by (simp add: hex_val_def of_char_hex_digit Let_def)

lemma strtol_hex_digits [simp]:
  "(n::nat) < 256 \<Longrightarrow> strtol_hex2 (hex_digit (n div 16)) (hex_digit (n mod 16)) = n"
  by (simp add: strtol_hex2_def less_mult_imp_div_less)

lemma urlDecode_pct_encode [simp]: "urlDecode (pct_encode s) = s"
proof (induction s)
  case Nil
  then show ?case by (simp add: pct_encode_def)
next
  case (Cons c s)
  then show ?case by (simp add: pct_encode_def)
qed

lemma hex_digit_not [simp]:
  "d < 16 \<Longrightarrow> hex_digit d \<noteq> CHR ''&'' \<and> hex_digit d \<noteq> CHR ''='' \<and> hex_digit d \<noteq> CHR ''?''"
proof -
  assume "d < 16"
  then have "(of_char (hex_digit d) :: nat) \<noteq> 38 \<and> (of_char (hex_digit d) :: nat) \<noteq> 61 \<and>
             (of_char (hex_digit d) :: nat) \<noteq> 63"
    by (simp add: of_char_hex_digit)
  then show ?thesis by auto
qed

lemma of_char_div_16 [simp]: "(of_char c :: nat) div 16 < 16"
  using nat_of_char_less_256 [of c] by (simp add: div_less_iff_less_mult)

lemma pct_encode_set: "set (pct_encode s) \<subseteq> insert CHR ''%'' (hex_digit ` {..<16})"
proof (induction s)
  case Nil
  then show ?case by (simp add: pct_encode_def)
next
  case (Cons c s)
  have "(of_char c :: nat) div 16 < 16" "(of_char c :: nat) mod 16 < 16" by simp_all
  then show ?case using Cons by (simp add: pct_encode_def)
qed

lemma pct_encode_chars:
  assumes "c \<in> set (pct_encode s)"
  shows "c \<noteq> CHR ''&'' \<and> c \<noteq> CHR ''='' \<and> c \<noteq> CHR ''?''"
proof -
  have "c = CHR ''%'' \<or> (\<exists>d<16. c = hex_digit d)" using assms pct_encode_set by blast
  then show ?thesis using hex_digit_not by auto
qed

lemma no_sep_pct_arg:
  "CHR ''&'' \<notin> set (pct_arg a)" "CHR ''?'' \<notin> set (pct_arg a)"
  using pct_encode_chars by (fastforce simp: pct_arg_def)+

lemma split_on_query_of:
  "args \<noteq> [] \<Longrightarrow> split_on CHR ''&'' (query_of args) = map pct_arg args"
proof (induction args rule: query_of.induct)
  case (2 a)
  then show ?case by (simp add: split_on_no_sep no_sep_pct_arg)
next
  case (3 a b rest)
  then show ?case by (simp add: split_on_append_sep no_sep_pct_arg del: split_on.simps)
qed simp

lemma arg_of_segment_pct_arg [simp]: "arg_of_segment (pct_arg a) = [a]"
proof -
  have ne: "\<forall>c\<in>set (pct_encode (fst a)). c \<noteq> CHR ''=''" using pct_encode_chars by blast
  then have "takeWhile (\<lambda>c. c \<noteq> CHR ''='') (pct_arg a) = pct_encode (fst a)"
    "dropWhile (\<lambda>c. c \<noteq> CHR ''='') (pct_arg a) = CHR ''='' # pct_encode (snd a)"
    by (simp_all add: pct_arg_def)
  then show ?thesis by (simp add: arg_of_segment_def pct_arg_def)
qed

lemma query_of_nonempty: "args \<noteq> [] \<Longrightarrow> query_of args \<noteq> []"
  by (induction args rule: query_of.induct) (simp_all add: pct_arg_def)

lemma parseArguments_query_of [simp]: "parseArguments (query_of args) = args"
proof (cases "args = []")
  case False
  then show ?thesis
    by (simp add: parseArguments_segments parse_segments_def split_on_query_of query_of_nonempty comp_def)
qed (simp add: parseArguments_segments)

lemma no_query_query_of: "CHR ''?'' \<notin> set (query_of args)"
  by (induction args rule: query_of.induct) (simp_all add: no_sep_pct_arg)

lemma request_of_query_of:
  assumes "CHR ''?'' \<notin> set path"
  shows "request_of m (path @ CHR ''?'' # query_of args) = \<lparr>req_method = m, req_uri = path, req_args = args\<rparr>"
proof -
  have "takeWhile (\<lambda>c. c \<noteq> CHR ''?'') (path @ CHR ''?'' # query_of args) = path"
    "dropWhile (\<lambda>c. c \<noteq> CHR ''?'') (path @ CHR ''?'' # query_of args) = CHR ''?'' # query_of args"
    using assms by (induction path) auto
  then show ?thesis by (simp add: request_of_def)
qed

end
