(* ===== verification/Wire.thy ===== *)
theory Wire
  imports Contract Request
begin

text \<open>
  The sketch's HTTP behaviour seen from the wire: requests given as the target text
  a client sends, parsed by the server library (\<open>Request\<close>) before \<^verbatim>\<open>loop\<close>
  dispatches them. A well-formed argument list that a client encodes into the query
  comes back, through \<^verbatim>\<open>handleNotFound\<close>'s 404 body, as the same list. An encoded
  line break (\<^verbatim>\<open>%0A\<close>) in a value makes two different targets give the same body.
\<close>

lemma request_of_split_a: "request_of HTTP_GET ''/x?a=1%0A+b:+2&c=3'' = split_arg_a"
  by (simp add: request_of_def parseArguments_segments parse_segments_def arg_of_segment_def strtol_hex2_def hex_val_def
      split_arg_a_def)

lemma request_of_split_b: "request_of HTTP_GET ''/x?a=1&b=2%0A+c:+3'' = split_arg_b"
  by (simp add: request_of_def parseArguments_segments parse_segments_def arg_of_segment_def strtol_hex2_def hex_val_def
      split_arg_b_def)

subsection \<open>End-to-end properties\<close>

text \<open>
  C28. End to end through the server: in a running device, a request for a path other
  than \<^verbatim>\<open>/\<close> whose well-formed arguments the client percent-encodes into the query
  string is answered with a 404 body that a client decodes back to the path, the
  argument count and exactly the arguments it sent, in order. (This holds for the
  parser of the modelled core release, which keeps an argument with an empty name;
  later core releases skip such arguments, so there the claim holds for arguments
  with nonempty names only.)
\<close>

theorem loop_query_roundtrip:
  assumes "reachable e g" "CHR ''?'' \<notin> set path" "path \<noteq> ''/''"
    and "req_ok \<lparr>req_method = m, req_uri = path, req_args = args\<rparr>"
  shows "\<exists>g'. loop_fn e (Some (request_of m (path @ CHR ''?'' # query_of args))) g = Some g' \<and>
           map decode_reply (srv_sent (g_server g')) =
             map decode_reply (srv_sent (g_server g)) @ [Some (NotFound path (length args) args)]"
proof -
  let ?r = "\<lparr>req_method = m, req_uri = path, req_args = args\<rparr>"
  have r: "request_of m (path @ CHR ''?'' # query_of args) = ?r" using assms(2) by (rule request_of_query_of)
  obtain g' where "loop_fn e (Some ?r) g = Some g'" "srv_sent (g_server g') = srv_sent (g_server g) @ [served ?r]"
    using loop_fn_serves [OF reachable_inv [OF assms(1)] req_ok_answered [OF assms(4)]] by blast
  then show ?thesis using decode_served [OF assms(4)] assms(3) by (simp add: r http_spec_def)
qed

theorem loop_query_roundtrip_witness:
  "\<exists>g'. loop_fn home_env (Some (request_of HTTP_GET (''/foo'' @ CHR ''?'' # query_of [(''a'', ''1''), (''b'', ''2'')])))
          (boot_state home_env) = Some g' \<and>
     map decode_reply (srv_sent (g_server g')) =
       map decode_reply (srv_sent (g_server (boot_state home_env))) @
         [Some (NotFound ''/foo'' 2 [(''a'', ''1''), (''b'', ''2'')])]"
proof -
  have h: "CHR ''?'' \<notin> set ''/foo''" "''/foo'' \<noteq> ''/''"
    "req_ok \<lparr>req_method = HTTP_GET, req_uri = ''/foo'', req_args = [(''a'', ''1''), (''b'', ''2'')]\<rparr>"
    by (simp_all add: req_ok_def field_ok_def)
  show ?thesis using loop_query_roundtrip [OF home_reachable h] by (simp add: numeral_2_eq_2)
qed

text \<open>
  C29. The ambiguity of the 404 body is reachable from the wire: in a running device the
  two different request targets \<^verbatim>\<open>/x?a=1%0A+b:+2&c=3\<close> and
  \<^verbatim>\<open>/x?a=1&b=2%0A+c:+3\<close> are both served, with the very same response.
\<close>

theorem loop_query_ambiguous:
  assumes "reachable e g"
  shows "''/x?a=1%0A+b:+2&c=3'' \<noteq> ''/x?a=1&b=2%0A+c:+3'' \<and>
         (\<exists>g1 g2. loop_fn e (Some (request_of HTTP_GET ''/x?a=1%0A+b:+2&c=3'')) g = Some g1 \<and>
                  loop_fn e (Some (request_of HTTP_GET ''/x?a=1&b=2%0A+c:+3'')) g = Some g2 \<and>
                  srv_sent (g_server g1) = srv_sent (g_server g2))"
proof -
  have inv: "sketch_inv g" using assms by (rule reachable_inv)
  have a: "req_uri split_arg_a = ''/'' \<or> length (req_args split_arg_a) < 256"
    and b: "req_uri split_arg_b = ''/'' \<or> length (req_args split_arg_b) < 256"
    by (simp_all add: split_arg_a_def split_arg_b_def)
  obtain g1 g2 where "loop_fn e (Some split_arg_a) g = Some g1"
    "srv_sent (g_server g1) = srv_sent (g_server g) @ [served split_arg_a]"
    "loop_fn e (Some split_arg_b) g = Some g2"
    "srv_sent (g_server g2) = srv_sent (g_server g) @ [served split_arg_b]"
    using loop_fn_serves [OF inv a] loop_fn_serves [OF inv b] by blast
  moreover have "served split_arg_a = served split_arg_b"
    using notFound_body_split_args by (simp add: served_def split_arg_a_def split_arg_b_def)
  ultimately show ?thesis by (simp add: request_of_split_a request_of_split_b)
qed

theorem loop_query_ambiguous_witness:
  "\<exists>g1 g2. loop_fn home_env (Some (request_of HTTP_GET ''/x?a=1%0A+b:+2&c=3'')) (boot_state home_env) = Some g1 \<and>
           loop_fn home_env (Some (request_of HTTP_GET ''/x?a=1&b=2%0A+c:+3'')) (boot_state home_env) = Some g2 \<and>
           srv_sent (g_server g1) = srv_sent (g_server g2)"
  using loop_query_ambiguous [OF home_reachable] by blast

end
