(* ===== verification/Spec2Isabelle.thy ===== *)
theory Spec2Isabelle
  imports Wire
begin

text \<open>
  A verification model of the ESP8266 demonstration sketch
  \<^verbatim>\<open>src/src/snippets/platformio-esp-8266/src/main.cpp\<close>. The sketch joins a
  Wi-Fi network, answers HTTP requests on port 80 (a fixed greeting at \<^verbatim>\<open>/\<close>, a
  diagnostic 404 elsewhere), advertises itself over mDNS and shows its IP address on
  a 128x64 SSD1306 panel. The development is a shallow embedding. The sketch's
  globals are one record, and every function of \<^verbatim>\<open>main.cpp\<close> is a HOL function
  on it. A call whose effect leaves the processor (a pin write, a display flush, an
  HTTP send, a radio command) also appends an event to a trace, so properties can
  speak about the order of effects. The libraries the sketch calls are not in the
  repository; they are modelled from their documented behaviour, only as far as the
  sketch uses them.

  \<^bold>\<open>Theories, in import order.\<close>
  \<^item> \<open>Prelude\<close>: the 8- and 16-bit machine integers, pin levels, decimal printing
    (\<open>dec_string\<close>) and its parser, and the two's-complement lemmas of the 16-bit
    text cursor (\<open>sint_row16\<close>, \<open>row16_visible\<close>).
  \<^item> \<open>IPAddress\<close>: \<^verbatim>\<open>IPAddress::toString\<close> and \<^verbatim>\<open>fromString\<close> for IPv4. The
    printed text parses back to the address, and it is 7 to 15 characters long.
  \<^item> \<open>Gfx\<close>: the Adafruit GFX/SSD1306 text path: the cursor as \<^verbatim>\<open>int16_t\<close>
    words, the frame buffer as the glyphs drawn since the last \<^verbatim>\<open>clearDisplay\<close>,
    and the panel as what the last \<^verbatim>\<open>display()\<close> sent. Glyphs wholly off the
    panel are clipped. \<open>gfx_println_plain\<close> gives the effect of printing a line
    that fits.
  \<^item> \<open>WebServer\<close>: \<^verbatim>\<open>ESP8266WebServer\<close> registration (\<^verbatim>\<open>on\<close>,
    \<^verbatim>\<open>onNotFound\<close>, \<^verbatim>\<open>begin\<close>), the request accessors, \<^verbatim>\<open>send\<close>, and routing.
    The handler type is a parameter.
  \<^item> \<open>Station\<close>: \<^verbatim>\<open>WiFi.mode/begin/status/localIP\<close> and \<^verbatim>\<open>MDNS.begin/update\<close>.
    The radio is an oracle: the \<open>k\<close>-th status or address query of the station
    returns \<open>radio_status k\<close> or \<open>radio_ip k\<close>.
  \<^item> \<open>Globals\<close>: the globals of \<^verbatim>\<open>main.cpp\<close> (lines 13--24) as the record
    \<open>globals\<close>, and the environment \<open>env\<close> (the \<^verbatim>\<open>config.h\<close> credentials and what
    the hardware answers). It also holds one function per library call the sketch
    makes, named after the call (\<open>Serial_println\<close>, \<open>Display_begin\<close>,
    \<open>Server_send\<close>, ...).
  \<^item> \<open>Display\<close>: \<^verbatim>\<open>displayIP\<close> (lines 26--37) and \<^verbatim>\<open>setupScreen\<close> (65--73).
    The failed start is the outcome \<open>Halted\<close>, the model of \<^verbatim>\<open>for (;;);\<close>.
  \<^item> \<open>Handlers\<close>: \<^verbatim>\<open>handleRoot\<close> (39--44) and \<^verbatim>\<open>handleNotFound\<close> (46--63).
    The \<^verbatim>\<open>uint8_t\<close> argument loop is \<open>notFound_args\<close>.
  \<^item> \<open>WiFiSetup\<close>: \<^verbatim>\<open>setupWiFi\<close> (75--100). Its polling loop is \<open>wifi_wait\<close>,
    and each round makes two status queries.
  \<^item> \<open>Sketch\<close>: \<^verbatim>\<open>setupServer\<close> (102--115), \<^verbatim>\<open>setup\<close> (117--125, \<open>setup_fn\<close>),
    \<^verbatim>\<open>loop\<close> (127--134, \<open>loop_fn\<close>) and the library's \<^verbatim>\<open>handleClient\<close> for one
    parsed request. The states of a running device are the inductive set
    \<open>reachable e\<close>: the state \<^verbatim>\<open>setup\<close> leaves when it returns, closed under
    \<open>loop_fn\<close> with any pending request or none. The invariant \<open>sketch_inv\<close>
    holds on all of them (\<open>reachable_inv\<close>, by rule induction). It says that the
    routes are the two of \<^verbatim>\<open>setupServer\<close>, the LED is low, the cursor stands at
    16 rows per redraw, and the panel is the last frame drawn (empty before the
    first).
  \<^item> \<open>Loop\<close>: one iteration of \<^verbatim>\<open>loop\<close> in a running device.
    \<open>loop_fn_serves\<close>, \<open>loop_fn_hangs\<close>, \<open>loop_fn_display\<close>, \<open>loop_fn_trace\<close>
    and \<open>loop_panel_rows\<close> are what the cross-component properties are built from.
    The theory also boots the sample environments.
  \<^item> \<open>Request\<close>: how the web server library turns a request target into the
    request the handlers see (\<^verbatim>\<open>_parseArguments\<close>, \<^verbatim>\<open>urlDecode\<close>). It also
    holds the client's percent-encoding \<open>query_of\<close>, which parses back to its
    arguments. The index loop of \<^verbatim>\<open>_parseArguments\<close> is a terminating
    \<^theory_text>\<open>function\<close>, proved equal to a segment-by-segment reference reading.
  \<^item> \<open>Contract\<close>: the HTTP contract of the spec as an abstract device.
    \<open>http_spec\<close> is the reply a request should get, and \<open>decode_reply\<close> reads a
    sent response the way a client does. \<open>abs_log\<close> maps the device state to the
    replies sent so far, and \<open>spec_step\<close> is one step of the abstract device.
    \<open>run_loops_refines\<close> is the simulation: any run of loop iterations over
    well-formed requests maps to the abstract run.
  \<^item> \<open>Wire\<close>: the HTTP behaviour for requests given as target text: the end-to-end
    round trip of arguments, and the ambiguity an encoded line break causes.

  \<^bold>\<open>Properties.\<close>
  \<^item> This theory holds the properties that span components:
    \<^item> Each loop iteration serves the root request or the diagnostic 404, or hangs
      on 256 arguments.
    \<^item> A run of iterations refines the abstract HTTP contract, and one bad request
      stops every later one.
    \<^item> The panel goes blank after four redraws. While it is readable, its second
      row parses back to the station's address, or reads \<^verbatim>\<open>(IP unset)\<close>
      before the station has one.
    \<^item> The server is started once, and mDNS is polled once per iteration.
    \<^item> An idle iteration sends nothing. A dispatched handler touches only the
      LED, the server's sent responses and the event trace.
    \<^item> \<^verbatim>\<open>setup\<close> halts on a display failure. An endless Wi-Fi wait leaves no
      loop state reachable.
    \<^item> \<^verbatim>\<open>setup\<close> survives a wrong password, makes its calls in order (the LED
      pin first), and writes a known serial log in each outcome.
  \<^item> The component theories hold the properties of each function:
    \<^item> the exact responses of the handlers;
    \<^item> the round trip of the 404 body, and its ambiguity when an argument holds a
      line break;
    \<^item> the divergence of the argument loop;
    \<^item> the row \<^verbatim>\<open>displayIP\<close> draws at;
    \<^item> when the Wi-Fi wait returns, and how long it takes (500 ms per round).

  \<^bold>\<open>Loops, bounds and non-termination.\<close>
  \<^item> No fuel is used. The two loops that may not end are
    \<^theory_text>\<open>partial_function (option)\<close> definitions, and \<open>None\<close> is divergence.
    \<open>notFound_args\<close> runs over an 8-bit counter, so it wraps at 256.
    \<open>wifi_wait\<close> polls the oracle.
  \<^item> Termination is proved as existence of a result. Divergence is proved by the
    fixed-point induction rule of the partial function.
  \<^item> The text cursor is a 16-bit word, and a redraw moves it 16 rows. The panel
    therefore repeats with period 4096 redraws, and the address is visible in the
    first 4 redraws of each period.
  \<^item> A line of the panel holds 21 glyphs of 6 pixels, and an address prints in at
    most 15 characters.

  \<^bold>\<open>Not modelled.\<close>
  \<^item> The pixels of the glyphs, and the I2C and SPI transfers.
  \<^item> The TCP connection, the request line and the headers inside
    \<^verbatim>\<open>handleClient\<close>. A request arrives as its method and target (\<open>Request\<close>)
    or already parsed, or none. POST form bodies are not modelled.
  \<^item> The Wi-Fi association protocol and the mDNS packets, and timing beyond the
    \<^verbatim>\<open>delay\<close> counter.
  \<^item> That \<^verbatim>\<open>LED_BUILTIN\<close> is active-low on most boards; the model records the
    written level.
  \<^item> Interrupts and the background Wi-Fi tasks of the SDK.
\<close>

subsection \<open>Properties of setup\<close>

text \<open>
  C5. When the display cannot start, \<^verbatim>\<open>setup\<close> halts in \<^verbatim>\<open>setupScreen\<close> after
  logging the failure: no later step runs, so the station interface, the web server
  and the mDNS responder are untouched and the last hardware event is the failed
  \<^verbatim>\<open>display.begin\<close>.
\<close>

theorem setup_display_failure:
  assumes "\<not> hw_display_ok e"
  shows "\<exists>g. setup_fn e g0 = Some (Halted g) \<and>
           g_trace g = g_trace g0 @ [SerialBegin 9600, PinModeOutput, DisplayBegin False] \<and>
           g_serial g = g_serial g0 @ ''SSD1306 allocation failed'' @ crlf \<and>
           g_wifi g = g_wifi g0 \<and> g_server g = g_server g0 \<and> g_mdns g = g_mdns g0"
  using assms by (simp add: setup_fn_Halted lib_defs)

theorem setup_display_failure_witness:
  "\<exists>g. setup_fn dead_display_env globals_init = Some (Halted g) \<and>
     g_trace g = [SerialBegin 9600, PinModeOutput, DisplayBegin False] \<and>
     g_serial g = ''SSD1306 allocation failed'' @ crlf \<and>
     g_wifi g = station_new \<and> g_server g = server_new 80 \<and> g_mdns g = mdns_new"
proof -
  have "\<not> hw_display_ok dead_display_env" by (simp add: dead_display_env_def)
  from setup_display_failure [OF this, of globals_init] show ?thesis by (simp add: globals_init_def)
qed

text \<open>
  C11. A \<^verbatim>\<open>setup\<close> that returns has made its hardware calls in the order of the
  source: serial port, LED pin, display, station mode and join, mDNS (whether or
  not it starts), the two routes, and the server.
\<close>

theorem setup_trace:
  assumes "setup_fn e g0 = Some (Running g)"
  shows "g_trace g = g_trace g0 @ [SerialBegin 9600, PinModeOutput, DisplayBegin True, WiFiMode WIFI_STA,
           WiFiBegin, MDNSBegin (hw_mdns_ok e), ServerOn ''/'', ServerOnNotFound, ServerBegin]"
  using assms by (rule boot_trace)

theorem setup_trace_witness:
  "g_trace (boot_state home_env) =
     [SerialBegin 9600, PinModeOutput, DisplayBegin True, WiFiMode WIFI_STA,
      WiFiBegin, MDNSBegin True, ServerOn ''/'', ServerOnNotFound, ServerBegin]"
  using setup_trace [OF home_env_boots] by (simp add: home_env_def globals_init_def)

text \<open>
  C6. A wrong Wi-Fi password is not fatal: \<^verbatim>\<open>setupWiFi\<close> returns early and
  \<^verbatim>\<open>setup\<close> still registers both routes, starts the web server and tries mDNS.
\<close>

theorem setup_wrong_password_serves:
  assumes "hw_display_ok e" "\<forall>i<j. \<not> wifi_exit (answers e) 0 i"
    and "answers e (2 * j) \<noteq> WL_CONNECTED" "answers e (2 * j + 1) = WL_WRONG_PASSWORD"
  shows "\<exists>g. setup_fn e globals_init = Some (Running g) \<and> routes_ok (g_server g) \<and>
           mdns_host (g_mdns g) = (if hw_mdns_ok e then Some ''esp8266'' else None)"
proof -
  let ?g2 = "display_started (pinMode_LED (Serial_begin 9600 globals_init))"
  have p: "polls ?g2 = 0" by (simp add: display_started_def globals_init_def lib_defs)
  have "wifi_exit (answers e) (polls ?g2) j" using assms(4) p by (simp add: wifi_exit_def)
  then obtain g4 where w: "setupWiFi e ?g2 = Some g4"
    using assms(2) p setupWiFi_some by fastforce
  have "g_server g4 = g_server ?g2" using setupWiFi_io [OF w] by simp
  moreover have "mdns_host (g_mdns g4) = None"
    using setupWiFi_io [OF w] by (simp add: display_started_def globals_init_def lib_defs)
  ultimately show ?thesis
    using assms(1) w setup_fn_Running [of e globals_init "setupServer e g4"]
    by (simp add: setupServer_def routes_ok_def display_started_def globals_init_def lib_defs Let_def)
qed

theorem setup_wrong_password_serves_witness:
  "\<exists>g. setup_fn wrong_psk_env globals_init = Some (Running g) \<and> routes_ok (g_server g) \<and>
     mdns_host (g_mdns g) = Some ''esp8266''"
proof -
  have h: "hw_display_ok wrong_psk_env" "\<forall>i<1. \<not> wifi_exit (answers wrong_psk_env) 0 i"
    "answers wrong_psk_env (2 * 1) \<noteq> WL_CONNECTED" "answers wrong_psk_env (2 * 1 + 1) = WL_WRONG_PASSWORD"
    by (simp_all add: wrong_psk_env_def wifi_exit_def)
  from setup_wrong_password_serves [OF h] show ?thesis by (simp add: wrong_psk_env_def)
qed

subsection \<open>Properties of the main loop\<close>

text \<open>
  C10. In every reachable state the web server is running with exactly the two
  routes of \<^verbatim>\<open>setupServer\<close> (the root handler for \<^verbatim>\<open>/\<close> and any method, and the
  not-found handler), and the LED is low between loop iterations.
\<close>

theorem reachable_routes_led:
  assumes "reachable e g"
  shows "srv_handlers (g_server g) = [(''/'', HTTP_ANY, HandleRoot)] \<and>
         srv_notFound (g_server g) = Some HandleNotFound \<and> srv_began (g_server g) \<and> g_led g = LOW"
  using reachable_inv [OF assms] by (simp add: sketch_inv_def routes_ok_def)

theorem reachable_routes_led_witness:
  "srv_handlers (g_server (boot_state home_env)) = [(''/'', HTTP_ANY, HandleRoot)] \<and>
   srv_notFound (g_server (boot_state home_env)) = Some HandleNotFound \<and>
   srv_began (g_server (boot_state home_env)) \<and> g_led (boot_state home_env) = LOW"
  using reachable_routes_led [OF home_reachable] .

text \<open>
  C1. In a running device, a loop iteration with a pending request for \<^verbatim>\<open>/\<close>, with
  any method and any arguments, sends exactly the 200 greeting, then polls mDNS and
  redraws the display, in that order.
\<close>

theorem loop_root_request:
  assumes "reachable e g" "req_uri r = ''/''"
  shows "\<exists>g'. loop_fn e (Some r) g = Some g' \<and>
           srv_sent (g_server g') = srv_sent (g_server g) @
             [\<lparr>resp_code = 200, resp_type = ''text/plain'', resp_body = ''hello from esp8266!'' @ crlf\<rparr>] \<and>
           g_trace g' = g_trace g @ [PinWrite HIGH, HttpSend 200, PinWrite LOW, MDNSUpdate, DisplayFlush]"
  using loop_fn_serves [OF reachable_inv [OF assms(1)], of r e] assms(2) by (simp add: served_def)

theorem loop_root_request_witness:
  "\<exists>g'. loop_fn home_env (Some delete_root) (boot_state home_env) = Some g' \<and>
     srv_sent (g_server g') = srv_sent (g_server (boot_state home_env)) @
       [\<lparr>resp_code = 200, resp_type = ''text/plain'', resp_body = ''hello from esp8266!'' @ crlf\<rparr>] \<and>
     g_trace g' = g_trace (boot_state home_env) @ [PinWrite HIGH, HttpSend 200, PinWrite LOW, MDNSUpdate, DisplayFlush]"
  using loop_root_request [OF home_reachable, of delete_root] by (simp add: delete_root_def)

text \<open>
  C2. In a running device, a loop iteration with a pending request for any other
  path and fewer than 256 arguments sends exactly the diagnostic 404, then polls mDNS
  and redraws the display.
\<close>

theorem loop_other_request:
  assumes "reachable e g" "req_uri r \<noteq> ''/''" "length (req_args r) < 256"
  shows "\<exists>g'. loop_fn e (Some r) g = Some g' \<and>
           srv_sent (g_server g') = srv_sent (g_server g) @
             [\<lparr>resp_code = 404, resp_type = ''text/plain'', resp_body = notFound_body r\<rparr>] \<and>
           g_trace g' = g_trace g @ [PinWrite HIGH, HttpSend 404, PinWrite LOW, MDNSUpdate, DisplayFlush]"
  using loop_fn_serves [OF reachable_inv [OF assms(1)], of r e] assms(2,3) by (simp add: served_def)

theorem loop_other_request_witness:
  "\<exists>g'. loop_fn home_env (Some foo_request) (boot_state home_env) = Some g' \<and>
     srv_sent (g_server g') = srv_sent (g_server (boot_state home_env)) @
       [\<lparr>resp_code = 404, resp_type = ''text/plain'', resp_body = notFound_body foo_request\<rparr>] \<and>
     g_trace g' = g_trace (boot_state home_env) @ [PinWrite HIGH, HttpSend 404, PinWrite LOW, MDNSUpdate, DisplayFlush]"
  using loop_other_request [OF home_reachable, of foo_request] by (simp add: foo_request_def)

text \<open>
  C3. In a running device, one request for a path other than \<^verbatim>\<open>/\<close> with 256 or more
  arguments stops the device: that loop iteration never returns, so no later request
  is served, mDNS is no longer polled and the display is no longer redrawn.
\<close>

theorem loop_many_args_hangs:
  assumes "reachable e g" "req_uri r \<noteq> ''/''" "256 \<le> length (req_args r)"
  shows "loop_fn e (Some r) g = None"
  using loop_fn_hangs [OF reachable_inv [OF assms(1)] assms(2,3)] .

theorem loop_many_args_hangs_witness:
  "loop_fn home_env (Some many_args_request) (boot_state home_env) = None"
  using loop_many_args_hangs [OF home_reachable, of many_args_request] by (simp add: many_args_request_def)

text \<open>
  C4. In a running device, after \<open>n > 0\<close> loop iterations the panel is blank exactly
  when \<open>(n - 1) mod 4096 \<ge> 4\<close>: the address is shown during the first four iterations,
  then disappears below the panel, and reappears for four iterations each time the
  16-bit cursor wraps around.
\<close>

theorem reachable_panel_blank:
  assumes "reachable e g" "0 < redraws g"
  shows "panel (g_display g) = [] \<longleftrightarrow> 4 \<le> (redraws g - 1) mod 4096"
proof -
  have inv: "sketch_inv g" using assms(1) by (rule reachable_inv)
  then obtain ip where p: "panel (g_display g) =
      ip_frame ((g_display g)\<lparr>cursor_y := word_of_nat (16 * (redraws g - 1))\<rparr>) ip"
    using assms(2) by (auto simp: sketch_inv_def)
  have h: "gfx_height ((g_display g)\<lparr>cursor_y := word_of_nat (16 * (redraws g - 1))\<rparr>) = 64"
    using inv by (simp add: sketch_inv_def text_ready_def)
  show ?thesis
    using p ip_frame_row [OF h, of "redraws g - 1" ip] by simp
qed

theorem reachable_panel_blank_witness:
  "reachable home_env first_loop_state \<and> 0 < redraws first_loop_state \<and>
   panel (g_display first_loop_state) \<noteq> []"
proof -
  have r: "reachable home_env first_loop_state" by (rule reachable.step [OF home_reachable first_loop])
  have tr: "text_ready (g_display (boot_state home_env))"
    using reachable_inv [OF home_reachable] by (simp add: sketch_inv_def)
  have "\<exists>g'. loop_fn home_env None (boot_state home_env) = Some g' \<and>
          g_trace g' = g_trace (boot_state home_env) @ [MDNSUpdate, DisplayFlush]"
    using loop_fn_server [of None "boot_state home_env" "boot_state home_env" home_env] tr
    by (auto simp: Server_handleClient_def)
  then have "redraws first_loop_state = Suc (redraws (boot_state home_env))"
    using first_loop by (auto simp: redraws_def)
  moreover have "redraws (boot_state home_env) = 0"
    using boot_trace [OF home_env_boots] by (simp add: redraws_def globals_init_def)
  ultimately have n: "redraws first_loop_state = 1" by simp
  then show ?thesis using r reachable_panel_blank [OF r] by simp
qed

subsection \<open>Runs of the main loop against the HTTP contract\<close>

text \<open>
  C7. The device refines the abstract HTTP contract: from any reachable state, a run
  of loop iterations over a sequence of pending requests (each well-formed, or none)
  returns, and the replies it sends, read by a client, are exactly those of the
  abstract device \<open>spec_step\<close>, one per request and in request order.
\<close>

theorem run_loops_refinement:
  assumes "reachable e g" "list_all (pred_option req_ok) reqs"
  shows "map_option abs_log (run_loops e reqs g) = Some (fold spec_step reqs (abs_log g))"
  using run_loops_refines [OF assms] by auto

theorem run_loops_refinement_witness:
  "map_option abs_log (run_loops home_env [Some delete_root, None, Some foo_request] (boot_state home_env)) =
     Some (abs_log (boot_state home_env) @ [Some Greeting, Some (NotFound ''/foo'' 2 [(''a'', ''1''), (''b'', ''2'')])])"
proof -
  have "list_all (pred_option req_ok) [Some delete_root, None, Some foo_request]"
    by (simp add: req_ok_def delete_root_def foo_request_def field_ok_def)
  from run_loops_refinement [OF home_reachable this] show ?thesis
    by (simp add: http_spec_def delete_root_def foo_request_def numeral_2_eq_2)
qed

text \<open>
  C14. One request for a path other than \<^verbatim>\<open>/\<close> with 256 or more arguments, after
  any run of well-formed requests, stops the device: the run never returns, whatever
  requests come after it.
\<close>

theorem run_loops_hang:
  assumes "reachable e g" "list_all (pred_option req_ok) rs1"
    and "req_uri r \<noteq> ''/''" "256 \<le> length (req_args r)"
  shows "run_loops e (rs1 @ Some r # rs2) g = None"
proof -
  obtain g1 where "run_loops e rs1 g = Some g1" "reachable e g1"
    using run_loops_refines [OF assms(1,2)] by blast
  then show ?thesis
    using loop_fn_hangs [OF reachable_inv assms(3,4)] by (simp add: run_loops_append)
qed

theorem run_loops_hang_witness:
  "run_loops home_env [Some delete_root, Some many_args_request, None] (boot_state home_env) = None"
proof -
  have "list_all (pred_option req_ok) [Some delete_root]" by (simp add: req_ok_def delete_root_def)
  moreover have "req_uri many_args_request \<noteq> ''/''" "256 \<le> length (req_args many_args_request)"
    by (simp_all add: many_args_request_def)
  ultimately show ?thesis
    using run_loops_hang [OF home_reachable, of "[Some delete_root]" many_args_request "[None]"] by simp
qed

subsection \<open>What the panel shows\<close>

text \<open>
  C12. While the panel is readable (the first four redraws of each 4096), a loop
  iteration leaves the title on the upper text row and, on the row below, a text
  that parses back to the address the station reported: reading the panel and
  parsing its second row recovers the device's IP address.
\<close>

theorem loop_panel_roundtrip:
  assumes "reachable e g" "loop_fn e req g = Some g'" "redraws g mod 4096 < 4"
    and "ip_isSet (radio_ip (hw_radio e) (polls g))"
  shows "read_row (panel (g_display g')) (16 * int (redraws g mod 4096)) = ''IP Address'' \<and>
         ip_fromString (read_row (panel (g_display g')) (16 * int (redraws g mod 4096) + 8)) =
           Some (radio_ip (hw_radio e) (polls g))"
  using loop_panel_rows [OF reachable_inv [OF assms(1)] assms(2,3)] ip_toString_roundtrip [OF assms(4)] by simp

theorem loop_panel_roundtrip_witness:
  "read_row (panel (g_display first_loop_state)) 0 = ''IP Address'' \<and>
   ip_fromString (read_row (panel (g_display first_loop_state)) 8) = Some (IPv4 192 168 1 42)"
proof -
  have z: "redraws (boot_state home_env) = 0"
    by (simp add: redraws_def boot_trace [OF home_env_boots] globals_init_def)
  have h: "redraws (boot_state home_env) mod 4096 < 4"
    "ip_isSet (radio_ip (hw_radio home_env) (polls (boot_state home_env)))"
    by (simp add: z) (simp add: home_env_def ip_isSet_def)
  have "radio_ip (hw_radio home_env) (polls (boot_state home_env)) = IPv4 192 168 1 42"
    by (simp add: home_env_def)
  then show ?thesis
    using loop_panel_roundtrip [OF home_reachable first_loop h] z by simp
qed

subsection \<open>The serial log of a boot\<close>

text \<open>
  C16. When the display starts and the \<open>j\<close>-th round of the Wi-Fi wait is the first
  to see the connection, \<^verbatim>\<open>setup\<close> returns and the serial log is exactly: an empty
  line, the connecting message with one dot per round, the SSID, the address the
  station reports, the mDNS line when the responder started, and the server line.
\<close>

theorem setup_serial_log:
  assumes "hw_display_ok e" "\<forall>i<j. \<not> wifi_exit (answers e) 0 i" "answers e (2 * j) = WL_CONNECTED"
  shows "\<exists>g. setup_fn e globals_init = Some (Running g) \<and>
           g_serial g = crlf @ ''Connecting to WIFI'' @ replicate j (CHR ''.'') @ crlf @
             ''Connected to '' @ cfg_ssid e @ crlf @ ''IP address: '' @
             ip_toString (radio_ip (hw_radio e) (2 * j + 1)) @ crlf @
             (if hw_mdns_ok e then ''MDNS responder started'' @ crlf else []) @ ''HTTP server started'' @ crlf"
proof -
  let ?g2 = "display_started (pinMode_LED (Serial_begin 9600 globals_init))"
  have p: "polls ?g2 = 0" "g_serial ?g2 = []"
    by (simp_all add: display_started_def globals_init_def lib_defs)
  obtain g4 where w: "setupWiFi e ?g2 = Some g4"
    and s4: "g_serial g4 = crlf @ ''Connecting to WIFI'' @ replicate j (CHR ''.'') @ crlf @
             ''Connected to '' @ cfg_ssid e @ crlf @ ''IP address: '' @
             ip_toString (radio_ip (hw_radio e) (2 * j + 1)) @ crlf"
    using setupWiFi_connected [of j e ?g2] assms(2,3) p by auto
  have "setup_fn e globals_init = Some (Running (setupServer e g4))"
    using setup_fn_Running assms(1) w by blast
  then show ?thesis using s4 by (simp add: setupServer_serial)
qed

theorem setup_serial_log_witness:
  "\<exists>g. setup_fn home_env globals_init = Some (Running g) \<and>
     g_serial g = crlf @ ''Connecting to WIFI..'' @ crlf @ ''Connected to home'' @ crlf @
       ''IP address: 192.168.1.42'' @ crlf @ ''MDNS responder started'' @ crlf @ ''HTTP server started'' @ crlf"
proof -
  have h: "hw_display_ok home_env" "\<forall>i<2. \<not> wifi_exit (answers home_env) 0 i"
    "answers home_env (2 * 2) = WL_CONNECTED"
    by (auto simp: home_env_def wifi_exit_def less_2_cases_iff)
  have ip: "ip_toString (IPv4 192 168 1 42) = ''192.168.1.42''"
    by (simp add: ip_toString_def ip_isSet_def dec_string.simps)
  have r: "radio_ip (hw_radio home_env) (2 * 2 + 1) = IPv4 192 168 1 42" "cfg_ssid home_env = ''home''"
    "hw_mdns_ok home_env"
    by (simp_all add: home_env_def)
  from setup_serial_log [OF h] obtain g where run: "setup_fn home_env globals_init = Some (Running g)"
    and out: "g_serial g = crlf @ ''Connecting to WIFI'' @ replicate 2 (CHR ''.'') @ crlf @
             ''Connected to '' @ cfg_ssid home_env @ crlf @ ''IP address: '' @
             ip_toString (radio_ip (hw_radio home_env) (2 * 2 + 1)) @ crlf @
             (if hw_mdns_ok home_env then ''MDNS responder started'' @ crlf else []) @ ''HTTP server started'' @ crlf"
    by blast
  from out have "g_serial g = crlf @ ''Connecting to WIFI..'' @ crlf @ ''Connected to home'' @ crlf @
       ''IP address: 192.168.1.42'' @ crlf @ ''MDNS responder started'' @ crlf @ ''HTTP server started'' @ crlf"
    by (simp only: r ip if_True) (simp add: numeral_2_eq_2)
  with run show ?thesis by blast
qed

text \<open>
  C26. Before the station has an address (it reports 0.0.0.0 or 255.255.255.255),
  a loop iteration shows the text \<^verbatim>\<open>(IP unset)\<close> on the address row while the panel
  is readable: the default address string of the spec.
\<close>

theorem loop_panel_unset:
  assumes "reachable e g" "loop_fn e req g = Some g'" "redraws g mod 4096 < 4"
    and "\<not> ip_isSet (radio_ip (hw_radio e) (polls g))"
  shows "read_row (panel (g_display g')) (16 * int (redraws g mod 4096) + 8) = ''(IP unset)''"
  using loop_panel_rows [OF reachable_inv [OF assms(1)] assms(2,3)] assms(4) by (simp add: ip_toString_def)

theorem loop_panel_unset_witness:
  "\<exists>g'. loop_fn wrong_psk_env None (boot_state wrong_psk_env) = Some g' \<and>
     read_row (panel (g_display g')) 8 = ''(IP unset)''"
proof -
  have r: "reachable wrong_psk_env (boot_state wrong_psk_env)" by (rule reachable.boot [OF wrong_psk_boots])
  obtain g' where run: "loop_fn wrong_psk_env None (boot_state wrong_psk_env) = Some g'"
    using loop_fn_idle [OF reachable_inv [OF r]] by blast
  have z: "redraws (boot_state wrong_psk_env) = 0"
    by (simp add: redraws_def boot_trace [OF wrong_psk_boots] globals_init_def)
  have h: "redraws (boot_state wrong_psk_env) mod 4096 < 4"
    "\<not> ip_isSet (radio_ip (hw_radio wrong_psk_env) (polls (boot_state wrong_psk_env)))"
    by (simp add: z) (simp add: wrong_psk_env_def ip_isSet_def)
  show ?thesis using loop_panel_unset [OF r run h] z run by auto
qed

subsection \<open>Start-up happens once, mDNS is polled every iteration\<close>

text \<open>
  C15. In every reachable state the web server has been started exactly once and each
  of its two routes registered exactly once, and the mDNS responder has been polled
  exactly once per display redraw, that is once per completed loop iteration.
\<close>

theorem reachable_started_once:
  assumes "reachable e g"
  shows "count_list (g_trace g) ServerBegin = 1 \<and> count_list (g_trace g) (ServerOn ''/'') = 1 \<and>
         count_list (g_trace g) ServerOnNotFound = 1 \<and> mdns_updates (g_mdns g) = redraws g"
  using assms
proof (induction rule: reachable.induct)
  case (boot g)
  then show ?case
    using boot_trace [OF boot] boot_mdns [OF boot] by (simp add: redraws_def globals_init_def lib_defs)
next
  case (step g r g')
  then show ?case
    using loop_fn_trace [OF reachable_inv [OF step.hyps(1)] step.hyps(2)] by (auto simp: redraws_def)
qed

theorem reachable_started_once_witness:
  "count_list (g_trace first_loop_state) ServerBegin = 1 \<and>
   mdns_updates (g_mdns first_loop_state) = redraws first_loop_state"
  using reachable_started_once [OF reachable.step [OF home_reachable first_loop]] by simp

subsection \<open>What never runs, and what runs first\<close>

text \<open>
  C30. When the radio never reports a connection or a wrong password, the device never
  reaches the main loop: \<^verbatim>\<open>setup\<close> is stuck in the Wi-Fi wait and no state is
  reachable, so the web server is never started.
\<close>

theorem wifi_hang_unreachable:
  assumes "\<forall>j. \<not> wifi_exit (answers e) 0 j"
  shows "\<not> reachable e g"
proof
  assume "reachable e g"
  then have "\<exists>j. wifi_exit (answers e) 0 j"
  proof (induction rule: reachable.induct)
    case (boot g)
    let ?g2 = "display_started (pinMode_LED (Serial_begin 9600 globals_init))"
    obtain g4 where "setupWiFi e ?g2 = Some g4" using boot setup_fn_Running by blast
    then obtain r where "wifi_wait e (wifi_started e ?g2) = Some r"
      by (auto simp: setupWiFi_wait split: option.splits)
    then have "\<exists>j. wifi_exit (answers e) (polls (wifi_started e ?g2)) j" by (rule wifi_wait_returns)
    then show ?case by (simp add: display_started_def globals_init_def lib_defs)
  qed
  with assms show False by simp
qed

theorem wifi_hang_unreachable_witness: "\<not> reachable no_ap_env globals_init"
  using wifi_hang_unreachable [of no_ap_env globals_init] by (simp add: no_ap_env_def wifi_exit_def)

text \<open>
  C31. In every reachable state the LED pin was configured as an output exactly once,
  right after the serial port was opened and before any other hardware call, so
  every write to it comes after.
\<close>

theorem reachable_pin_configured:
  assumes "reachable e g"
  shows "take 2 (g_trace g) = [SerialBegin 9600, PinModeOutput] \<and> count_list (g_trace g) PinModeOutput = 1"
  using assms
proof (induction rule: reachable.induct)
  case (boot g)
  then show ?case using boot_trace [OF boot] by (simp add: globals_init_def)
next
  case (step g r g')
  have "length (take 2 (g_trace g)) = 2" using step.IH by simp
  then have "length (g_trace g) \<ge> 2" by simp
  then show ?case
    using step.IH loop_fn_trace [OF reachable_inv [OF step.hyps(1)] step.hyps(2)] by auto
qed

theorem reachable_pin_configured_witness:
  "take 2 (g_trace first_loop_state) = [SerialBegin 9600, PinModeOutput] \<and>
   count_list (g_trace first_loop_state) PinModeOutput = 1"
  using reachable_pin_configured [OF reachable.step [OF home_reachable first_loop]] .

text \<open>
  C32. When round \<open>j\<close> of the Wi-Fi wait sees a wrong password, \<^verbatim>\<open>setup\<close>
  returns and the serial log is the connecting line with \<open>j + 1\<close> dots and the error
  message, with no line break after it, so the mDNS message (or the server message)
  continues on the same line.
\<close>

theorem setup_wrong_password_log:
  assumes "hw_display_ok e" "\<forall>i<j. \<not> wifi_exit (answers e) 0 i"
    and "answers e (2 * j) \<noteq> WL_CONNECTED" "answers e (2 * j + 1) = WL_WRONG_PASSWORD"
  shows "\<exists>g. setup_fn e globals_init = Some (Running g) \<and>
           g_serial g = crlf @ ''Connecting to WIFI'' @ replicate (Suc j) (CHR ''.'') @
             ''INCORRECT WIFI PASSWORD'' @
             (if hw_mdns_ok e then ''MDNS responder started'' @ crlf else []) @ ''HTTP server started'' @ crlf"
proof -
  let ?g2 = "display_started (pinMode_LED (Serial_begin 9600 globals_init))"
  have p: "polls ?g2 = 0" "g_serial ?g2 = []"
    by (simp_all add: display_started_def globals_init_def lib_defs)
  obtain g4 where w: "setupWiFi e ?g2 = Some g4"
    and s4: "g_serial g4 = crlf @ ''Connecting to WIFI'' @ replicate (Suc j) (CHR ''.'') @ ''INCORRECT WIFI PASSWORD''"
    using setupWiFi_wrong_serial [of j e ?g2] assms(2-4) p by auto
  have "setup_fn e globals_init = Some (Running (setupServer e g4))"
    using setup_fn_Running assms(1) w by blast
  then show ?thesis using s4 by (simp add: setupServer_serial)
qed

theorem setup_wrong_password_log_witness:
  "\<exists>g. setup_fn wrong_psk_env globals_init = Some (Running g) \<and>
     g_serial g = crlf @ ''Connecting to WIFI..INCORRECT WIFI PASSWORDMDNS responder started'' @ crlf @
       ''HTTP server started'' @ crlf"
proof -
  have h: "hw_display_ok wrong_psk_env" "\<forall>i<1. \<not> wifi_exit (answers wrong_psk_env) 0 i"
    "answers wrong_psk_env (2 * 1) \<noteq> WL_CONNECTED" "answers wrong_psk_env (2 * 1 + 1) = WL_WRONG_PASSWORD"
    by (simp_all add: wrong_psk_env_def wifi_exit_def)
  have m: "hw_mdns_ok wrong_psk_env" by (simp add: wrong_psk_env_def)
  show ?thesis using setup_wrong_password_log [OF h] m by simp
qed

subsection \<open>An idle iteration, and what a handler may touch\<close>

text \<open>
  C33. In a running device, a loop iteration with no pending request returns, sends
  nothing, polls mDNS and redraws the display (in that order, and nothing else), and
  leaves the LED low.
\<close>

theorem loop_idle:
  assumes "reachable e g"
  shows "\<exists>g'. loop_fn e None g = Some g' \<and> srv_sent (g_server g') = srv_sent (g_server g) \<and>
           g_trace g' = g_trace g @ [MDNSUpdate, DisplayFlush] \<and> g_led g' = LOW"
proof -
  have inv: "sketch_inv g" using assms by (rule reachable_inv)
  then have "text_ready (g_display g)" by (simp add: sketch_inv_def)
  then obtain g' where run: "loop_fn e None g = Some g'" "g_server g' = g_server g"
    "g_trace g' = g_trace g @ [MDNSUpdate, DisplayFlush]"
    using loop_fn_server [of None g g e] by (auto simp: Server_handleClient_def)
  have "g_led g' = LOW" using reachable_inv [OF reachable.step [OF assms run(1)]] by (simp add: sketch_inv_def)
  then show ?thesis using run by simp
qed

theorem loop_idle_witness:
  "\<exists>g'. loop_fn home_env None (boot_state home_env) = Some g' \<and>
     srv_sent (g_server g') = srv_sent (g_server (boot_state home_env)) \<and>
     g_trace g' = g_trace (boot_state home_env) @ [MDNSUpdate, DisplayFlush] \<and> g_led g' = LOW"
  using loop_idle [OF home_reachable] .

text \<open>
  C34. A handler the server dispatches to touches only what it should: the display,
  the station, the mDNS responder, the serial log and the server's routes are left as
  they were, and exactly one response is appended to what the server has sent.
\<close>

theorem handlers_frame:
  assumes "run_handler h g = Some g'"
  shows "g_display g' = g_display g \<and> g_wifi g' = g_wifi g \<and> g_mdns g' = g_mdns g \<and> g_serial g' = g_serial g \<and>
         srv_handlers (g_server g') = srv_handlers (g_server g) \<and> srv_notFound (g_server g') = srv_notFound (g_server g) \<and>
         srv_began (g_server g') = srv_began (g_server g) \<and>
         (\<exists>resp. srv_sent (g_server g') = srv_sent (g_server g) @ [resp])"
  using assms
  by (cases h) (auto simp: run_handler_def handleRoot_def handleNotFound_def lib_defs Let_def split: option.splits)

theorem handlers_frame_witness:
  "g_display (handleRoot globals_init) = g_display globals_init \<and>
   (\<exists>resp. srv_sent (g_server (handleRoot globals_init)) = srv_sent (g_server globals_init) @ [resp])"
  using handlers_frame [of HandleRoot globals_init "handleRoot globals_init"] by (simp add: run_handler_def)

end
